theory Spec2Isabelle
  imports Complex_Main
begin

unbundle bit_operations_syntax

section \<open>The FMI 3.0 template engine of fmusdk (fmu3Template.h, fmu3Template.c)\<close>

text \<open>
  The engine is the C file \<^verbatim>\<open>fmu3Template.c\<close>, which every model includes after
  defining a handful of macros, two tables and five hook functions. The embedding
  below follows the C text function by function. Conventions:
  \<^item> \<^verbatim>\<open>fmi3Real\<close> is a C double. A finite double is a real number, so its values are
    of type \<open>real\<close>. What \<^verbatim>\<open>+\<close>, \<^verbatim>\<open>-\<close>, \<^verbatim>\<open>*\<close> and \<^verbatim>\<open>/\<close> on doubles and the reading of
    a decimal literal round to is not fixed here: these operations are a parameter, the
    \<open>arithmetic\<close> a model is built with, and every general statement below holds for
    whatever they are. Comparison, negation and the conversion of an integer constant
    are exact. Infinities and NaN are not represented;
  \<^item> unsigned counts and value references (\<^verbatim>\<open>size_t\<close>, \<^verbatim>\<open>fmi3ValueReference\<close>) are \<open>nat\<close>;
    the one narrowing conversion of the source (\<^verbatim>\<open>size_t\<close> to \<^verbatim>\<open>int\<close> in the calls of
    \<^verbatim>\<open>invalidNumber\<close>) is written out;
  \<^item> a pointer argument is an \<open>option\<close>: \<open>None\<close> is \<^verbatim>\<open>NULL\<close>, \<open>Some xs\<close> an array with
    the elements \<open>xs\<close>;
  \<^item> a C operation with undefined behaviour (an access outside an array, a \<^verbatim>\<open>NULL\<close>
    dereference, memory read at another type than it was written) is the result
    \<open>Inl\<close> of a \<open>fault\<close>; everything the code defines is an \<open>Inr\<close>;
  \<^item> the host's logger callback is modelled by the list of the messages handed to it
    (newest first), kept in the instance; a message is recorded with its status, its
    category and its format string (the formatted arguments are not modelled).
\<close>

subsection \<open>Types of the FMI headers\<close>

text \<open>
  Modelled from the spec: the header \<^verbatim>\<open>fmi3Functions.h\<close> with the declarations of
  \<^verbatim>\<open>fmi3Status\<close>, \<^verbatim>\<open>fmi3Type\<close>, \<^verbatim>\<open>fmi3StatusKind\<close> and \<^verbatim>\<open>fmi3EventInfo\<close> is not among
  the sources. The constructors and fields are the ones the sources use.
\<close>

datatype fmi3Status = fmi3OK | fmi3Warning | fmi3Discard | fmi3Error | fmi3Fatal | fmi3Pending

datatype fmi3Type = fmi3ModelExchange | fmi3CoSimulation

datatype fmi3StatusKind = fmi3DoStepStatus | fmi3PendingStatus | fmi3LastSuccessfulTime | fmi3Terminated

record fmi3EventInfo =
  newDiscreteStatesNeeded :: bool
  terminateSimulation :: bool
  nominalsOfContinuousStatesChanged :: bool
  valuesOfContinuousStatesChanged :: bool
  nextEventTimeDefined :: bool
  nextEventTime :: real

subsection \<open>fmu3Template.h\<close>

definition LOG_ALL :: nat where "LOG_ALL = 0"
definition LOG_ERROR :: nat where "LOG_ERROR = 1"
definition LOG_FMI_CALL :: nat where "LOG_FMI_CALL = 2"
definition LOG_EVENT :: nat where "LOG_EVENT = 3"
definition NUMBER_OF_CATEGORIES :: nat where "NUMBER_OF_CATEGORIES = 4"

datatype ModelState =
    modelStartAndEnd | modelInstantiated | modelInitializationMode
  | modelEventMode | modelContinuousTimeMode
  | modelStepComplete | modelStepInProgress | modelStepFailed | modelStepCanceled
  | modelTerminated | modelError | modelFatal

text \<open>The enumerators are the bits \<^verbatim>\<open>1<<0\<close> to \<^verbatim>\<open>1<<11\<close> of a C int.\<close>

fun enum_val :: "ModelState \<Rightarrow> int" where
  "enum_val modelStartAndEnd = push_bit 0 1"
| "enum_val modelInstantiated = push_bit 1 1"
| "enum_val modelInitializationMode = push_bit 2 1"
| "enum_val modelEventMode = push_bit 3 1"
| "enum_val modelContinuousTimeMode = push_bit 4 1"
| "enum_val modelStepComplete = push_bit 5 1"
| "enum_val modelStepInProgress = push_bit 6 1"
| "enum_val modelStepFailed = push_bit 7 1"
| "enum_val modelStepCanceled = push_bit 8 1"
| "enum_val modelTerminated = push_bit 9 1"
| "enum_val modelError = push_bit 10 1"
| "enum_val modelFatal = push_bit 11 1"

definition mask_of :: "ModelState list \<Rightarrow> int" where
  "mask_of ss = foldr (\<lambda>s m. enum_val s OR m) ss 0"

definition MASK_fmi3SetDebugLogging :: int where
  "MASK_fmi3SetDebugLogging = mask_of [modelInstantiated, modelInitializationMode,
     modelEventMode, modelContinuousTimeMode,
     modelStepComplete, modelStepInProgress, modelStepFailed, modelStepCanceled,
     modelTerminated, modelError]"

definition MASK_fmi3FreeInstance :: int where
  "MASK_fmi3FreeInstance = mask_of [modelInstantiated, modelInitializationMode,
     modelEventMode, modelContinuousTimeMode,
     modelStepComplete, modelStepFailed, modelStepCanceled,
     modelTerminated, modelError]"

definition MASK_fmi3SetupExperiment :: int where
  "MASK_fmi3SetupExperiment = enum_val modelInstantiated"

definition MASK_fmi3EnterInitializationMode :: int where
  "MASK_fmi3EnterInitializationMode = enum_val modelInstantiated"

definition MASK_fmi3ExitInitializationMode :: int where
  "MASK_fmi3ExitInitializationMode = enum_val modelInitializationMode"

definition MASK_fmi3Terminate :: int where
  "MASK_fmi3Terminate = mask_of [modelEventMode, modelContinuousTimeMode,
     modelStepComplete, modelStepFailed]"

definition MASK_fmi3Reset :: int where
  "MASK_fmi3Reset = MASK_fmi3FreeInstance"

definition MASK_fmi3GetReal :: int where
  "MASK_fmi3GetReal = mask_of [modelInitializationMode,
     modelEventMode, modelContinuousTimeMode,
     modelStepComplete, modelStepFailed, modelStepCanceled,
     modelTerminated, modelError]"

definition MASK_fmi3GetInteger :: int where "MASK_fmi3GetInteger = MASK_fmi3GetReal"
definition MASK_fmi3GetBoolean :: int where "MASK_fmi3GetBoolean = MASK_fmi3GetReal"
definition MASK_fmi3GetString :: int where "MASK_fmi3GetString = MASK_fmi3GetReal"

definition MASK_fmi3SetReal :: int where
  "MASK_fmi3SetReal = mask_of [modelInstantiated, modelInitializationMode,
     modelEventMode, modelContinuousTimeMode,
     modelStepComplete]"

definition MASK_fmi3SetInteger :: int where
  "MASK_fmi3SetInteger = mask_of [modelInstantiated, modelInitializationMode,
     modelEventMode,
     modelStepComplete]"

definition MASK_fmi3SetBoolean :: int where "MASK_fmi3SetBoolean = MASK_fmi3SetInteger"
definition MASK_fmi3SetString :: int where "MASK_fmi3SetString = MASK_fmi3SetInteger"

definition MASK_fmi3GetFMUstate :: int where "MASK_fmi3GetFMUstate = MASK_fmi3FreeInstance"
definition MASK_fmi3SetFMUstate :: int where "MASK_fmi3SetFMUstate = MASK_fmi3FreeInstance"
definition MASK_fmi3FreeFMUstate :: int where "MASK_fmi3FreeFMUstate = MASK_fmi3FreeInstance"
definition MASK_fmi3SerializedFMUstateSize :: int where
  "MASK_fmi3SerializedFMUstateSize = MASK_fmi3FreeInstance"
definition MASK_fmi3SerializeFMUstate :: int where
  "MASK_fmi3SerializeFMUstate = MASK_fmi3FreeInstance"
definition MASK_fmi3DeSerializeFMUstate :: int where
  "MASK_fmi3DeSerializeFMUstate = MASK_fmi3FreeInstance"

definition MASK_fmi3GetDirectionalDerivative :: int where
  "MASK_fmi3GetDirectionalDerivative = mask_of [modelInitializationMode,
     modelEventMode, modelContinuousTimeMode,
     modelStepComplete, modelStepFailed, modelStepCanceled,
     modelTerminated, modelError]"

definition MASK_fmi3EnterEventMode :: int where
  "MASK_fmi3EnterEventMode = mask_of [modelEventMode, modelContinuousTimeMode]"
definition MASK_fmi3NewDiscreteStates :: int where
  "MASK_fmi3NewDiscreteStates = enum_val modelEventMode"
definition MASK_fmi3EnterContinuousTimeMode :: int where
  "MASK_fmi3EnterContinuousTimeMode = enum_val modelEventMode"
definition MASK_fmi3CompletedIntegratorStep :: int where
  "MASK_fmi3CompletedIntegratorStep = enum_val modelContinuousTimeMode"
definition MASK_fmi3SetTime :: int where
  "MASK_fmi3SetTime = mask_of [modelEventMode, modelContinuousTimeMode]"
definition MASK_fmi3SetContinuousStates :: int where
  "MASK_fmi3SetContinuousStates = enum_val modelContinuousTimeMode"
definition MASK_fmi3GetEventIndicators :: int where
  "MASK_fmi3GetEventIndicators = mask_of [modelInitializationMode,
     modelEventMode, modelContinuousTimeMode,
     modelTerminated, modelError]"
definition MASK_fmi3GetContinuousStates :: int where
  "MASK_fmi3GetContinuousStates = MASK_fmi3GetEventIndicators"
definition MASK_fmi3GetDerivatives :: int where
  "MASK_fmi3GetDerivatives = mask_of [modelEventMode, modelContinuousTimeMode,
     modelTerminated, modelError]"
definition MASK_fmi3GetNominalsOfContinuousStates :: int where
  "MASK_fmi3GetNominalsOfContinuousStates = mask_of [modelInstantiated,
     modelEventMode, modelContinuousTimeMode,
     modelTerminated, modelError]"

definition MASK_fmi3SetRealInputDerivatives :: int where
  "MASK_fmi3SetRealInputDerivatives = mask_of [modelInstantiated, modelInitializationMode,
     modelStepComplete]"
definition MASK_fmi3GetRealOutputDerivatives :: int where
  "MASK_fmi3GetRealOutputDerivatives = mask_of [modelStepComplete, modelStepFailed,
     modelStepCanceled, modelTerminated, modelError]"
definition MASK_fmi3DoStep :: int where
  "MASK_fmi3DoStep = enum_val modelStepComplete"
definition MASK_fmi3CancelStep :: int where
  "MASK_fmi3CancelStep = enum_val modelStepInProgress"
definition MASK_fmi3GetStatus :: int where
  "MASK_fmi3GetStatus = mask_of [modelStepComplete, modelStepInProgress, modelStepFailed,
     modelTerminated]"
definition MASK_fmi3GetRealStatus :: int where "MASK_fmi3GetRealStatus = MASK_fmi3GetStatus"
definition MASK_fmi3GetIntegerStatus :: int where "MASK_fmi3GetIntegerStatus = MASK_fmi3GetStatus"
definition MASK_fmi3GetBooleanStatus :: int where "MASK_fmi3GetBooleanStatus = MASK_fmi3GetStatus"
definition MASK_fmi3GetStringStatus :: int where "MASK_fmi3GetStringStatus = MASK_fmi3GetStatus"

text \<open>
  The blocks of memory behind \<^verbatim>\<open>void *variables[N_VARIABLES]\<close> are untyped in C and read
  through the casts \<^verbatim>\<open>R\<close>, \<^verbatim>\<open>I\<close>, \<^verbatim>\<open>B\<close> and \<^verbatim>\<open>S\<close>. A cell remembers the type it was
  written at; reading it at another type is a fault.
\<close>

datatype cell = RealCell real | IntCell int | BoolCell bool | StrCell "string option"

datatype fault = NullPointer | OutOfBounds | WrongType

type_synonym logEntry = "fmi3Status \<times> string \<times> string"

record ModelInstance =
  variables :: "cell list list"
  isPositive :: "bool list"
  time :: real
  instanceName :: string
  type :: fmi3Type
  GUID :: string
  logger_calls :: "logEntry list"
  loggingOn :: bool
  logCategories :: "bool list"
  state :: ModelState
  eventInfo :: fmi3EventInfo
  isDirtyValues :: bool
  isNewEventIteration :: bool

text \<open>
  \<open>logger_calls\<close> stands for the callback \<^verbatim>\<open>functions->logger\<close>: the messages it has
  received. The record is used through its scheme \<open>'g ModelInstance_scheme\<close>: the
  extension holds the file-scope variables of the including model, which its hooks
  read and write besides the instance (\<^verbatim>\<open>prevV\<close> of BouncingBall.c).

  A \<open>fmi3Component\<close> is a pointer to an instance; \<open>None\<close> is \<^verbatim>\<open>NULL\<close>.
\<close>

type_synonym 'g fmi3Component = "'g ModelInstance_scheme option"

definition bnd :: "fault + 'a \<Rightarrow> ('a \<Rightarrow> fault + 'b) \<Rightarrow> fault + 'b" where
  "bnd r f = (case r of Inl e \<Rightarrow> Inl e | Inr x \<Rightarrow> f x)"

text \<open>A pointer into the variable store: the block of a slot, or \<^verbatim>\<open>NULL\<close>.\<close>

type_synonym ptr = "nat option"

definition R :: "'g ModelInstance_scheme \<Rightarrow> nat \<Rightarrow> fault + ptr" where
  "R cmp vr = (if vr < length (variables cmp) then Inr (Some vr) else Inl OutOfBounds)"

definition load :: "'g ModelInstance_scheme \<Rightarrow> ptr \<Rightarrow> nat \<Rightarrow> fault + cell" where
  "load cmp p j = (case p of None \<Rightarrow> Inl NullPointer
     | Some s \<Rightarrow> if s < length (variables cmp) \<and> j < length (variables cmp ! s)
                then Inr (variables cmp ! s ! j) else Inl OutOfBounds)"

definition store :: "'g ModelInstance_scheme \<Rightarrow> ptr \<Rightarrow> nat \<Rightarrow> cell \<Rightarrow> fault + 'g ModelInstance_scheme" where
  "store cmp p j v = (case p of None \<Rightarrow> Inl NullPointer
     | Some s \<Rightarrow> if s < length (variables cmp) \<and> j < length (variables cmp ! s)
                then Inr (cmp\<lparr>variables := (variables cmp)[s := (variables cmp ! s)[j := v]]\<rparr>)
                else Inl OutOfBounds)"

fun as_real :: "cell \<Rightarrow> fault + real" where
  "as_real (RealCell x) = Inr x"
| "as_real _ = Inl WrongType"

fun as_int :: "cell \<Rightarrow> fault + int" where
  "as_int (IntCell x) = Inr x"
| "as_int _ = Inl WrongType"

fun as_bool :: "cell \<Rightarrow> fault + bool" where
  "as_bool (BoolCell x) = Inr x"
| "as_bool _ = Inl WrongType"

fun as_string :: "cell \<Rightarrow> fault + string option" where
  "as_string (StrCell x) = Inr x"
| "as_string _ = Inl WrongType"

text \<open>Reading element \<open>i\<close> of an array argument.\<close>

definition elem :: "'a list \<Rightarrow> nat \<Rightarrow> fault + 'a" where
  "elem xs i = (if i < length xs then Inr (xs ! i) else Inl OutOfBounds)"

subsection \<open>The model's side: macros, tables and hooks\<close>

text \<open>
  What the including file defines before \<^verbatim>\<open>#include "fmu3Template.c"\<close>: the macros
  \<^verbatim>\<open>N_VARIABLES\<close>, \<^verbatim>\<open>NUMBER_OF_STATES\<close>, \<^verbatim>\<open>NUMBER_OF_EVENT_INDICATORS\<close> and \<^verbatim>\<open>STATES\<close>
  (the initialiser of \<^verbatim>\<open>vrStates\<close>), the tables \<^verbatim>\<open>s_variableTypes\<close> and
  \<^verbatim>\<open>s_variableSizes\<close>, and the hooks. A hook takes the instance and returns it
  updated; \<open>getReal\<close> returns a pointer into the store as well.
\<close>

record schema =
  N_VARIABLES :: nat
  s_variableTypes :: string
  s_variableSizes :: "nat list"
  NUMBER_OF_STATES :: nat
  NUMBER_OF_EVENT_INDICATORS :: nat
  vrStates :: "nat list"

text \<open>
  The arithmetic of \<^verbatim>\<open>double\<close> in the translation unit of a model: \<open>fadd\<close>, \<open>fsub\<close>,
  \<open>fmul\<close> and \<open>fdiv\<close> are \<^verbatim>\<open>+\<close>, \<^verbatim>\<open>-\<close>, \<^verbatim>\<open>*\<close> and \<^verbatim>\<open>/\<close>, and \<open>flit\<close> gives the double
  that a decimal literal of the source denotes. \<open>exact\<close> is the arithmetic that never
  rounds; it agrees with every binary floating-point arithmetic wherever the exact
  result is representable there.
\<close>

record arith =
  fadd :: "real \<Rightarrow> real \<Rightarrow> real"
  fsub :: "real \<Rightarrow> real \<Rightarrow> real"
  fmul :: "real \<Rightarrow> real \<Rightarrow> real"
  fdiv :: "real \<Rightarrow> real \<Rightarrow> real"
  flit :: "real \<Rightarrow> real"

definition exact :: arith where
  "exact = \<lparr> fadd = (\<lambda>x y. x + y), fsub = (\<lambda>x y. x - y), fmul = (\<lambda>x y. x * y),
       fdiv = (\<lambda>x y. x / y), flit = (\<lambda>x. x) \<rparr>"

record 'g model = schema +
  setStartValues :: "'g ModelInstance_scheme \<Rightarrow> fault + 'g ModelInstance_scheme"
  calculateValues :: "'g ModelInstance_scheme \<Rightarrow> fault + 'g ModelInstance_scheme"
  getReal :: "'g ModelInstance_scheme \<Rightarrow> nat \<Rightarrow> fault + ('g ModelInstance_scheme \<times> ptr)"
  getEventIndicator :: "'g ModelInstance_scheme \<Rightarrow> nat \<Rightarrow> fault + real"
  eventUpdate :: "'g ModelInstance_scheme \<Rightarrow> bool \<Rightarrow> bool \<Rightarrow> fault + 'g ModelInstance_scheme"
  arithmetic :: arith

subsection \<open>fmu3Template.c: logging and argument checks\<close>

definition logCategoriesNames :: "string list" where
  "logCategoriesNames = [''logAll'', ''logError'', ''logFmiCall'', ''logEvent'']"

definition DT_EVENT_DETECT :: real where
  "DT_EVENT_DETECT = 1 / 10 ^ 10"

definition isCategoryLogged :: "'g ModelInstance_scheme \<Rightarrow> nat \<Rightarrow> bool" where
  "isCategoryLogged cmp categoryIndex =
     (if categoryIndex < NUMBER_OF_CATEGORIES
         \<and> (logCategories cmp ! categoryIndex \<or> logCategories cmp ! LOG_ALL)
      then True else False)"

definition logger :: "'g ModelInstance_scheme \<Rightarrow> fmi3Status \<Rightarrow> string \<Rightarrow> string \<Rightarrow> 'g ModelInstance_scheme" where
  "logger cmp status category message =
     cmp\<lparr>logger_calls := (status, category, message) # logger_calls cmp\<rparr>"

definition FILTERED_LOG :: "'g ModelInstance_scheme \<Rightarrow> fmi3Status \<Rightarrow> nat \<Rightarrow> string \<Rightarrow> 'g ModelInstance_scheme" where
  "FILTERED_LOG instance status categoryIndex message =
     (if status = fmi3Error \<or> status = fmi3Fatal \<or> isCategoryLogged instance categoryIndex
      then logger instance status (logCategoriesNames ! categoryIndex) message
      else instance)"

text \<open>
  The checks return \<^verbatim>\<open>fmi3True\<close> when the argument is bad, together with the instance
  as they leave it.
\<close>

definition invalidNumber :: "'g ModelInstance_scheme \<Rightarrow> string \<Rightarrow> string \<Rightarrow> int \<Rightarrow> int \<Rightarrow> bool \<times> 'g ModelInstance_scheme" where
  "invalidNumber cmp f arg n nExpected =
     (if n \<noteq> nExpected
      then (True, FILTERED_LOG (cmp\<lparr>state := modelError\<rparr>) fmi3Error LOG_ERROR
                    ''%s: Invalid argument %s = %d. Expected %d.'')
      else (False, cmp))"

text \<open>
  \<open>invalidState\<close> is the only check that is also handed a \<^verbatim>\<open>NULL\<close> component. \<open>Inl c\<close> is
  the answer \<^verbatim>\<open>fmi3True\<close> with the component as the check leaves it; \<open>Inr cmp\<close> is the
  answer \<^verbatim>\<open>fmi3False\<close>, where the component is not \<^verbatim>\<open>NULL\<close> and is untouched.
\<close>

definition invalidState :: "'g fmi3Component \<Rightarrow> string \<Rightarrow> int \<Rightarrow> 'g fmi3Component + 'g ModelInstance_scheme" where
  "invalidState c f statesExpected =
     (case c of None \<Rightarrow> Inl None
      | Some cmp \<Rightarrow>
          if enum_val (state cmp) AND statesExpected = 0
          then Inl (Some (FILTERED_LOG (cmp\<lparr>state := modelError\<rparr>) fmi3Error LOG_ERROR
                            ''%s: Illegal call sequence.''))
          else Inr cmp)"

definition nullPointer :: "'g ModelInstance_scheme \<Rightarrow> string \<Rightarrow> string \<Rightarrow> 'a option \<Rightarrow> bool \<times> 'g ModelInstance_scheme" where
  "nullPointer cmp f arg p =
     (if p = None
      then (True, FILTERED_LOG (cmp\<lparr>state := modelError\<rparr>) fmi3Error LOG_ERROR
                    ''%s: Invalid argument %s = NULL.'')
      else (False, cmp))"

definition vrOutOfRange :: "'s schema_scheme \<Rightarrow> 'g ModelInstance_scheme \<Rightarrow> string \<Rightarrow> nat \<Rightarrow> char \<Rightarrow> bool \<times> 'g ModelInstance_scheme" where
  "vrOutOfRange M cmp f vr ty =
     (if vr \<ge> N_VARIABLES M
      then (True, (FILTERED_LOG cmp fmi3Error LOG_ERROR ''%s: Illegal value reference %u.'')
                    \<lparr>state := modelError\<rparr>)
      else if s_variableTypes M ! vr \<noteq> ty
      then (True, (FILTERED_LOG cmp fmi3Error LOG_ERROR ''%s: Variable %u is not a %c.'')
                    \<lparr>state := modelError\<rparr>)
      else (False, cmp))"

definition unsupportedFunction :: "'g fmi3Component \<Rightarrow> string \<Rightarrow> int \<Rightarrow> fmi3Status \<times> 'g fmi3Component" where
  "unsupportedFunction c fName statesExpected =
     (case invalidState c fName statesExpected of
        Inl c' \<Rightarrow> (fmi3Error, c')
      | Inr cmp \<Rightarrow>
          (let cmp = FILTERED_LOG cmp fmi3OK LOG_FMI_CALL fName;
               cmp = FILTERED_LOG cmp fmi3Error LOG_ERROR ''%s: Function not implemented.''
           in (fmi3Error, Some cmp)))"

text \<open>The conversion of a \<^verbatim>\<open>size_t\<close> argument to the \<^verbatim>\<open>int\<close> parameter of \<open>invalidNumber\<close>:
  the low 32 bits, read as two's complement.\<close>

definition size_t_to_int :: "nat \<Rightarrow> int" where
  "size_t_to_int n = (let m = int (n mod 2 ^ 32) in if m < 2 ^ 31 then m else m - 2 ^ 32)"

subsection \<open>Array arguments\<close>

text \<open>Reading \<^verbatim>\<open>a[i]\<close> and writing \<^verbatim>\<open>a[i] = x\<close> through a pointer argument.\<close>

definition deref :: "'a list option \<Rightarrow> nat \<Rightarrow> fault + 'a" where
  "deref a i = (case a of None \<Rightarrow> Inl NullPointer | Some xs \<Rightarrow> elem xs i)"

definition assign :: "'a list option \<Rightarrow> nat \<Rightarrow> 'a \<Rightarrow> fault + 'a list option" where
  "assign a i x = (case a of None \<Rightarrow> Inl NullPointer
     | Some xs \<Rightarrow> if i < length xs then Inr (Some (xs[i := x])) else Inl OutOfBounds)"

definition I :: "'g ModelInstance_scheme \<Rightarrow> nat \<Rightarrow> fault + ptr" where
  "I cmp vr = (if vr < length (variables cmp) then Inr (Some vr) else Inl OutOfBounds)"

definition B :: "'g ModelInstance_scheme \<Rightarrow> nat \<Rightarrow> fault + ptr" where
  "B cmp vr = (if vr < length (variables cmp) then Inr (Some vr) else Inl OutOfBounds)"

definition S :: "'g ModelInstance_scheme \<Rightarrow> nat \<Rightarrow> fault + ptr" where
  "S cmp vr = (if vr < length (variables cmp) then Inr (Some vr) else Inl OutOfBounds)"

subsection \<open>fmu3Template.c: life cycle\<close>

definition fmi3SetupExperiment :: "'g fmi3Component \<Rightarrow> bool \<Rightarrow> real \<Rightarrow> real \<Rightarrow> bool \<Rightarrow> real \<Rightarrow> fmi3Status \<times> 'g fmi3Component" where
  "fmi3SetupExperiment c toleranceDefined tolerance startTime stopTimeDefined stopTime =
     (case invalidState c ''fmi3SetupExperiment'' MASK_fmi3SetupExperiment of
        Inl c' \<Rightarrow> (fmi3Error, c')
      | Inr cmp \<Rightarrow>
          (let cmp = FILTERED_LOG cmp fmi3OK LOG_FMI_CALL
                       ''fmi3SetupExperiment: toleranceDefined=%d tolerance=%g'';
               cmp = cmp\<lparr>time := startTime\<rparr>
           in (fmi3OK, Some cmp)))"

definition fmi3EnterInitializationMode :: "'g fmi3Component \<Rightarrow> fmi3Status \<times> 'g fmi3Component" where
  "fmi3EnterInitializationMode c =
     (case invalidState c ''fmi3EnterInitializationMode'' MASK_fmi3EnterInitializationMode of
        Inl c' \<Rightarrow> (fmi3Error, c')
      | Inr cmp \<Rightarrow>
          (let cmp = FILTERED_LOG cmp fmi3OK LOG_FMI_CALL ''fmi3EnterInitializationMode'';
               cmp = cmp\<lparr>state := modelInitializationMode\<rparr>
           in (fmi3OK, Some cmp)))"

definition fmi3ExitInitializationMode :: "'g model \<Rightarrow> 'g fmi3Component \<Rightarrow> fault + (fmi3Status \<times> 'g fmi3Component)" where
  "fmi3ExitInitializationMode M c =
     (case invalidState c ''fmi3ExitInitializationMode'' MASK_fmi3ExitInitializationMode of
        Inl c' \<Rightarrow> Inr (fmi3Error, c')
      | Inr cmp \<Rightarrow>
          (let cmp = FILTERED_LOG cmp fmi3OK LOG_FMI_CALL ''fmi3ExitInitializationMode''
           in bnd (if isDirtyValues cmp
                   then bnd (calculateValues M cmp) (\<lambda>cmp. Inr (cmp\<lparr>isDirtyValues := False\<rparr>))
                   else Inr cmp)
                (\<lambda>cmp.
                   let cmp = (if type cmp = fmi3ModelExchange
                              then cmp\<lparr>state := modelEventMode, isNewEventIteration := True\<rparr>
                              else cmp\<lparr>state := modelStepComplete\<rparr>)
                   in Inr (fmi3OK, Some cmp))))"

definition fmi3Terminate :: "'g fmi3Component \<Rightarrow> fmi3Status \<times> 'g fmi3Component" where
  "fmi3Terminate c =
     (case invalidState c ''fmi3Terminate'' MASK_fmi3Terminate of
        Inl c' \<Rightarrow> (fmi3Error, c')
      | Inr cmp \<Rightarrow>
          (let cmp = FILTERED_LOG cmp fmi3OK LOG_FMI_CALL ''fmi3Terminate'';
               cmp = cmp\<lparr>state := modelTerminated\<rparr>
           in (fmi3OK, Some cmp)))"

definition fmi3Reset :: "'g model \<Rightarrow> 'g fmi3Component \<Rightarrow> fault + (fmi3Status \<times> 'g fmi3Component)" where
  "fmi3Reset M c =
     (case invalidState c ''fmi3Reset'' MASK_fmi3Reset of
        Inl c' \<Rightarrow> Inr (fmi3Error, c')
      | Inr cmp \<Rightarrow>
          (let cmp = FILTERED_LOG cmp fmi3OK LOG_FMI_CALL ''fmi3Reset'';
               cmp = cmp\<lparr>state := modelInstantiated\<rparr>
           in bnd (setStartValues M cmp)
                (\<lambda>cmp. Inr (fmi3OK, Some (cmp\<lparr>isDirtyValues := True\<rparr>)))))"

text \<open>
  \<^verbatim>\<open>fmi3FreeInstance\<close> returns nothing; the result is the component afterwards, \<open>None\<close>
  once its memory has been handed back to the host's \<^verbatim>\<open>freeMemory\<close>.
\<close>

definition fmi3FreeInstance :: "'g fmi3Component \<Rightarrow> 'g fmi3Component" where
  "fmi3FreeInstance c =
     (case c of None \<Rightarrow> None
      | Some _ \<Rightarrow>
          (case invalidState c ''fmi3FreeInstance'' MASK_fmi3FreeInstance of
             Inl c' \<Rightarrow> c'
           | Inr cmp \<Rightarrow>
               (let cmp = FILTERED_LOG cmp fmi3OK LOG_FMI_CALL ''fmi3FreeInstance''
                in None)))"

subsection \<open>fmu3Template.c: logging control\<close>

text \<open>The search \<^verbatim>\<open>for (j = 0; j < NUMBER_OF_CATEGORIES; j++)\<close> with its \<^verbatim>\<open>break\<close>:
  \<open>r\<close> iterations are left, the next index is \<open>j\<close>. The result is the instance and
  \<^verbatim>\<open>categoryFound\<close>.\<close>

fun find_category :: "bool \<Rightarrow> string \<Rightarrow> nat \<Rightarrow> nat \<Rightarrow> 'g ModelInstance_scheme \<Rightarrow> 'g ModelInstance_scheme \<times> bool" where
  "find_category on cat 0 j cmp = (cmp, False)"
| "find_category on cat (Suc r) j cmp =
     (if logCategoriesNames ! j = cat
      then (cmp\<lparr>logCategories := (logCategories cmp)[j := on]\<rparr>, True)
      else find_category on cat r (Suc j) cmp)"

text \<open>The loop \<^verbatim>\<open>for (i = 0; i < nCategories; i++)\<close>: \<open>r\<close> iterations are left.\<close>

fun set_categories :: "bool \<Rightarrow> string list option \<Rightarrow> nat \<Rightarrow> nat \<Rightarrow> 'g ModelInstance_scheme \<Rightarrow> fault + 'g ModelInstance_scheme" where
  "set_categories on categories 0 i cmp = Inr cmp"
| "set_categories on categories (Suc r) i cmp =
     bnd (deref categories i) (\<lambda>cat.
       let (cmp, categoryFound) = find_category on cat NUMBER_OF_CATEGORIES 0 cmp;
           cmp = (if \<not> categoryFound
                  then logger cmp fmi3Warning (logCategoriesNames ! LOG_ERROR)
                         (''logging category '' @ [CHR 0x27] @ ''%s'' @ [CHR 0x27]
                            @ '' is not supported by model'')
                  else cmp)
       in set_categories on categories r (Suc i) cmp)"

definition fmi3SetDebugLogging :: "'g fmi3Component \<Rightarrow> bool \<Rightarrow> nat \<Rightarrow> string list option \<Rightarrow> fault + (fmi3Status \<times> 'g fmi3Component)" where
  "fmi3SetDebugLogging c loggingOn' nCategories categories =
     (case invalidState c ''fmi3SetDebugLogging'' MASK_fmi3SetDebugLogging of
        Inl c' \<Rightarrow> Inr (fmi3Error, c')
      | Inr cmp \<Rightarrow>
          (let cmp = cmp\<lparr>loggingOn := loggingOn'\<rparr>;
               cmp = FILTERED_LOG cmp fmi3OK LOG_FMI_CALL ''fmi3SetDebugLogging'';
               cmp = fold (\<lambda>j cmp. cmp\<lparr>logCategories := (logCategories cmp)[j := False]\<rparr>)
                       [0..<NUMBER_OF_CATEGORIES] cmp
           in bnd (if nCategories = 0
                   then Inr (fold (\<lambda>j cmp. cmp\<lparr>logCategories := (logCategories cmp)[j := loggingOn']\<rparr>)
                               [0..<NUMBER_OF_CATEGORIES] cmp)
                   else set_categories loggingOn' categories nCategories 0 cmp)
                (\<lambda>cmp. Inr (fmi3OK, Some cmp))))"

subsection \<open>fmu3Template.c: getters and setters\<close>

text \<open>
  In every batch loop the number of elements moved for entry \<open>i\<close> is
  \<^verbatim>\<open>s_variableSizes[i]\<close>: the table is indexed with the position in the batch, as the
  source has it. The argument \<open>nValues\<close> is not used by the source. The arguments of a
  log message are evaluated only to be printed and are not modelled.
\<close>

text \<open>\<^verbatim>\<open>fmi3GetReal\<close>. The inner loop \<^verbatim>\<open>for (j = 0; j < s_variableSizes[i]; j++)\<close> with \<open>n\<close>
  iterations left, and the loop over the batch with \<open>r\<close> iterations left; the batch
  loop answers \<open>Some fmi3Error\<close> when it leaves the function by \<^verbatim>\<open>return fmi3Error\<close>.\<close>

fun GetReal_elems :: "'g model \<Rightarrow> nat \<Rightarrow> nat \<Rightarrow> nat \<Rightarrow> nat \<Rightarrow> real list option \<Rightarrow> 'g ModelInstance_scheme \<Rightarrow> fault + (nat \<times> real list option \<times> 'g ModelInstance_scheme)" where
  "GetReal_elems M v 0 j k value cmp = Inr (k, value, cmp)"
| "GetReal_elems M v (Suc n) j k value cmp =
     bnd (getReal M cmp v) (\<lambda>(cmp, p).
     bnd (load cmp p j) (\<lambda>x.
     bnd (as_real x) (\<lambda>x.
     bnd (assign value k x) (\<lambda>value.
     GetReal_elems M v n (Suc j) (Suc k) value cmp))))"

fun GetReal_loop :: "'g model \<Rightarrow> nat list option \<Rightarrow> nat \<Rightarrow> nat \<Rightarrow> nat \<Rightarrow> real list option \<Rightarrow> 'g ModelInstance_scheme \<Rightarrow> fault + (fmi3Status option \<times> real list option \<times> 'g ModelInstance_scheme)" where
  "GetReal_loop M vr 0 i k value cmp = Inr (None, value, cmp)"
| "GetReal_loop M vr (Suc r) i k value cmp =
     bnd (deref vr i) (\<lambda>v.
       let (bad, cmp) = vrOutOfRange M cmp ''fmi3GetReal'' v (CHR ''r'')
       in if bad then Inr (Some fmi3Error, value, cmp)
          else bnd (elem (s_variableSizes M) i) (\<lambda>n.
               bnd (GetReal_elems M v n 0 k value cmp) (\<lambda>(k, value, cmp).
                 let cmp = FILTERED_LOG cmp fmi3OK LOG_FMI_CALL ''fmi3GetReal: #r%u# = %.16g''
                 in GetReal_loop M vr r (Suc i) k value cmp)))"

definition fmi3GetReal :: "'g model \<Rightarrow> 'g fmi3Component \<Rightarrow> nat list option \<Rightarrow> nat \<Rightarrow> real list option \<Rightarrow> nat \<Rightarrow> fault + (fmi3Status \<times> 'g fmi3Component \<times> real list option)" where
  "fmi3GetReal M c vr nvr value nValues =
     (case invalidState c ''fmi3GetReal'' MASK_fmi3GetReal of
        Inl c' \<Rightarrow> Inr (fmi3Error, c', value)
      | Inr cmp \<Rightarrow>
          (let (bad, cmp) = (if nvr > 0 then nullPointer cmp ''fmi3GetReal'' ''vr[]'' vr
                             else (False, cmp))
           in if bad then Inr (fmi3Error, Some cmp, value)
           else
             let (bad, cmp) = (if nvr > 0 then nullPointer cmp ''fmi3GetReal'' ''value[]'' value
                               else (False, cmp))
             in if bad then Inr (fmi3Error, Some cmp, value)
             else
               bnd (if nvr > 0 \<and> isDirtyValues cmp
                    then bnd (calculateValues M cmp) (\<lambda>cmp. Inr (cmp\<lparr>isDirtyValues := False\<rparr>))
                    else Inr cmp) (\<lambda>cmp.
               bnd (GetReal_loop M vr nvr 0 0 value cmp) (\<lambda>(ret, value, cmp).
                 case ret of Some st \<Rightarrow> Inr (st, Some cmp, value)
                 | None \<Rightarrow> Inr (fmi3OK, Some cmp, value)))))"

text \<open>\<^verbatim>\<open>fmi3GetInteger\<close>. The inner loop \<^verbatim>\<open>for (j = 0; j < s_variableSizes[i]; j++)\<close> with \<open>n\<close>
  iterations left, and the loop over the batch with \<open>r\<close> iterations left; the batch
  loop answers \<open>Some fmi3Error\<close> when it leaves the function by \<^verbatim>\<open>return fmi3Error\<close>.\<close>

fun GetInteger_elems :: "'g model \<Rightarrow> nat \<Rightarrow> nat \<Rightarrow> nat \<Rightarrow> nat \<Rightarrow> int list option \<Rightarrow> 'g ModelInstance_scheme \<Rightarrow> fault + (nat \<times> int list option \<times> 'g ModelInstance_scheme)" where
  "GetInteger_elems M v 0 j k value cmp = Inr (k, value, cmp)"
| "GetInteger_elems M v (Suc n) j k value cmp =
     bnd (I cmp v) (\<lambda>p.
     bnd (load cmp p j) (\<lambda>x.
     bnd (as_int x) (\<lambda>x.
     bnd (assign value k x) (\<lambda>value.
     GetInteger_elems M v n (Suc j) (Suc k) value cmp))))"

fun GetInteger_loop :: "'g model \<Rightarrow> nat list option \<Rightarrow> nat \<Rightarrow> nat \<Rightarrow> nat \<Rightarrow> int list option \<Rightarrow> 'g ModelInstance_scheme \<Rightarrow> fault + (fmi3Status option \<times> int list option \<times> 'g ModelInstance_scheme)" where
  "GetInteger_loop M vr 0 i k value cmp = Inr (None, value, cmp)"
| "GetInteger_loop M vr (Suc r) i k value cmp =
     bnd (deref vr i) (\<lambda>v.
       let (bad, cmp) = vrOutOfRange M cmp ''fmi3GetInteger'' v (CHR ''i'')
       in if bad then Inr (Some fmi3Error, value, cmp)
          else bnd (elem (s_variableSizes M) i) (\<lambda>n.
               bnd (GetInteger_elems M v n 0 k value cmp) (\<lambda>(k, value, cmp).
                 let cmp = FILTERED_LOG cmp fmi3OK LOG_FMI_CALL ''fmi3GetInteger: #i%u# = %d''
                 in GetInteger_loop M vr r (Suc i) k value cmp)))"

definition fmi3GetInteger :: "'g model \<Rightarrow> 'g fmi3Component \<Rightarrow> nat list option \<Rightarrow> nat \<Rightarrow> int list option \<Rightarrow> nat \<Rightarrow> fault + (fmi3Status \<times> 'g fmi3Component \<times> int list option)" where
  "fmi3GetInteger M c vr nvr value nValues =
     (case invalidState c ''fmi3GetInteger'' MASK_fmi3GetInteger of
        Inl c' \<Rightarrow> Inr (fmi3Error, c', value)
      | Inr cmp \<Rightarrow>
          (let (bad, cmp) = (if nvr > 0 then nullPointer cmp ''fmi3GetInteger'' ''vr[]'' vr
                             else (False, cmp))
           in if bad then Inr (fmi3Error, Some cmp, value)
           else
             let (bad, cmp) = (if nvr > 0 then nullPointer cmp ''fmi3GetInteger'' ''value[]'' value
                               else (False, cmp))
             in if bad then Inr (fmi3Error, Some cmp, value)
             else
               bnd (if nvr > 0 \<and> isDirtyValues cmp
                    then bnd (calculateValues M cmp) (\<lambda>cmp. Inr (cmp\<lparr>isDirtyValues := False\<rparr>))
                    else Inr cmp) (\<lambda>cmp.
               bnd (GetInteger_loop M vr nvr 0 0 value cmp) (\<lambda>(ret, value, cmp).
                 case ret of Some st \<Rightarrow> Inr (st, Some cmp, value)
                 | None \<Rightarrow> Inr (fmi3OK, Some cmp, value)))))"

text \<open>\<^verbatim>\<open>fmi3GetBoolean\<close>. The inner loop \<^verbatim>\<open>for (j = 0; j < s_variableSizes[i]; j++)\<close> with \<open>n\<close>
  iterations left, and the loop over the batch with \<open>r\<close> iterations left; the batch
  loop answers \<open>Some fmi3Error\<close> when it leaves the function by \<^verbatim>\<open>return fmi3Error\<close>.\<close>

fun GetBoolean_elems :: "'g model \<Rightarrow> nat \<Rightarrow> nat \<Rightarrow> nat \<Rightarrow> nat \<Rightarrow> bool list option \<Rightarrow> 'g ModelInstance_scheme \<Rightarrow> fault + (nat \<times> bool list option \<times> 'g ModelInstance_scheme)" where
  "GetBoolean_elems M v 0 j k value cmp = Inr (k, value, cmp)"
| "GetBoolean_elems M v (Suc n) j k value cmp =
     bnd (B cmp v) (\<lambda>p.
     bnd (load cmp p j) (\<lambda>x.
     bnd (as_bool x) (\<lambda>x.
     bnd (assign value k x) (\<lambda>value.
     GetBoolean_elems M v n (Suc j) (Suc k) value cmp))))"

fun GetBoolean_loop :: "'g model \<Rightarrow> nat list option \<Rightarrow> nat \<Rightarrow> nat \<Rightarrow> nat \<Rightarrow> bool list option \<Rightarrow> 'g ModelInstance_scheme \<Rightarrow> fault + (fmi3Status option \<times> bool list option \<times> 'g ModelInstance_scheme)" where
  "GetBoolean_loop M vr 0 i k value cmp = Inr (None, value, cmp)"
| "GetBoolean_loop M vr (Suc r) i k value cmp =
     bnd (deref vr i) (\<lambda>v.
       let (bad, cmp) = vrOutOfRange M cmp ''fmi3GetBoolean'' v (CHR ''b'')
       in if bad then Inr (Some fmi3Error, value, cmp)
          else bnd (elem (s_variableSizes M) i) (\<lambda>n.
               bnd (GetBoolean_elems M v n 0 k value cmp) (\<lambda>(k, value, cmp).
                 let cmp = FILTERED_LOG cmp fmi3OK LOG_FMI_CALL ''fmi3GetBoolean: #i%u# = %d''
                 in GetBoolean_loop M vr r (Suc i) k value cmp)))"

definition fmi3GetBoolean :: "'g model \<Rightarrow> 'g fmi3Component \<Rightarrow> nat list option \<Rightarrow> nat \<Rightarrow> bool list option \<Rightarrow> nat \<Rightarrow> fault + (fmi3Status \<times> 'g fmi3Component \<times> bool list option)" where
  "fmi3GetBoolean M c vr nvr value nValues =
     (case invalidState c ''fmi3GetBoolean'' MASK_fmi3GetBoolean of
        Inl c' \<Rightarrow> Inr (fmi3Error, c', value)
      | Inr cmp \<Rightarrow>
          (let (bad, cmp) = (if nvr > 0 then nullPointer cmp ''fmi3GetBoolean'' ''vr[]'' vr
                             else (False, cmp))
           in if bad then Inr (fmi3Error, Some cmp, value)
           else
             let (bad, cmp) = (if nvr > 0 then nullPointer cmp ''fmi3GetBoolean'' ''value[]'' value
                               else (False, cmp))
             in if bad then Inr (fmi3Error, Some cmp, value)
             else
               bnd (if nvr > 0 \<and> isDirtyValues cmp
                    then bnd (calculateValues M cmp) (\<lambda>cmp. Inr (cmp\<lparr>isDirtyValues := False\<rparr>))
                    else Inr cmp) (\<lambda>cmp.
               bnd (GetBoolean_loop M vr nvr 0 0 value cmp) (\<lambda>(ret, value, cmp).
                 case ret of Some st \<Rightarrow> Inr (st, Some cmp, value)
                 | None \<Rightarrow> Inr (fmi3OK, Some cmp, value)))))"

text \<open>\<^verbatim>\<open>fmi3GetString\<close>. The inner loop \<^verbatim>\<open>for (j = 0; j < s_variableSizes[i]; j++)\<close> with \<open>n\<close>
  iterations left, and the loop over the batch with \<open>r\<close> iterations left; the batch
  loop answers \<open>Some fmi3Error\<close> when it leaves the function by \<^verbatim>\<open>return fmi3Error\<close>.\<close>

fun GetString_elems :: "'g model \<Rightarrow> nat \<Rightarrow> nat \<Rightarrow> nat \<Rightarrow> nat \<Rightarrow> string option list option \<Rightarrow> 'g ModelInstance_scheme \<Rightarrow> fault + (nat \<times> string option list option \<times> 'g ModelInstance_scheme)" where
  "GetString_elems M v 0 j k value cmp = Inr (k, value, cmp)"
| "GetString_elems M v (Suc n) j k value cmp =
     bnd (S cmp v) (\<lambda>p.
     bnd (load cmp p j) (\<lambda>x.
     bnd (as_string x) (\<lambda>x.
     bnd (assign value k x) (\<lambda>value.
     GetString_elems M v n (Suc j) (Suc k) value cmp))))"

fun GetString_loop :: "'g model \<Rightarrow> nat list option \<Rightarrow> nat \<Rightarrow> nat \<Rightarrow> nat \<Rightarrow> string option list option \<Rightarrow> 'g ModelInstance_scheme \<Rightarrow> fault + (fmi3Status option \<times> string option list option \<times> 'g ModelInstance_scheme)" where
  "GetString_loop M vr 0 i k value cmp = Inr (None, value, cmp)"
| "GetString_loop M vr (Suc r) i k value cmp =
     bnd (deref vr i) (\<lambda>v.
       let (bad, cmp) = vrOutOfRange M cmp ''fmi3GetString'' v (CHR ''b'')
       in if bad then Inr (Some fmi3Error, value, cmp)
          else bnd (elem (s_variableSizes M) i) (\<lambda>n.
               bnd (GetString_elems M v n 0 k value cmp) (\<lambda>(k, value, cmp).
                 let cmp = FILTERED_LOG cmp fmi3OK LOG_FMI_CALL ''fmi3GetString: #s%u# = \"%s\"''
                 in GetString_loop M vr r (Suc i) k value cmp)))"

definition fmi3GetString :: "'g model \<Rightarrow> 'g fmi3Component \<Rightarrow> nat list option \<Rightarrow> nat \<Rightarrow> string option list option \<Rightarrow> nat \<Rightarrow> fault + (fmi3Status \<times> 'g fmi3Component \<times> string option list option)" where
  "fmi3GetString M c vr nvr value nValues =
     (case invalidState c ''fmi3GetString'' MASK_fmi3GetString of
        Inl c' \<Rightarrow> Inr (fmi3Error, c', value)
      | Inr cmp \<Rightarrow>
          (let (bad, cmp) = (if nvr > 0 then nullPointer cmp ''fmi3GetString'' ''vr[]'' vr
                             else (False, cmp))
           in if bad then Inr (fmi3Error, Some cmp, value)
           else
             let (bad, cmp) = (if nvr > 0 then nullPointer cmp ''fmi3GetString'' ''value[]'' value
                               else (False, cmp))
             in if bad then Inr (fmi3Error, Some cmp, value)
             else
               bnd (if nvr > 0 \<and> isDirtyValues cmp
                    then bnd (calculateValues M cmp) (\<lambda>cmp. Inr (cmp\<lparr>isDirtyValues := False\<rparr>))
                    else Inr cmp) (\<lambda>cmp.
               bnd (GetString_loop M vr nvr 0 0 value cmp) (\<lambda>(ret, value, cmp).
                 case ret of Some st \<Rightarrow> Inr (st, Some cmp, value)
                 | None \<Rightarrow> Inr (fmi3OK, Some cmp, value)))))"

text \<open>\<^verbatim>\<open>fmi3SetReal\<close>, with the loops as for the getters.\<close>

fun SetReal_elems :: "nat \<Rightarrow> nat \<Rightarrow> nat \<Rightarrow> nat \<Rightarrow> real list option \<Rightarrow> 'g ModelInstance_scheme \<Rightarrow> fault + (nat \<times> 'g ModelInstance_scheme)" where
  "SetReal_elems v 0 j k value cmp = Inr (k, cmp)"
| "SetReal_elems v (Suc n) j k value cmp =
     bnd (deref value k) (\<lambda>x.
     bnd (R cmp v) (\<lambda>p.
     bnd (store cmp p j (RealCell x)) (\<lambda>cmp.
     SetReal_elems v n (Suc j) (Suc k) value cmp)))"

fun SetReal_loop :: "'s schema_scheme \<Rightarrow> nat list option \<Rightarrow> nat \<Rightarrow> nat \<Rightarrow> nat \<Rightarrow> real list option \<Rightarrow> 'g ModelInstance_scheme \<Rightarrow> fault + (fmi3Status option \<times> 'g ModelInstance_scheme)" where
  "SetReal_loop M vr 0 i k value cmp = Inr (None, cmp)"
| "SetReal_loop M vr (Suc r) i k value cmp =
     bnd (deref vr i) (\<lambda>v.
       let (bad, cmp) = vrOutOfRange M cmp ''fmi3SetRoolean'' v (CHR ''r'')
       in if bad then Inr (Some fmi3Error, cmp)
          else bnd (elem (s_variableSizes M) i) (\<lambda>n.
               bnd (SetReal_elems v n 0 k value cmp) (\<lambda>(k, cmp).
                 let cmp = FILTERED_LOG cmp fmi3OK LOG_FMI_CALL ''fmi3SetReal: #r%u# = %.16g''
                 in SetReal_loop M vr r (Suc i) k value cmp)))"

definition fmi3SetReal :: "'s schema_scheme \<Rightarrow> 'g fmi3Component \<Rightarrow> nat list option \<Rightarrow> nat \<Rightarrow> real list option \<Rightarrow> nat \<Rightarrow> fault + (fmi3Status \<times> 'g fmi3Component)" where
  "fmi3SetReal M c vr nvr value nValues =
     (case invalidState c ''fmi3SetReal'' MASK_fmi3SetReal of
        Inl c' \<Rightarrow> Inr (fmi3Error, c')
      | Inr cmp \<Rightarrow>
          (let (bad, cmp) = (if nvr > 0 then nullPointer cmp ''fmi3SetReal'' ''vr[]'' vr
                             else (False, cmp))
           in if bad then Inr (fmi3Error, Some cmp)
           else
             let (bad, cmp) = (if nvr > 0 then nullPointer cmp ''fmi3SetReal'' ''value[]'' value
                               else (False, cmp))
             in if bad then Inr (fmi3Error, Some cmp)
             else
               let cmp = FILTERED_LOG cmp fmi3OK LOG_FMI_CALL ''fmi3SetReal: nvr = %d''
               in bnd (SetReal_loop M vr nvr 0 0 value cmp) (\<lambda>(ret, cmp).
                    case ret of Some st \<Rightarrow> Inr (st, Some cmp)
                    | None \<Rightarrow>
                        Inr (fmi3OK, Some (if nvr > 0 then cmp\<lparr>isDirtyValues := True\<rparr> else cmp)))))"

text \<open>\<^verbatim>\<open>fmi3SetInteger\<close>, with the loops as for the getters.\<close>

fun SetInteger_elems :: "nat \<Rightarrow> nat \<Rightarrow> nat \<Rightarrow> nat \<Rightarrow> int list option \<Rightarrow> 'g ModelInstance_scheme \<Rightarrow> fault + (nat \<times> 'g ModelInstance_scheme)" where
  "SetInteger_elems v 0 j k value cmp = Inr (k, cmp)"
| "SetInteger_elems v (Suc n) j k value cmp =
     bnd (deref value k) (\<lambda>x.
     bnd (I cmp v) (\<lambda>p.
     bnd (store cmp p j (IntCell x)) (\<lambda>cmp.
     SetInteger_elems v n (Suc j) (Suc k) value cmp)))"

fun SetInteger_loop :: "'s schema_scheme \<Rightarrow> nat list option \<Rightarrow> nat \<Rightarrow> nat \<Rightarrow> nat \<Rightarrow> int list option \<Rightarrow> 'g ModelInstance_scheme \<Rightarrow> fault + (fmi3Status option \<times> 'g ModelInstance_scheme)" where
  "SetInteger_loop M vr 0 i k value cmp = Inr (None, cmp)"
| "SetInteger_loop M vr (Suc r) i k value cmp =
     bnd (deref vr i) (\<lambda>v.
       let (bad, cmp) = vrOutOfRange M cmp ''fmi3SetInteger'' v (CHR ''i'')
       in if bad then Inr (Some fmi3Error, cmp)
          else bnd (elem (s_variableSizes M) i) (\<lambda>n.
               bnd (SetInteger_elems v n 0 k value cmp) (\<lambda>(k, cmp).
                 let cmp = FILTERED_LOG cmp fmi3OK LOG_FMI_CALL ''fmi3SetInteger: #i%u# = %d''
                 in SetInteger_loop M vr r (Suc i) k value cmp)))"

definition fmi3SetInteger :: "'s schema_scheme \<Rightarrow> 'g fmi3Component \<Rightarrow> nat list option \<Rightarrow> nat \<Rightarrow> int list option \<Rightarrow> nat \<Rightarrow> fault + (fmi3Status \<times> 'g fmi3Component)" where
  "fmi3SetInteger M c vr nvr value nValues =
     (case invalidState c ''fmi3SetInteger'' MASK_fmi3SetInteger of
        Inl c' \<Rightarrow> Inr (fmi3Error, c')
      | Inr cmp \<Rightarrow>
          (let (bad, cmp) = (if nvr > 0 then nullPointer cmp ''fmi3SetInteger'' ''vr[]'' vr
                             else (False, cmp))
           in if bad then Inr (fmi3Error, Some cmp)
           else
             let (bad, cmp) = (if nvr > 0 then nullPointer cmp ''fmi3SetInteger'' ''value[]'' value
                               else (False, cmp))
             in if bad then Inr (fmi3Error, Some cmp)
             else
               let cmp = FILTERED_LOG cmp fmi3OK LOG_FMI_CALL ''fmi3SetInteger: nvr = %d''
               in bnd (SetInteger_loop M vr nvr 0 0 value cmp) (\<lambda>(ret, cmp).
                    case ret of Some st \<Rightarrow> Inr (st, Some cmp)
                    | None \<Rightarrow>
                        Inr (fmi3OK, Some (if nvr > 0 then cmp\<lparr>isDirtyValues := True\<rparr> else cmp)))))"

text \<open>\<^verbatim>\<open>fmi3SetBoolean\<close>, with the loops as for the getters.\<close>

fun SetBoolean_elems :: "nat \<Rightarrow> nat \<Rightarrow> nat \<Rightarrow> nat \<Rightarrow> bool list option \<Rightarrow> 'g ModelInstance_scheme \<Rightarrow> fault + (nat \<times> 'g ModelInstance_scheme)" where
  "SetBoolean_elems v 0 j k value cmp = Inr (k, cmp)"
| "SetBoolean_elems v (Suc n) j k value cmp =
     bnd (deref value k) (\<lambda>x.
     bnd (B cmp v) (\<lambda>p.
     bnd (store cmp p j (BoolCell x)) (\<lambda>cmp.
     SetBoolean_elems v n (Suc j) (Suc k) value cmp)))"

fun SetBoolean_loop :: "'s schema_scheme \<Rightarrow> nat list option \<Rightarrow> nat \<Rightarrow> nat \<Rightarrow> nat \<Rightarrow> bool list option \<Rightarrow> 'g ModelInstance_scheme \<Rightarrow> fault + (fmi3Status option \<times> 'g ModelInstance_scheme)" where
  "SetBoolean_loop M vr 0 i k value cmp = Inr (None, cmp)"
| "SetBoolean_loop M vr (Suc r) i k value cmp =
     bnd (deref vr i) (\<lambda>v.
       let (bad, cmp) = vrOutOfRange M cmp ''fmi3SetBoolean'' v (CHR ''i'')
       in if bad then Inr (Some fmi3Error, cmp)
          else bnd (elem (s_variableSizes M) i) (\<lambda>n.
               bnd (SetBoolean_elems v n 0 k value cmp) (\<lambda>(k, cmp).
                 let cmp = FILTERED_LOG cmp fmi3OK LOG_FMI_CALL ''fmi3SetBoolean: #b%u# = %s''
                 in SetBoolean_loop M vr r (Suc i) k value cmp)))"

definition fmi3SetBoolean :: "'s schema_scheme \<Rightarrow> 'g fmi3Component \<Rightarrow> nat list option \<Rightarrow> nat \<Rightarrow> bool list option \<Rightarrow> nat \<Rightarrow> fault + (fmi3Status \<times> 'g fmi3Component)" where
  "fmi3SetBoolean M c vr nvr value nValues =
     (case invalidState c ''fmi3SetBoolean'' MASK_fmi3SetBoolean of
        Inl c' \<Rightarrow> Inr (fmi3Error, c')
      | Inr cmp \<Rightarrow>
          (let (bad, cmp) = (if nvr > 0 then nullPointer cmp ''fmi3SetBoolean'' ''vr[]'' vr
                             else (False, cmp))
           in if bad then Inr (fmi3Error, Some cmp)
           else
             let (bad, cmp) = (if nvr > 0 then nullPointer cmp ''fmi3SetBoolean'' ''value[]'' value
                               else (False, cmp))
             in if bad then Inr (fmi3Error, Some cmp)
             else
               let cmp = FILTERED_LOG cmp fmi3OK LOG_FMI_CALL ''fmi3SetBoolean: nvr = %d''
               in bnd (SetBoolean_loop M vr nvr 0 0 value cmp) (\<lambda>(ret, cmp).
                    case ret of Some st \<Rightarrow> Inr (st, Some cmp)
                    | None \<Rightarrow>
                        Inr (fmi3OK, Some (if nvr > 0 then cmp\<lparr>isDirtyValues := True\<rparr> else cmp)))))"

text \<open>\<^verbatim>\<open>fmi3SetString\<close>, with the loops as for the getters. The body of its inner loop is
  commented out in the source: nothing is stored, and \<^verbatim>\<open>k\<close> stays 0.\<close>

fun SetString_elems :: "nat \<Rightarrow> nat \<Rightarrow> nat \<Rightarrow> nat \<Rightarrow> string option list option \<Rightarrow> 'g ModelInstance_scheme \<Rightarrow> fault + (nat \<times> 'g ModelInstance_scheme)" where
  "SetString_elems v 0 j k value cmp = Inr (k, cmp)"
| "SetString_elems v (Suc n) j k value cmp =
     SetString_elems v n (Suc j) k value cmp"

fun SetString_loop :: "'s schema_scheme \<Rightarrow> nat list option \<Rightarrow> nat \<Rightarrow> nat \<Rightarrow> nat \<Rightarrow> string option list option \<Rightarrow> 'g ModelInstance_scheme \<Rightarrow> fault + (fmi3Status option \<times> 'g ModelInstance_scheme)" where
  "SetString_loop M vr 0 i k value cmp = Inr (None, cmp)"
| "SetString_loop M vr (Suc r) i k value cmp =
     bnd (deref vr i) (\<lambda>v.
       let (bad, cmp) = vrOutOfRange M cmp ''fmi3SetString'' v (CHR ''s'')
       in if bad then Inr (Some fmi3Error, cmp)
          else bnd (elem (s_variableSizes M) i) (\<lambda>n.
               bnd (SetString_elems v n 0 k value cmp) (\<lambda>(k, cmp).
                 let cmp = FILTERED_LOG cmp fmi3OK LOG_FMI_CALL ''fmi3SetBoolean: #b%u# = %s''
                 in SetString_loop M vr r (Suc i) k value cmp)))"

definition fmi3SetString :: "'s schema_scheme \<Rightarrow> 'g fmi3Component \<Rightarrow> nat list option \<Rightarrow> nat \<Rightarrow> string option list option \<Rightarrow> nat \<Rightarrow> fault + (fmi3Status \<times> 'g fmi3Component)" where
  "fmi3SetString M c vr nvr value nValues =
     (case invalidState c ''fmi3SetString'' MASK_fmi3SetString of
        Inl c' \<Rightarrow> Inr (fmi3Error, c')
      | Inr cmp \<Rightarrow>
          (let (bad, cmp) = (if nvr > 0 then nullPointer cmp ''fmi3SetString'' ''vr[]'' vr
                             else (False, cmp))
           in if bad then Inr (fmi3Error, Some cmp)
           else
             let (bad, cmp) = (if nvr > 0 then nullPointer cmp ''fmi3SetString'' ''value[]'' value
                               else (False, cmp))
             in if bad then Inr (fmi3Error, Some cmp)
             else
               let cmp = FILTERED_LOG cmp fmi3OK LOG_FMI_CALL ''fmi3SetString: nvr = %d''
               in bnd (SetString_loop M vr nvr 0 0 value cmp) (\<lambda>(ret, cmp).
                    case ret of Some st \<Rightarrow> Inr (st, Some cmp)
                    | None \<Rightarrow>
                        Inr (fmi3OK, Some (if nvr > 0 then cmp\<lparr>isDirtyValues := True\<rparr> else cmp)))))"


subsection \<open>fmu3Template.c: optional functions\<close>

definition fmi3GetFMUstate :: "'g fmi3Component \<Rightarrow> fmi3Status \<times> 'g fmi3Component" where
  "fmi3GetFMUstate c = unsupportedFunction c ''fmi3GetFMUstate'' MASK_fmi3GetFMUstate"

definition fmi3SetFMUstate :: "'g fmi3Component \<Rightarrow> fmi3Status \<times> 'g fmi3Component" where
  "fmi3SetFMUstate c = unsupportedFunction c ''fmi3SetFMUstate'' MASK_fmi3SetFMUstate"

definition fmi3FreeFMUstate :: "'g fmi3Component \<Rightarrow> fmi3Status \<times> 'g fmi3Component" where
  "fmi3FreeFMUstate c = unsupportedFunction c ''fmi3FreeFMUstate'' MASK_fmi3FreeFMUstate"

definition fmi3SerializedFMUstateSize :: "'g fmi3Component \<Rightarrow> fmi3Status \<times> 'g fmi3Component" where
  "fmi3SerializedFMUstateSize c =
     unsupportedFunction c ''fmi3SerializedFMUstateSize'' MASK_fmi3SerializedFMUstateSize"

definition fmi3SerializeFMUstate :: "'g fmi3Component \<Rightarrow> fmi3Status \<times> 'g fmi3Component" where
  "fmi3SerializeFMUstate c =
     unsupportedFunction c ''fmi3SerializeFMUstate'' MASK_fmi3SerializeFMUstate"

definition fmi3DeSerializeFMUstate :: "'g fmi3Component \<Rightarrow> fmi3Status \<times> 'g fmi3Component" where
  "fmi3DeSerializeFMUstate c =
     unsupportedFunction c ''fmi3DeSerializeFMUstate'' MASK_fmi3DeSerializeFMUstate"

definition fmi3GetDirectionalDerivative :: "'g fmi3Component \<Rightarrow> fmi3Status \<times> 'g fmi3Component" where
  "fmi3GetDirectionalDerivative c =
     unsupportedFunction c ''fmi3GetDirectionalDerivative'' MASK_fmi3GetDirectionalDerivative"

subsection \<open>fmu3Template.c: co-simulation\<close>

definition fmi3SetRealInputDerivatives :: "'g fmi3Component \<Rightarrow> nat list option \<Rightarrow> nat \<Rightarrow> int list option \<Rightarrow> real list option \<Rightarrow> nat \<Rightarrow> fmi3Status \<times> 'g fmi3Component" where
  "fmi3SetRealInputDerivatives c vr nvr order value size' =
     (case invalidState c ''fmi3SetRealInputDerivatives'' MASK_fmi3SetRealInputDerivatives of
        Inl c' \<Rightarrow> (fmi3Error, c')
      | Inr cmp \<Rightarrow>
          (let cmp = FILTERED_LOG cmp fmi3OK LOG_FMI_CALL ''fmi3SetRealInputDerivatives: nvr= %d'';
               cmp = FILTERED_LOG cmp fmi3Error LOG_ERROR
                       (''fmi3SetRealInputDerivatives: ignoring function call.''
                        @ '' This model cannot interpolate inputs: canInterpolateInputs=\"fmi3False\"'')
           in (fmi3Error, Some cmp)))"

text \<open>The loop \<^verbatim>\<open>for (i = 0; i < nvr; i++) value[i] = 0;\<close> with \<open>r\<close> iterations left.\<close>

fun zero_values :: "nat \<Rightarrow> nat \<Rightarrow> real list option \<Rightarrow> fault + real list option" where
  "zero_values 0 i value = Inr value"
| "zero_values (Suc r) i value = bnd (assign value i 0) (\<lambda>value. zero_values r (Suc i) value)"

definition fmi3GetRealOutputDerivatives :: "'g fmi3Component \<Rightarrow> nat list option \<Rightarrow> nat \<Rightarrow> int list option \<Rightarrow> real list option \<Rightarrow> nat \<Rightarrow> fault + (fmi3Status \<times> 'g fmi3Component \<times> real list option)" where
  "fmi3GetRealOutputDerivatives c vr nvr order value size' =
     (case invalidState c ''fmi3GetRealOutputDerivatives'' MASK_fmi3GetRealOutputDerivatives of
        Inl c' \<Rightarrow> Inr (fmi3Error, c', value)
      | Inr cmp \<Rightarrow>
          (let cmp = FILTERED_LOG cmp fmi3OK LOG_FMI_CALL ''fmi3GetRealOutputDerivatives: nvr= %d'';
               cmp = FILTERED_LOG cmp fmi3Error LOG_ERROR
                       (''fmi3GetRealOutputDerivatives: ignoring function call.''
                        @ '' This model cannot compute derivatives of outputs: MaxOutputDerivativeOrder=\"0\"'')
           in bnd (zero_values nvr 0 value) (\<lambda>value. Inr (fmi3Error, Some cmp, value))))"

definition fmi3CancelStep :: "'g fmi3Component \<Rightarrow> fmi3Status \<times> 'g fmi3Component" where
  "fmi3CancelStep c =
     (case invalidState c ''fmi3CancelStep'' MASK_fmi3CancelStep of
        Inl c' \<Rightarrow> (fmi3Error, c')
      | Inr cmp \<Rightarrow>
          (let cmp = FILTERED_LOG cmp fmi3OK LOG_FMI_CALL ''fmi3CancelStep'';
               cmp = FILTERED_LOG cmp fmi3Error LOG_ERROR
                       (''fmi3CancelStep: Can be called when fmi3DoStep returned fmi3Pending.''
                        @ '' This is not the case.'')
           in (fmi3Error, Some cmp)))"

text \<open>
  \<^verbatim>\<open>fmi3DoStep\<close>. The local arrays \<^verbatim>\<open>prevState\<close> and \<^verbatim>\<open>prevEventIndicators\<close> are lists;
  the counters \<^verbatim>\<open>stateEvent\<close> and \<^verbatim>\<open>timeEvent\<close> are passed from one iteration of the main
  loop to the next, as locals of the function. Every loop has its number \<open>r\<close> of
  remaining iterations as an argument. The guards \<^verbatim>\<open>#if NUMBER_OF_STATES>0\<close> and
  \<^verbatim>\<open>#if NUMBER_OF_EVENT_INDICATORS>0\<close> enclose loops that would not run otherwise.
\<close>

text \<open>\<^verbatim>\<open>for (i...) prevEventIndicators[i] = getEventIndicator(comp, i);\<close>\<close>

fun sample_indicators :: "'g model \<Rightarrow> 'g ModelInstance_scheme \<Rightarrow> nat \<Rightarrow> nat \<Rightarrow> real list \<Rightarrow> fault + real list" where
  "sample_indicators M cmp 0 i prevEventIndicators = Inr prevEventIndicators"
| "sample_indicators M cmp (Suc r) i prevEventIndicators =
     bnd (getEventIndicator M cmp i) (\<lambda>ei.
     if i < length prevEventIndicators
     then sample_indicators M cmp r (Suc i) (prevEventIndicators[i := ei])
     else Inl OutOfBounds)"

text \<open>\<^verbatim>\<open>for (i...) prevState[i] = R(comp, vrStates[i])[0];\<close>\<close>

fun save_states :: "'s schema_scheme \<Rightarrow> 'g ModelInstance_scheme \<Rightarrow> nat \<Rightarrow> nat \<Rightarrow> real list \<Rightarrow> fault + real list" where
  "save_states M cmp 0 i prevState = Inr prevState"
| "save_states M cmp (Suc r) i prevState =
     bnd (elem (vrStates M) i) (\<lambda>v.
     bnd (R cmp v) (\<lambda>p.
     bnd (load cmp p 0) (\<lambda>x.
     bnd (as_real x) (\<lambda>x.
     if i < length prevState
     then save_states M cmp r (Suc i) (prevState[i := x])
     else Inl OutOfBounds))))"

text \<open>\<^verbatim>\<open>for (i...) { vr = vrStates[i]; R(comp, vr)[0] += h * getReal(comp, vr + 1)[0]; }\<close>
  The hook is called first; the state is then read and written in the instance the
  hook returns.\<close>

fun euler_states :: "'g model \<Rightarrow> real \<Rightarrow> nat \<Rightarrow> nat \<Rightarrow> 'g ModelInstance_scheme \<Rightarrow> fault + 'g ModelInstance_scheme" where
  "euler_states M h 0 i cmp = Inr cmp"
| "euler_states M h (Suc r) i cmp =
     bnd (elem (vrStates M) i) (\<lambda>v.
     bnd (getReal M cmp (v + 1)) (\<lambda>(cmp, p).
     bnd (load cmp p 0) (\<lambda>d.
     bnd (as_real d) (\<lambda>d.
     bnd (R cmp v) (\<lambda>q.
     bnd (load cmp q 0) (\<lambda>x.
     bnd (as_real x) (\<lambda>x.
     bnd (store cmp q 0 (RealCell (fadd (arithmetic M) x (fmul (arithmetic M) h d)))) (\<lambda>cmp.
     euler_states M h r (Suc i) cmp))))))))"

text \<open>The check for state events over all event indicators.\<close>

fun check_indicators :: "'g model \<Rightarrow> nat \<Rightarrow> nat \<Rightarrow> real list \<Rightarrow> nat \<Rightarrow> 'g ModelInstance_scheme \<Rightarrow> fault + (real list \<times> nat \<times> 'g ModelInstance_scheme)" where
  "check_indicators M 0 i prevEventIndicators stateEvent cmp =
     Inr (prevEventIndicators, stateEvent, cmp)"
| "check_indicators M (Suc r) i prevEventIndicators stateEvent cmp =
     bnd (getEventIndicator M cmp i) (\<lambda>ei.
     bnd (elem prevEventIndicators i) (\<lambda>pe.
       let (cmp, stateEvent) =
             (if fmul (arithmetic M) ei pe < 0
              then (FILTERED_LOG cmp fmi3OK LOG_EVENT
                      ''fmi3DoStep: state event at %g, z%d crosses zero -%c-'', stateEvent + 1)
              else (cmp, stateEvent))
       in check_indicators M r (Suc i) (prevEventIndicators[i := ei]) stateEvent cmp))"

text \<open>The main loop \<^verbatim>\<open>for (k = 0; k < n; k++)\<close>. \<open>DoStep_body\<close> is one run of its body
  on the locals \<^verbatim>\<open>prevEventIndicators\<close>, \<^verbatim>\<open>stateEvent\<close>, \<^verbatim>\<open>timeEvent\<close> and the instance;
  its answer \<open>Some fmi3Discard\<close> is the \<^verbatim>\<open>return fmi3Discard\<close>.\<close>

type_synonym 'g DoStep_locals = "real list \<times> nat \<times> nat \<times> 'g ModelInstance_scheme"

definition DoStep_body :: "'g model \<Rightarrow> real \<Rightarrow> 'g DoStep_locals \<Rightarrow> fault + (fmi3Status option \<times> 'g DoStep_locals)" where
  "DoStep_body M h locals =
     (let (prevEventIndicators, stateEvent, timeEvent, cmp) = locals;
          cmp = cmp\<lparr>time := fadd (arithmetic M) (time cmp) h\<rparr>
      in bnd (save_states M cmp (NUMBER_OF_STATES M) 0
                (replicate (max (NUMBER_OF_STATES M) 1) 0)) (\<lambda>prevState.
         bnd (euler_states M h (NUMBER_OF_STATES M) 0 cmp) (\<lambda>cmp.
         bnd (check_indicators M (NUMBER_OF_EVENT_INDICATORS M) 0
                prevEventIndicators stateEvent cmp) (\<lambda>(prevEventIndicators, stateEvent, cmp).
           let (cmp, timeEvent) =
                 (if nextEventTimeDefined (eventInfo cmp)
                     \<and> fsub (arithmetic M) (time cmp) (nextEventTime (eventInfo cmp))
                         > - flit (arithmetic M) DT_EVENT_DETECT
                  then (FILTERED_LOG cmp fmi3OK LOG_EVENT
                          ''fmi3DoStep: time event detected at %g'', 1)
                  else (cmp, timeEvent))
           in bnd (if stateEvent \<noteq> 0 \<or> timeEvent \<noteq> 0
                   then bnd (eventUpdate M cmp (timeEvent \<noteq> 0) True)
                          (\<lambda>cmp. Inr (cmp, 0, 0))
                   else Inr (cmp, stateEvent, timeEvent)) (\<lambda>(cmp, stateEvent, timeEvent).
              if terminateSimulation (eventInfo cmp)
              then Inr (Some fmi3Discard, prevEventIndicators, stateEvent, timeEvent,
                        (FILTERED_LOG cmp fmi3Discard LOG_ALL
                           ''fmi3DoStep: model requested termination at t=%g'')
                          \<lparr>state := modelStepFailed\<rparr>)
              else Inr (None, prevEventIndicators, stateEvent, timeEvent, cmp))))))"

fun DoStep_loop :: "'g model \<Rightarrow> real \<Rightarrow> nat \<Rightarrow> 'g DoStep_locals \<Rightarrow> fault + (fmi3Status option \<times> 'g DoStep_locals)" where
  "DoStep_loop M h 0 locals = Inr (None, locals)"
| "DoStep_loop M h (Suc r) locals =
     bnd (DoStep_body M h locals) (\<lambda>(ret, locals).
       case ret of Some st \<Rightarrow> Inr (Some st, locals)
       | None \<Rightarrow> DoStep_loop M h r locals)"

definition fmi3DoStep :: "'g model \<Rightarrow> 'g fmi3Component \<Rightarrow> real \<Rightarrow> real \<Rightarrow> bool \<Rightarrow> fault + (fmi3Status \<times> 'g fmi3Component)" where
  "fmi3DoStep M c currentCommunicationPoint communicationStepSize
       noSetFMUStatePriorToCurrentPoint =
     (let h = fdiv (arithmetic M) communicationStepSize 10;
          n = 10
      in case invalidState c ''fmi3DoStep'' MASK_fmi3DoStep of
           Inl c' \<Rightarrow> Inr (fmi3Error, c')
         | Inr cmp \<Rightarrow>
             (let cmp = FILTERED_LOG cmp fmi3OK LOG_FMI_CALL
                          (''fmi3DoStep: currentCommunicationPoint = %g, ''
                           @ ''communicationStepSize = %g, ''
                           @ ''noSetFMUStatePriorToCurrentPoint = fmi3%s'')
              in if communicationStepSize \<le> 0
                 then Inr (fmi3Error,
                        Some ((FILTERED_LOG cmp fmi3Error LOG_ERROR
                                 ''fmi3DoStep: communication step size must be > 0. Fount %g.'')
                               \<lparr>state := modelError\<rparr>))
                 else
                   bnd (sample_indicators M cmp (NUMBER_OF_EVENT_INDICATORS M) 0
                          (replicate (max (NUMBER_OF_EVENT_INDICATORS M) 1) 0))
                     (\<lambda>prevEventIndicators.
                   let cmp = cmp\<lparr>time := currentCommunicationPoint\<rparr>
                   in bnd (DoStep_loop M h n (prevEventIndicators, 0, 0, cmp))
                        (\<lambda>(ret, prevEventIndicators, stateEvent, timeEvent, cmp).
                        case ret of Some st \<Rightarrow> Inr (st, Some cmp)
                        | None \<Rightarrow> Inr (fmi3OK, Some cmp)))))"

text \<open>The status inquiries.\<close>

definition getStatus :: "string \<Rightarrow> 'g fmi3Component \<Rightarrow> fmi3StatusKind \<Rightarrow> fmi3Status \<times> 'g fmi3Component" where
  "getStatus fname c s =
     (case invalidState c fname MASK_fmi3GetStatus of
        Inl c' \<Rightarrow> (fmi3Error, c')
      | Inr cmp \<Rightarrow>
          (let cmp = FILTERED_LOG cmp fmi3OK LOG_FMI_CALL ''$s: fmi3StatusKind = %s'';
               cmp = (case s of
                   fmi3DoStepStatus \<Rightarrow> FILTERED_LOG cmp fmi3Error LOG_ERROR
                     (''%s: Can be called with fmi3DoStepStatus when fmi3DoStep returned fmi3Pending.''
                      @ '' This is not the case.'')
                 | fmi3PendingStatus \<Rightarrow> FILTERED_LOG cmp fmi3Error LOG_ERROR
                     (''%s: Can be called with fmi3PendingStatus when fmi3DoStep returned fmi3Pending.''
                      @ '' This is not the case.'')
                 | fmi3LastSuccessfulTime \<Rightarrow> FILTERED_LOG cmp fmi3Error LOG_ERROR
                     (''%s: Can be called with fmi3LastSuccessfulTime when fmi3DoStep returned fmi3Discard.''
                      @ '' This is not the case.'')
                 | fmi3Terminated \<Rightarrow> FILTERED_LOG cmp fmi3Error LOG_ERROR
                     (''%s: Can be called with fmi3Terminated when fmi3DoStep returned fmi3Discard.''
                      @ '' This is not the case.''))
           in (fmi3Discard, Some cmp)))"

definition fmi3GetStatus :: "'g fmi3Component \<Rightarrow> fmi3StatusKind \<Rightarrow> fmi3Status \<times> 'g fmi3Component" where
  "fmi3GetStatus c s = getStatus ''fmi3GetStatus'' c s"

text \<open>An output parameter \<^verbatim>\<open>*value\<close> is an \<open>option\<close>: \<open>None\<close> is a \<^verbatim>\<open>NULL\<close> pointer,
  \<open>Some x\<close> the content of the pointed-to variable.\<close>

definition fmi3GetRealStatus :: "'g fmi3Component \<Rightarrow> fmi3StatusKind \<Rightarrow> real option \<Rightarrow> fault + (fmi3Status \<times> 'g fmi3Component \<times> real option)" where
  "fmi3GetRealStatus c s value =
     (if s = fmi3LastSuccessfulTime
      then (case invalidState c ''fmi3GetRealStatus'' MASK_fmi3GetRealStatus of
              Inl c' \<Rightarrow> Inr (fmi3Error, c', value)
            | Inr cmp \<Rightarrow>
                (case value of None \<Rightarrow> Inl NullPointer
                 | Some _ \<Rightarrow> Inr (fmi3OK, Some cmp, Some (time cmp))))
      else (let (st, c') = getStatus ''fmi3GetRealStatus'' c s in Inr (st, c', value)))"

definition fmi3GetIntegerStatus :: "'g fmi3Component \<Rightarrow> fmi3StatusKind \<Rightarrow> fmi3Status \<times> 'g fmi3Component" where
  "fmi3GetIntegerStatus c s = getStatus ''fmi3GetIntegerStatus'' c s"

definition fmi3GetBooleanStatus :: "'g fmi3Component \<Rightarrow> fmi3StatusKind \<Rightarrow> bool option \<Rightarrow> fault + (fmi3Status \<times> 'g fmi3Component \<times> bool option)" where
  "fmi3GetBooleanStatus c s value =
     (if s = fmi3Terminated
      then (case invalidState c ''fmi3GetBooleanStatus'' MASK_fmi3GetBooleanStatus of
              Inl c' \<Rightarrow> Inr (fmi3Error, c', value)
            | Inr cmp \<Rightarrow>
                (case value of None \<Rightarrow> Inl NullPointer
                 | Some _ \<Rightarrow> Inr (fmi3OK, Some cmp, Some (terminateSimulation (eventInfo cmp)))))
      else (let (st, c') = getStatus ''fmi3GetBooleanStatus'' c s in Inr (st, c', value)))"

definition fmi3GetStringStatus :: "'g fmi3Component \<Rightarrow> fmi3StatusKind \<Rightarrow> fmi3Status \<times> 'g fmi3Component" where
  "fmi3GetStringStatus c s = getStatus ''fmi3GetStringStatus'' c s"


subsection \<open>fmu3Template.c: model exchange\<close>

definition fmi3EnterEventMode :: "'g fmi3Component \<Rightarrow> fmi3Status \<times> 'g fmi3Component" where
  "fmi3EnterEventMode c =
     (case invalidState c ''fmi3EnterEventMode'' MASK_fmi3EnterEventMode of
        Inl c' \<Rightarrow> (fmi3Error, c')
      | Inr cmp \<Rightarrow>
          (let cmp = FILTERED_LOG cmp fmi3OK LOG_FMI_CALL ''fmi3EnterEventMode'';
               cmp = cmp\<lparr>state := modelEventMode\<rparr>;
               cmp = cmp\<lparr>isNewEventIteration := True\<rparr>
           in (fmi3OK, Some cmp)))"

text \<open>The hook \<open>eventUpdate\<close> is handed \<^verbatim>\<open>&comp->eventInfo\<close>: it works on the record in
  the instance. The output parameter \<^verbatim>\<open>*eventInfo\<close> receives all six fields.\<close>

definition fmi3NewDiscreteStates :: "'g model \<Rightarrow> 'g fmi3Component \<Rightarrow> fmi3EventInfo option \<Rightarrow> fault + (fmi3Status \<times> 'g fmi3Component \<times> fmi3EventInfo option)" where
  "fmi3NewDiscreteStates M c eventInfo' =
     (case invalidState c ''fmi3NewDiscreteStates'' MASK_fmi3NewDiscreteStates of
        Inl c' \<Rightarrow> Inr (fmi3Error, c', eventInfo')
      | Inr cmp \<Rightarrow>
          (let timeEvent = (0::nat);
               cmp = FILTERED_LOG cmp fmi3OK LOG_FMI_CALL ''fmi3NewDiscreteStates'';
               cmp = cmp\<lparr>eventInfo := (eventInfo cmp)\<lparr>newDiscreteStatesNeeded := False\<rparr>\<rparr>;
               cmp = cmp\<lparr>eventInfo := (eventInfo cmp)\<lparr>terminateSimulation := False\<rparr>\<rparr>;
               cmp = cmp\<lparr>eventInfo := (eventInfo cmp)\<lparr>nominalsOfContinuousStatesChanged := False\<rparr>\<rparr>;
               cmp = cmp\<lparr>eventInfo := (eventInfo cmp)\<lparr>valuesOfContinuousStatesChanged := False\<rparr>\<rparr>;
               timeEvent = (if nextEventTimeDefined (eventInfo cmp)
                               \<and> nextEventTime (eventInfo cmp) \<le> time cmp
                            then 1 else timeEvent)
           in bnd (eventUpdate M cmp (timeEvent \<noteq> 0) (isNewEventIteration cmp)) (\<lambda>cmp.
                let cmp = cmp\<lparr>isNewEventIteration := False\<rparr>
                in case eventInfo' of None \<Rightarrow> Inl NullPointer
                   | Some out \<Rightarrow>
                       Inr (fmi3OK, Some cmp,
                            Some (out\<lparr>newDiscreteStatesNeeded := newDiscreteStatesNeeded (eventInfo cmp),
                                       terminateSimulation := terminateSimulation (eventInfo cmp),
                                       nominalsOfContinuousStatesChanged :=
                                         nominalsOfContinuousStatesChanged (eventInfo cmp),
                                       valuesOfContinuousStatesChanged :=
                                         valuesOfContinuousStatesChanged (eventInfo cmp),
                                       nextEventTimeDefined := nextEventTimeDefined (eventInfo cmp),
                                       nextEventTime := nextEventTime (eventInfo cmp)\<rparr>)))))"

definition fmi3EnterContinuousTimeMode :: "'g fmi3Component \<Rightarrow> fmi3Status \<times> 'g fmi3Component" where
  "fmi3EnterContinuousTimeMode c =
     (case invalidState c ''fmi3EnterContinuousTimeMode'' MASK_fmi3EnterContinuousTimeMode of
        Inl c' \<Rightarrow> (fmi3Error, c')
      | Inr cmp \<Rightarrow>
          (let cmp = FILTERED_LOG cmp fmi3OK LOG_FMI_CALL ''fmi3EnterContinuousTimeMode'';
               cmp = cmp\<lparr>state := modelContinuousTimeMode\<rparr>
           in (fmi3OK, Some cmp)))"

definition fmi3CompletedIntegratorStep :: "'g fmi3Component \<Rightarrow> bool \<Rightarrow> bool option \<Rightarrow> bool option \<Rightarrow> fmi3Status \<times> 'g fmi3Component \<times> bool option \<times> bool option" where
  "fmi3CompletedIntegratorStep c noSetFMUStatePriorToCurrentPoint enterEventMode
       terminateSimulation' =
     (case invalidState c ''fmi3CompletedIntegratorStep'' MASK_fmi3CompletedIntegratorStep of
        Inl c' \<Rightarrow> (fmi3Error, c', enterEventMode, terminateSimulation')
      | Inr cmp \<Rightarrow>
          (let (bad, cmp) = nullPointer cmp ''fmi3CompletedIntegratorStep'' ''enterEventMode''
                              enterEventMode
           in if bad then (fmi3Error, Some cmp, enterEventMode, terminateSimulation')
           else
             let (bad, cmp) = nullPointer cmp ''fmi3CompletedIntegratorStep''
                                ''terminateSimulation'' terminateSimulation'
             in if bad then (fmi3Error, Some cmp, enterEventMode, terminateSimulation')
             else
               let cmp = FILTERED_LOG cmp fmi3OK LOG_FMI_CALL ''fmi3CompletedIntegratorStep''
               in (fmi3OK, Some cmp, Some False, Some False)))"

definition fmi3SetTime :: "'g fmi3Component \<Rightarrow> real \<Rightarrow> fmi3Status \<times> 'g fmi3Component" where
  "fmi3SetTime c time' =
     (case invalidState c ''fmi3SetTime'' MASK_fmi3SetTime of
        Inl c' \<Rightarrow> (fmi3Error, c')
      | Inr cmp \<Rightarrow>
          (let cmp = FILTERED_LOG cmp fmi3OK LOG_FMI_CALL ''fmi3SetTime: time=%.16g'';
               cmp = cmp\<lparr>time := time'\<rparr>
           in (fmi3OK, Some cmp)))"

text \<open>\<^verbatim>\<open>fmi3SetContinuousStates\<close>: the loop that wrote \<^verbatim>\<open>x[i]\<close> into the store is commented
  out in the source, so the function ends after its three checks.\<close>

definition fmi3SetContinuousStates :: "'s schema_scheme \<Rightarrow> 'g fmi3Component \<Rightarrow> real list option \<Rightarrow> nat \<Rightarrow> fmi3Status \<times> 'g fmi3Component" where
  "fmi3SetContinuousStates M c x nx =
     (case invalidState c ''fmi3SetContinuousStates'' MASK_fmi3SetContinuousStates of
        Inl c' \<Rightarrow> (fmi3Error, c')
      | Inr cmp \<Rightarrow>
          (let (bad, cmp) = invalidNumber cmp ''fmi3SetContinuousStates'' ''nx''
                              (size_t_to_int nx) (int (NUMBER_OF_STATES M))
           in if bad then (fmi3Error, Some cmp)
           else
             let (bad, cmp) = nullPointer cmp ''fmi3SetContinuousStates'' ''x[]'' x
             in if bad then (fmi3Error, Some cmp)
             else (fmi3OK, Some cmp)))"

text \<open>
  The loops of \<^verbatim>\<open>fmi3GetDerivatives\<close> and \<^verbatim>\<open>fmi3GetContinuousStates\<close> stand between
  \<^verbatim>\<open>#if NUMBER_OF_STATES>0\<close> and \<^verbatim>\<open>#endif\<close>, the loop of \<^verbatim>\<open>fmi3GetEventIndicators\<close> between
  \<^verbatim>\<open>#if NUMBER_OF_EVENT_INDICATORS>0\<close> and \<^verbatim>\<open>#endif\<close>: in a model without states, or
  without event indicators, the function has no loop.
\<close>

text \<open>\<^verbatim>\<open>for (i = 0; i < nx; i++) { vr = vrStates[i] + 1; derivatives[i] = getReal(comp, vr)[0]; ... }\<close>\<close>

fun GetDerivatives_loop :: "'g model \<Rightarrow> nat \<Rightarrow> nat \<Rightarrow> real list option \<Rightarrow> 'g ModelInstance_scheme \<Rightarrow> fault + (real list option \<times> 'g ModelInstance_scheme)" where
  "GetDerivatives_loop M 0 i derivatives cmp = Inr (derivatives, cmp)"
| "GetDerivatives_loop M (Suc r) i derivatives cmp =
     bnd (elem (vrStates M) i) (\<lambda>v.
       let vr = v + 1
       in bnd (getReal M cmp vr) (\<lambda>(cmp, p).
          bnd (load cmp p 0) (\<lambda>x.
          bnd (as_real x) (\<lambda>x.
          bnd (assign derivatives i x) (\<lambda>derivatives.
            let cmp = FILTERED_LOG cmp fmi3OK LOG_FMI_CALL ''fmi3GetDerivatives: #r%d# = %.16g''
            in GetDerivatives_loop M r (Suc i) derivatives cmp)))))"

definition fmi3GetDerivatives :: "'g model \<Rightarrow> 'g fmi3Component \<Rightarrow> real list option \<Rightarrow> nat \<Rightarrow> fault + (fmi3Status \<times> 'g fmi3Component \<times> real list option)" where
  "fmi3GetDerivatives M c derivatives nx =
     (case invalidState c ''fmi3GetDerivatives'' MASK_fmi3GetDerivatives of
        Inl c' \<Rightarrow> Inr (fmi3Error, c', derivatives)
      | Inr cmp \<Rightarrow>
          (let (bad, cmp) = invalidNumber cmp ''fmi3GetDerivatives'' ''nx''
                              (size_t_to_int nx) (int (NUMBER_OF_STATES M))
           in if bad then Inr (fmi3Error, Some cmp, derivatives)
           else
             let (bad, cmp) = nullPointer cmp ''fmi3GetDerivatives'' ''derivatives[]'' derivatives
             in if bad then Inr (fmi3Error, Some cmp, derivatives)
             else bnd (if NUMBER_OF_STATES M > 0
                       then GetDerivatives_loop M nx 0 derivatives cmp
                       else Inr (derivatives, cmp)) (\<lambda>(derivatives, cmp).
                    Inr (fmi3OK, Some cmp, derivatives))))"

text \<open>\<^verbatim>\<open>for (i = 0; i < ni; i++) { eventIndicators[i] = getEventIndicator(comp, i); ... }\<close>\<close>

fun GetEventIndicators_loop :: "'g model \<Rightarrow> nat \<Rightarrow> nat \<Rightarrow> real list option \<Rightarrow> 'g ModelInstance_scheme \<Rightarrow> fault + (real list option \<times> 'g ModelInstance_scheme)" where
  "GetEventIndicators_loop M 0 i eventIndicators cmp = Inr (eventIndicators, cmp)"
| "GetEventIndicators_loop M (Suc r) i eventIndicators cmp =
     bnd (getEventIndicator M cmp i) (\<lambda>x.
     bnd (assign eventIndicators i x) (\<lambda>eventIndicators.
       let cmp = FILTERED_LOG cmp fmi3OK LOG_FMI_CALL ''fmi3GetEventIndicators: z%d = %.16g''
       in GetEventIndicators_loop M r (Suc i) eventIndicators cmp))"

definition fmi3GetEventIndicators :: "'g model \<Rightarrow> 'g fmi3Component \<Rightarrow> real list option \<Rightarrow> nat \<Rightarrow> fault + (fmi3Status \<times> 'g fmi3Component \<times> real list option)" where
  "fmi3GetEventIndicators M c eventIndicators ni =
     (case invalidState c ''fmi3GetEventIndicators'' MASK_fmi3GetEventIndicators of
        Inl c' \<Rightarrow> Inr (fmi3Error, c', eventIndicators)
      | Inr cmp \<Rightarrow>
          (let (bad, cmp) = invalidNumber cmp ''fmi3GetEventIndicators'' ''ni''
                              (size_t_to_int ni) (int (NUMBER_OF_EVENT_INDICATORS M))
           in if bad then Inr (fmi3Error, Some cmp, eventIndicators)
           else bnd (if NUMBER_OF_EVENT_INDICATORS M > 0
                     then GetEventIndicators_loop M ni 0 eventIndicators cmp
                     else Inr (eventIndicators, cmp))
                  (\<lambda>(eventIndicators, cmp). Inr (fmi3OK, Some cmp, eventIndicators))))"

text \<open>\<^verbatim>\<open>for (i = 0; i < nx; i++) { vr = vrStates[i]; states[i] = getReal(comp, vr)[0]; ... }\<close>\<close>

fun GetContinuousStates_loop :: "'g model \<Rightarrow> nat \<Rightarrow> nat \<Rightarrow> real list option \<Rightarrow> 'g ModelInstance_scheme \<Rightarrow> fault + (real list option \<times> 'g ModelInstance_scheme)" where
  "GetContinuousStates_loop M 0 i states cmp = Inr (states, cmp)"
| "GetContinuousStates_loop M (Suc r) i states cmp =
     bnd (elem (vrStates M) i) (\<lambda>vr.
     bnd (getReal M cmp vr) (\<lambda>(cmp, p).
     bnd (load cmp p 0) (\<lambda>x.
     bnd (as_real x) (\<lambda>x.
     bnd (assign states i x) (\<lambda>states.
       let cmp = FILTERED_LOG cmp fmi3OK LOG_FMI_CALL ''fmi3GetContinuousStates: #r%u# = %.16g''
       in GetContinuousStates_loop M r (Suc i) states cmp)))))"

definition fmi3GetContinuousStates :: "'g model \<Rightarrow> 'g fmi3Component \<Rightarrow> real list option \<Rightarrow> nat \<Rightarrow> fault + (fmi3Status \<times> 'g fmi3Component \<times> real list option)" where
  "fmi3GetContinuousStates M c states nx =
     (case invalidState c ''fmi3GetContinuousStates'' MASK_fmi3GetContinuousStates of
        Inl c' \<Rightarrow> Inr (fmi3Error, c', states)
      | Inr cmp \<Rightarrow>
          (let (bad, cmp) = invalidNumber cmp ''fmi3GetContinuousStates'' ''nx''
                              (size_t_to_int nx) (int (NUMBER_OF_STATES M))
           in if bad then Inr (fmi3Error, Some cmp, states)
           else
             let (bad, cmp) = nullPointer cmp ''fmi3GetContinuousStates'' ''states[]'' states
             in if bad then Inr (fmi3Error, Some cmp, states)
             else bnd (if NUMBER_OF_STATES M > 0
                       then GetContinuousStates_loop M nx 0 states cmp
                       else Inr (states, cmp)) (\<lambda>(states, cmp).
                    Inr (fmi3OK, Some cmp, states))))"

text \<open>\<^verbatim>\<open>for (i = 0; i < nx; i++) x_nominal[i] = 1;\<close>\<close>

fun set_nominals :: "nat \<Rightarrow> nat \<Rightarrow> real list option \<Rightarrow> fault + real list option" where
  "set_nominals 0 i x_nominal = Inr x_nominal"
| "set_nominals (Suc r) i x_nominal =
     bnd (assign x_nominal i 1) (\<lambda>x_nominal. set_nominals r (Suc i) x_nominal)"

definition fmi3GetNominalsOfContinuousStates :: "'s schema_scheme \<Rightarrow> 'g fmi3Component \<Rightarrow> real list option \<Rightarrow> nat \<Rightarrow> fault + (fmi3Status \<times> 'g fmi3Component \<times> real list option)" where
  "fmi3GetNominalsOfContinuousStates M c x_nominal nx =
     (case invalidState c ''fmi3GetNominalsOfContinuousStates''
             MASK_fmi3GetNominalsOfContinuousStates of
        Inl c' \<Rightarrow> Inr (fmi3Error, c', x_nominal)
      | Inr cmp \<Rightarrow>
          (let (bad, cmp) = invalidNumber cmp ''fmi3GetNominalContinuousStates'' ''nx''
                              (size_t_to_int nx) (int (NUMBER_OF_STATES M))
           in if bad then Inr (fmi3Error, Some cmp, x_nominal)
           else
             let (bad, cmp) = nullPointer cmp ''fmi3GetNominalContinuousStates''
                                ''x_nominal[]'' x_nominal
             in if bad then Inr (fmi3Error, Some cmp, x_nominal)
             else
               let cmp = FILTERED_LOG cmp fmi3OK LOG_FMI_CALL
                           ''fmi3GetNominalContinuousStates: x_nominal[0..%d] = 1.0''
               in bnd (set_nominals nx 0 x_nominal) (\<lambda>x_nominal.
                    Inr (fmi3OK, Some cmp, x_nominal))))"


subsection \<open>The macros of fmu3Template.h used by the models\<close>

text \<open>\<^verbatim>\<open>r(vr)\<close> is \<^verbatim>\<open>*R(comp, vr)\<close>, read or assigned; \<^verbatim>\<open>pos(z)\<close> is \<^verbatim>\<open>comp->isPositive[z]\<close>.\<close>

definition get_r :: "'g ModelInstance_scheme \<Rightarrow> nat \<Rightarrow> fault + real" where
  "get_r cmp vr = bnd (R cmp vr) (\<lambda>p. bnd (load cmp p 0) as_real)"

definition set_r :: "'g ModelInstance_scheme \<Rightarrow> nat \<Rightarrow> real \<Rightarrow> fault + 'g ModelInstance_scheme" where
  "set_r cmp vr x = bnd (R cmp vr) (\<lambda>p. store cmp p 0 (RealCell x))"

definition get_pos :: "'g ModelInstance_scheme \<Rightarrow> nat \<Rightarrow> fault + bool" where
  "get_pos cmp z = elem (isPositive cmp) z"

definition set_pos :: "'g ModelInstance_scheme \<Rightarrow> nat \<Rightarrow> bool \<Rightarrow> fault + 'g ModelInstance_scheme" where
  "set_pos cmp z b = (if z < length (isPositive cmp)
                      then Inr (cmp\<lparr>isPositive := (isPositive cmp)[z := b]\<rparr>)
                      else Inl OutOfBounds)"

subsection \<open>Dahlquist.c\<close>

definition dq_x :: nat where "dq_x = 0"
definition dq_der_x :: nat where "dq_der_x = 1"
definition dq_k :: nat where "dq_k = 2"

definition dq_setStartValues :: "'g ModelInstance_scheme \<Rightarrow> fault + 'g ModelInstance_scheme" where
  "dq_setStartValues cmp = bnd (set_r cmp dq_x 1) (\<lambda>cmp. set_r cmp dq_k 1)"

definition dq_calculateValues :: "'g ModelInstance_scheme \<Rightarrow> fault + 'g ModelInstance_scheme" where
  "dq_calculateValues cmp = Inr cmp"

definition dq_getReal :: "arith \<Rightarrow> 'g ModelInstance_scheme \<Rightarrow> nat \<Rightarrow> fault + ('g ModelInstance_scheme \<times> ptr)" where
  "dq_getReal A cmp vr =
     (if vr = dq_x then bnd (R cmp dq_x) (\<lambda>p. Inr (cmp, p))
      else if vr = dq_der_x then
        bnd (get_r cmp dq_x) (\<lambda>a.
        bnd (get_r cmp dq_x) (\<lambda>b.
        bnd (set_r cmp dq_der_x (fmul A (- a) b)) (\<lambda>cmp.
        bnd (R cmp dq_der_x) (\<lambda>p. Inr (cmp, p)))))
      else if vr = dq_k then bnd (R cmp dq_k) (\<lambda>p. Inr (cmp, p))
      else Inr (cmp, None))"

text \<open>Dahlquist.c defines no \<^verbatim>\<open>getEventIndicator\<close>: with \<^verbatim>\<open>NUMBER_OF_EVENT_INDICATORS\<close>
  0 the calls are compiled out. The field below is never called.

  The hooks that compute take the arithmetic as an argument. The model \<open>Dahlquist\<close>
  below, and \<open>BouncingBall\<close> after it, are the models built with the arithmetic
  \<open>exact\<close>.\<close>

definition dq_eventUpdate :: "'g ModelInstance_scheme \<Rightarrow> bool \<Rightarrow> bool \<Rightarrow> fault + 'g ModelInstance_scheme" where
  "dq_eventUpdate cmp isTimeEvent isNewEventIteration' = Inr cmp"

definition Dahlquist :: "unit model" where
  "Dahlquist = \<lparr> N_VARIABLES = 3, s_variableTypes = ''rrr'', s_variableSizes = [1, 1, 1],
       NUMBER_OF_STATES = 1, NUMBER_OF_EVENT_INDICATORS = 0, vrStates = [dq_x],
       setStartValues = dq_setStartValues, calculateValues = dq_calculateValues,
       getReal = dq_getReal exact, getEventIndicator = (\<lambda>cmp z. Inr 0),
       eventUpdate = dq_eventUpdate, arithmetic = exact \<rparr>"

subsection \<open>BouncingBall.c\<close>

text \<open>The file-scope variable \<^verbatim>\<open>prevV\<close> of BouncingBall.c travels with the instance.\<close>

record BouncingBall_instance = ModelInstance +
  prevV :: real

definition bb_h :: nat where "bb_h = 0"
definition bb_der_h :: nat where "bb_der_h = 1"
definition bb_v :: nat where "bb_v = 2"
definition bb_der_v :: nat where "bb_der_v = 3"
definition bb_g :: nat where "bb_g = 4"
definition bb_e :: nat where "bb_e = 5"

definition bb_setStartValues :: "arith \<Rightarrow> 'g ModelInstance_scheme \<Rightarrow> fault + 'g ModelInstance_scheme" where
  "bb_setStartValues A cmp =
     bnd (set_r cmp bb_h 1) (\<lambda>cmp.
     bnd (set_r cmp bb_v 0) (\<lambda>cmp.
     bnd (set_r cmp bb_g (flit A 9.81)) (\<lambda>cmp.
     set_r cmp bb_e (flit A 0.7))))"

definition bb_calculateValues :: "'g ModelInstance_scheme \<Rightarrow> fault + 'g ModelInstance_scheme" where
  "bb_calculateValues cmp =
     (if state cmp = modelInitializationMode
      then bnd (get_r cmp bb_g) (\<lambda>g.
           bnd (set_r cmp bb_der_v (- g)) (\<lambda>cmp.
           bnd (get_r cmp bb_h) (\<lambda>h.
           set_pos cmp 0 (h > 0))))
      else Inr cmp)"

definition bb_getReal :: "'g ModelInstance_scheme \<Rightarrow> nat \<Rightarrow> fault + ('g ModelInstance_scheme \<times> ptr)" where
  "bb_getReal cmp vr =
     (if vr = bb_h then bnd (R cmp bb_h) (\<lambda>p. Inr (cmp, p))
      else if vr = bb_der_h then bnd (R cmp bb_v) (\<lambda>p. Inr (cmp, p))
      else if vr = bb_v then bnd (R cmp bb_v) (\<lambda>p. Inr (cmp, p))
      else if vr = bb_der_v then bnd (R cmp bb_der_v) (\<lambda>p. Inr (cmp, p))
      else if vr = bb_g then bnd (R cmp bb_g) (\<lambda>p. Inr (cmp, p))
      else if vr = bb_e then bnd (R cmp bb_e) (\<lambda>p. Inr (cmp, p))
      else Inr (cmp, None))"

definition EPS_INDICATORS :: real where
  "EPS_INDICATORS = 1 / 10 ^ 14"

definition bb_getEventIndicator :: "arith \<Rightarrow> 'g ModelInstance_scheme \<Rightarrow> nat \<Rightarrow> fault + real" where
  "bb_getEventIndicator A cmp z =
     (if z = 0
      then bnd (get_r cmp bb_h) (\<lambda>h.
           bnd (get_pos cmp 0) (\<lambda>p.
           Inr (fadd A h (if p then flit A EPS_INDICATORS else - flit A EPS_INDICATORS))))
      else Inr 0)"

definition bb_eventUpdate :: "arith \<Rightarrow> BouncingBall_instance \<Rightarrow> bool \<Rightarrow> bool \<Rightarrow> fault + BouncingBall_instance" where
  "bb_eventUpdate A cmp isTimeEvent isNewEventIteration' =
     bnd (if isNewEventIteration'
          then bnd (get_r cmp bb_v) (\<lambda>v. Inr (cmp\<lparr>prevV := v\<rparr>))
          else Inr cmp) (\<lambda>cmp.
     bnd (get_r cmp bb_h) (\<lambda>h.
     bnd (set_pos cmp 0 (h > 0)) (\<lambda>cmp.
     bnd (get_pos cmp 0) (\<lambda>p.
     bnd (if \<not> p
          then bnd (get_r cmp bb_e) (\<lambda>e.
               let tempV = fmul A (- e) (prevV cmp)
               in bnd (get_r cmp bb_v) (\<lambda>v.
                  bnd (if v \<noteq> tempV
                       then bnd (set_r cmp bb_v tempV) (\<lambda>cmp.
                              Inr (cmp\<lparr>eventInfo := (eventInfo cmp)
                                         \<lparr>valuesOfContinuousStatesChanged := True\<rparr>\<rparr>))
                       else Inr cmp) (\<lambda>cmp.
                  bnd (get_r cmp bb_v) (\<lambda>v.
                  if v < flit A (1 / 10 ^ 3)
                  then bnd (set_r cmp bb_v 0) (\<lambda>cmp. set_r cmp bb_der_v 0)
                  else Inr cmp))))
          else Inr cmp) (\<lambda>cmp.
     Inr (cmp\<lparr>eventInfo := (eventInfo cmp)
               \<lparr>nominalsOfContinuousStatesChanged := False,
                terminateSimulation := False,
                nextEventTimeDefined := False\<rparr>\<rparr>))))))"

definition BouncingBall :: "unit BouncingBall_instance_ext model" where
  "BouncingBall = \<lparr> N_VARIABLES = 6, s_variableTypes = ''rrrrrr'',
       s_variableSizes = [1, 1, 1, 1, 1, 1],
       NUMBER_OF_STATES = 2, NUMBER_OF_EVENT_INDICATORS = 1, vrStates = [bb_h, bb_v],
       setStartValues = bb_setStartValues exact, calculateValues = bb_calculateValues,
       getReal = bb_getReal, getEventIndicator = bb_getEventIndicator exact,
       eventUpdate = bb_eventUpdate exact, arithmetic = exact \<rparr>"

subsection \<open>The tables of Values.c and LinearTransform.c\<close>

definition Values_schema :: schema where
  "Values_schema = \<lparr> N_VARIABLES = 8, s_variableTypes = ''rriibbss'',
       s_variableSizes = [1, 1, 1, 1, 1, 1, 1, 1],
       NUMBER_OF_STATES = 1, NUMBER_OF_EVENT_INDICATORS = 0, vrStates = [0] \<rparr>"

definition LinearTransform_schema :: schema where
  "LinearTransform_schema = \<lparr> N_VARIABLES = 7, s_variableTypes = ''rrriibb'',
       s_variableSizes = [3, 9, 3, 2, 2, 2, 2],
       NUMBER_OF_STATES = 0, NUMBER_OF_EVENT_INDICATORS = 0, vrStates = [] \<rparr>"


subsection \<open>Protocol calls\<close>

text \<open>
  A call of the host: one of the exported functions that take a component and answer
  with a status, together with its arguments. \<open>call\<close> runs the function and keeps the
  status and the component; \<open>legal_states\<close> is the mask the function hands to
  \<open>invalidState\<close>. \<^verbatim>\<open>fmi3Instantiate\<close>, \<^verbatim>\<open>fmi3GetVersion\<close> and \<^verbatim>\<open>fmi3GetTypesPlatform\<close>
  take no component and check no state; \<^verbatim>\<open>fmi3FreeInstance\<close> answers with no status.
\<close>

datatype fmi3Call =
    SetupExperiment bool real real bool real
  | EnterInitializationMode
  | ExitInitializationMode
  | Terminate
  | Reset
  | SetDebugLogging bool nat "string list option"
  | GetReal "nat list option" nat "real list option" nat
  | GetInteger "nat list option" nat "int list option" nat
  | GetBoolean "nat list option" nat "bool list option" nat
  | GetString "nat list option" nat "string option list option" nat
  | SetReal "nat list option" nat "real list option" nat
  | SetInteger "nat list option" nat "int list option" nat
  | SetBoolean "nat list option" nat "bool list option" nat
  | SetString "nat list option" nat "string option list option" nat
  | GetFMUstate
  | SetFMUstate
  | FreeFMUstate
  | SerializedFMUstateSize
  | SerializeFMUstate
  | DeSerializeFMUstate
  | GetDirectionalDerivative
  | SetRealInputDerivatives "nat list option" nat "int list option" "real list option" nat
  | GetRealOutputDerivatives "nat list option" nat "int list option" "real list option" nat
  | CancelStep
  | DoStep real real bool
  | GetStatus fmi3StatusKind
  | GetRealStatus fmi3StatusKind "real option"
  | GetIntegerStatus fmi3StatusKind
  | GetBooleanStatus fmi3StatusKind "bool option"
  | GetStringStatus fmi3StatusKind
  | EnterEventMode
  | NewDiscreteStates "fmi3EventInfo option"
  | EnterContinuousTimeMode
  | CompletedIntegratorStep bool "bool option" "bool option"
  | SetTime real
  | SetContinuousStates "real list option" nat
  | GetDerivatives "real list option" nat
  | GetEventIndicators "real list option" nat
  | GetContinuousStates "real list option" nat
  | GetNominalsOfContinuousStates "real list option" nat

definition drop_output :: "fault + (fmi3Status \<times> 'c \<times> 'o) \<Rightarrow> fault + (fmi3Status \<times> 'c)" where
  "drop_output r = bnd r (\<lambda>(st, c, out). Inr (st, c))"

fun call :: "'g model \<Rightarrow> fmi3Call \<Rightarrow> 'g fmi3Component \<Rightarrow> fault + (fmi3Status \<times> 'g fmi3Component)" where
  "call M (SetupExperiment a b t0 d e) c = Inr (fmi3SetupExperiment c a b t0 d e)"
| "call M EnterInitializationMode c = Inr (fmi3EnterInitializationMode c)"
| "call M ExitInitializationMode c = fmi3ExitInitializationMode M c"
| "call M Terminate c = Inr (fmi3Terminate c)"
| "call M Reset c = fmi3Reset M c"
| "call M (SetDebugLogging on n cats) c = fmi3SetDebugLogging c on n cats"
| "call M (GetReal vr nvr value nValues) c = drop_output (fmi3GetReal M c vr nvr value nValues)"
| "call M (GetInteger vr nvr value nValues) c = drop_output (fmi3GetInteger M c vr nvr value nValues)"
| "call M (GetBoolean vr nvr value nValues) c = drop_output (fmi3GetBoolean M c vr nvr value nValues)"
| "call M (GetString vr nvr value nValues) c = drop_output (fmi3GetString M c vr nvr value nValues)"
| "call M (SetReal vr nvr value nValues) c = fmi3SetReal M c vr nvr value nValues"
| "call M (SetInteger vr nvr value nValues) c = fmi3SetInteger M c vr nvr value nValues"
| "call M (SetBoolean vr nvr value nValues) c = fmi3SetBoolean M c vr nvr value nValues"
| "call M (SetString vr nvr value nValues) c = fmi3SetString M c vr nvr value nValues"
| "call M GetFMUstate c = Inr (fmi3GetFMUstate c)"
| "call M SetFMUstate c = Inr (fmi3SetFMUstate c)"
| "call M FreeFMUstate c = Inr (fmi3FreeFMUstate c)"
| "call M SerializedFMUstateSize c = Inr (fmi3SerializedFMUstateSize c)"
| "call M SerializeFMUstate c = Inr (fmi3SerializeFMUstate c)"
| "call M DeSerializeFMUstate c = Inr (fmi3DeSerializeFMUstate c)"
| "call M GetDirectionalDerivative c = Inr (fmi3GetDirectionalDerivative c)"
| "call M (SetRealInputDerivatives vr nvr order value n) c =
     Inr (fmi3SetRealInputDerivatives c vr nvr order value n)"
| "call M (GetRealOutputDerivatives vr nvr order value n) c =
     drop_output (fmi3GetRealOutputDerivatives c vr nvr order value n)"
| "call M CancelStep c = Inr (fmi3CancelStep c)"
| "call M (DoStep t0 dt b) c = fmi3DoStep M c t0 dt b"
| "call M (GetStatus s) c = Inr (fmi3GetStatus c s)"
| "call M (GetRealStatus s value) c = drop_output (fmi3GetRealStatus c s value)"
| "call M (GetIntegerStatus s) c = Inr (fmi3GetIntegerStatus c s)"
| "call M (GetBooleanStatus s value) c = drop_output (fmi3GetBooleanStatus c s value)"
| "call M (GetStringStatus s) c = Inr (fmi3GetStringStatus c s)"
| "call M EnterEventMode c = Inr (fmi3EnterEventMode c)"
| "call M (NewDiscreteStates info) c = drop_output (fmi3NewDiscreteStates M c info)"
| "call M EnterContinuousTimeMode c = Inr (fmi3EnterContinuousTimeMode c)"
| "call M (CompletedIntegratorStep b e t) c =
     (let (st, c', out) = fmi3CompletedIntegratorStep c b e t in Inr (st, c'))"
| "call M (SetTime t) c = Inr (fmi3SetTime c t)"
| "call M (SetContinuousStates x nx) c = Inr (fmi3SetContinuousStates M c x nx)"
| "call M (GetDerivatives d nx) c = drop_output (fmi3GetDerivatives M c d nx)"
| "call M (GetEventIndicators z ni) c = drop_output (fmi3GetEventIndicators M c z ni)"
| "call M (GetContinuousStates x nx) c = drop_output (fmi3GetContinuousStates M c x nx)"
| "call M (GetNominalsOfContinuousStates x nx) c =
     drop_output (fmi3GetNominalsOfContinuousStates M c x nx)"

fun legal_states :: "fmi3Call \<Rightarrow> int" where
  "legal_states (SetupExperiment a b t0 d e) = MASK_fmi3SetupExperiment"
| "legal_states EnterInitializationMode = MASK_fmi3EnterInitializationMode"
| "legal_states ExitInitializationMode = MASK_fmi3ExitInitializationMode"
| "legal_states Terminate = MASK_fmi3Terminate"
| "legal_states Reset = MASK_fmi3Reset"
| "legal_states (SetDebugLogging on n cats) = MASK_fmi3SetDebugLogging"
| "legal_states (GetReal vr nvr value nValues) = MASK_fmi3GetReal"
| "legal_states (GetInteger vr nvr value nValues) = MASK_fmi3GetInteger"
| "legal_states (GetBoolean vr nvr value nValues) = MASK_fmi3GetBoolean"
| "legal_states (GetString vr nvr value nValues) = MASK_fmi3GetString"
| "legal_states (SetReal vr nvr value nValues) = MASK_fmi3SetReal"
| "legal_states (SetInteger vr nvr value nValues) = MASK_fmi3SetInteger"
| "legal_states (SetBoolean vr nvr value nValues) = MASK_fmi3SetBoolean"
| "legal_states (SetString vr nvr value nValues) = MASK_fmi3SetString"
| "legal_states GetFMUstate = MASK_fmi3GetFMUstate"
| "legal_states SetFMUstate = MASK_fmi3SetFMUstate"
| "legal_states FreeFMUstate = MASK_fmi3FreeFMUstate"
| "legal_states SerializedFMUstateSize = MASK_fmi3SerializedFMUstateSize"
| "legal_states SerializeFMUstate = MASK_fmi3SerializeFMUstate"
| "legal_states DeSerializeFMUstate = MASK_fmi3DeSerializeFMUstate"
| "legal_states GetDirectionalDerivative = MASK_fmi3GetDirectionalDerivative"
| "legal_states (SetRealInputDerivatives vr nvr order value n) = MASK_fmi3SetRealInputDerivatives"
| "legal_states (GetRealOutputDerivatives vr nvr order value n) = MASK_fmi3GetRealOutputDerivatives"
| "legal_states CancelStep = MASK_fmi3CancelStep"
| "legal_states (DoStep t0 dt b) = MASK_fmi3DoStep"
| "legal_states (GetStatus s) = MASK_fmi3GetStatus"
| "legal_states (GetRealStatus s value) = MASK_fmi3GetRealStatus"
| "legal_states (GetIntegerStatus s) = MASK_fmi3GetStatus"
| "legal_states (GetBooleanStatus s value) = MASK_fmi3GetBooleanStatus"
| "legal_states (GetStringStatus s) = MASK_fmi3GetStatus"
| "legal_states EnterEventMode = MASK_fmi3EnterEventMode"
| "legal_states (NewDiscreteStates info) = MASK_fmi3NewDiscreteStates"
| "legal_states EnterContinuousTimeMode = MASK_fmi3EnterContinuousTimeMode"
| "legal_states (CompletedIntegratorStep b e t) = MASK_fmi3CompletedIntegratorStep"
| "legal_states (SetTime t) = MASK_fmi3SetTime"
| "legal_states (SetContinuousStates x nx) = MASK_fmi3SetContinuousStates"
| "legal_states (GetDerivatives d nx) = MASK_fmi3GetDerivatives"
| "legal_states (GetEventIndicators z ni) = MASK_fmi3GetEventIndicators"
| "legal_states (GetContinuousStates x nx) = MASK_fmi3GetContinuousStates"
| "legal_states (GetNominalsOfContinuousStates x nx) = MASK_fmi3GetNominalsOfContinuousStates"

text \<open>The calls that the error state admits and that can answer without an error
  there: the logging control, the reset and the getters.\<close>

fun answers_in_error :: "fmi3Call \<Rightarrow> bool" where
  "answers_in_error (SetDebugLogging on n cats) = True"
| "answers_in_error Reset = True"
| "answers_in_error (GetReal vr nvr value nValues) = True"
| "answers_in_error (GetInteger vr nvr value nValues) = True"
| "answers_in_error (GetBoolean vr nvr value nValues) = True"
| "answers_in_error (GetString vr nvr value nValues) = True"
| "answers_in_error (GetDerivatives d nx) = True"
| "answers_in_error (GetEventIndicators z ni) = True"
| "answers_in_error (GetContinuousStates x nx) = True"
| "answers_in_error (GetNominalsOfContinuousStates x nx) = True"
| "answers_in_error _ = False"

subsection \<open>Example instances\<close>

text \<open>
  A co-simulation instance of the Dahlquist model as \<^verbatim>\<open>fmi3Instantiate\<close>,
  \<^verbatim>\<open>fmi3EnterInitializationMode\<close> and \<^verbatim>\<open>fmi3ExitInitializationMode\<close> leave it (logging off,
  start values \<open>x = 1\<close> and \<open>k = 1\<close> in memory that the allocator zeroed), and the
  same for the BouncingBall model (\<open>h = 1\<close>, \<open>v = 0\<close>, \<open>g = 9.81\<close>, \<open>e = 0.7\<close>, and
  \<open>der_v = -g\<close>, \<open>isPositive[0]\<close> computed in initialization mode).
\<close>

definition no_event :: fmi3EventInfo where
  "no_event = \<lparr> newDiscreteStatesNeeded = False, terminateSimulation = False,
       nominalsOfContinuousStatesChanged = False, valuesOfContinuousStatesChanged = False,
       nextEventTimeDefined = False, nextEventTime = 0 \<rparr>"

definition dq_example :: ModelInstance where
  "dq_example = \<lparr> variables = [[RealCell 1], [RealCell 0], [RealCell 1]],
       isPositive = [], time = 0, instanceName = ''instanceName'',
       type = fmi3CoSimulation, GUID = ''{8c4e810f-3df3-4a00-8276-176fa3c9f000}'',
       logger_calls = [], loggingOn = False,
       logCategories = [False, False, False, False],
       state = modelStepComplete, eventInfo = no_event,
       isDirtyValues = False, isNewEventIteration = False \<rparr>"

definition bb_example :: BouncingBall_instance where
  "bb_example = \<lparr> variables = [[RealCell 1], [RealCell 0], [RealCell 0], [RealCell (- 9.81)],
                                 [RealCell 9.81], [RealCell 0.7]],
       isPositive = [True], time = 0, instanceName = ''instanceName'',
       type = fmi3CoSimulation, GUID = ''{8c4e810f-3df3-4a00-8276-176fa3c9f003}'',
       logger_calls = [], loggingOn = False,
       logCategories = [False, False, False, False],
       state = modelStepComplete, eventInfo = no_event,
       isDirtyValues = False, isNewEventIteration = False, prevV = 0 \<rparr>"


text \<open>
  A co-simulation instance of the Values model in the same state. Its two text slots
  hold the \<^verbatim>\<open>NULL\<close> of the zeroed memory: the \<^verbatim>\<open>copy\<close> of its start values goes through
  \<^verbatim>\<open>fmi3SetString\<close>, which stores nothing.
\<close>

definition values_example :: ModelInstance where
  "values_example = \<lparr> variables = [[RealCell 1], [RealCell 0], [IntCell 2], [IntCell 0],
                                     [BoolCell True], [BoolCell False],
                                     [StrCell None], [StrCell None]],
       isPositive = [], time = 0, instanceName = ''instanceName'',
       type = fmi3CoSimulation, GUID = ''{8c4e810f-3df3-4a00-8276-176fa3c9f004}'',
       logger_calls = [], loggingOn = False,
       logCategories = [False, False, False, False],
       state = modelStepComplete,
       eventInfo = no_event\<lparr>nextEventTimeDefined := True, nextEventTime := 1\<rparr>,
       isDirtyValues = False, isNewEventIteration = False \<rparr>"


text \<open>A co-simulation instance of the LinearTransform model with its start values.\<close>

definition lt_example :: ModelInstance where
  "lt_example = \<lparr> variables =
         [[RealCell (- 0.1), RealCell (- 0.2), RealCell (- 0.3)],
          [RealCell 0, RealCell 0, RealCell (- 1),
           RealCell 0, RealCell (- 1), RealCell 0,
           RealCell (- 1), RealCell 0, RealCell 0],
          [RealCell 0.1, RealCell 0.2, RealCell 0.3],
          [IntCell (- 1), IntCell 1], [IntCell (- 1), IntCell 1],
          [BoolCell False, BoolCell True], [BoolCell False, BoolCell True]],
       isPositive = [], time = 0, instanceName = ''instanceName'',
       type = fmi3CoSimulation, GUID = ''{8c4e810f-3df3-4a00-8276-176fa3c9f001}'',
       logger_calls = [], loggingOn = False,
       logCategories = [False, False, False, False],
       state = modelStepComplete, eventInfo = no_event,
       isDirtyValues = False, isNewEventIteration = False \<rparr>"

text \<open>The output array of \<^verbatim>\<open>fmi3GetRealOutputDerivatives\<close> has room for the \<open>nvr\<close>
  elements that the function writes.\<close>

definition output_fits :: "fmi3Call \<Rightarrow> bool" where
  "output_fits op = (case op of
       GetRealOutputDerivatives vr nvr order value n \<Rightarrow>
         (case value of None \<Rightarrow> nvr = 0 | Some xs \<Rightarrow> nvr \<le> length xs)
     | _ \<Rightarrow> True)"

text \<open>
  A BouncingBall instance in which the velocity \<open>v\<close> is 1, the acceleration \<open>der_v\<close>
  and the gravity \<open>g\<close> are 0 and \<open>e\<close> is 0.5: the ball moves upwards at constant
  velocity. \<open>bb_moving_at s x\<close> is this instance at the time \<open>s\<close> and the height \<open>x\<close>.
\<close>

definition bb_moving_at :: "real \<Rightarrow> real \<Rightarrow> BouncingBall_instance" where
  "bb_moving_at s x = bb_example\<lparr>time := s,
       variables := [[RealCell x], [RealCell 0], [RealCell 1], [RealCell 0],
                     [RealCell 0], [RealCell 0.5]]\<rparr>"

text \<open>
  The same with the velocity \<open>-1\<close> at the time 0 and the height 1, and the instance
  ten time units later, after the ball has gone through the ground and come back:
  the height is 3, the velocity 0.5, as \<open>eventUpdate\<close> has set it and recorded it.
\<close>

definition bb_falling :: BouncingBall_instance where
  "bb_falling = bb_example\<lparr>
       variables := [[RealCell 1], [RealCell 0], [RealCell (- 1)], [RealCell 0],
                     [RealCell 0], [RealCell 0.5]]\<rparr>"

definition bb_bounced :: BouncingBall_instance where
  "bb_bounced = bb_example\<lparr>
       variables := [[RealCell 3], [RealCell 0], [RealCell 0.5], [RealCell 0],
                     [RealCell 0], [RealCell 0.5]],
       time := 10,
       eventInfo := no_event\<lparr>valuesOfContinuousStatesChanged := True\<rparr>,
       prevV := 0.5\<rparr>"

subsection \<open>The do-step in the words of the specification\<close>

text \<open>
  Advancing one continuous state by the sub-step size \<open>h\<close> times its derivative, the
  derivative being what the model's \<open>getReal\<close> hook yields for the value reference
  after that of the state; and advancing the states of a state vector one after the
  other.
\<close>

definition spec_advance_state :: "'g model \<Rightarrow> real \<Rightarrow> nat \<Rightarrow> 'g ModelInstance_scheme \<Rightarrow> fault + 'g ModelInstance_scheme" where
  "spec_advance_state M h v cmp =
     bnd (getReal M cmp (v + 1)) (\<lambda>(cmp, p).
     bnd (load cmp p 0) (\<lambda>d.
     bnd (as_real d) (\<lambda>derivative.
     bnd (get_r cmp v) (\<lambda>x.
     set_r cmp v (fadd (arithmetic M) x (fmul (arithmetic M) h derivative))))))"

fun spec_advance_states :: "'g model \<Rightarrow> real \<Rightarrow> nat list \<Rightarrow> 'g ModelInstance_scheme \<Rightarrow> fault + 'g ModelInstance_scheme" where
  "spec_advance_states M h [] cmp = Inr cmp"
| "spec_advance_states M h (v # vs) cmp =
     bnd (spec_advance_state M h v cmp) (spec_advance_states M h vs)"

text \<open>
  The values of the event indicators with the numbers \<open>zs\<close>. An indicator flips its
  sign between two values when the product of the current and the previous value is
  negative; a state event is a flip of some indicator. \<open>spec_recompute\<close> computes the
  indicators from number \<open>z\<close> on anew, one for each previous value, and has every flip
  logged.
\<close>

fun spec_indicators :: "'g model \<Rightarrow> 'g ModelInstance_scheme \<Rightarrow> nat list \<Rightarrow> fault + real list" where
  "spec_indicators M cmp [] = Inr []"
| "spec_indicators M cmp (z # zs) =
     bnd (getEventIndicator M cmp z) (\<lambda>current.
     bnd (spec_indicators M cmp zs) (\<lambda>rest. Inr (current # rest)))"

definition spec_flip :: "arith \<Rightarrow> real \<Rightarrow> real \<Rightarrow> bool" where
  "spec_flip A previous current = (fmul A current previous < 0)"

definition spec_state_event :: "arith \<Rightarrow> real list \<Rightarrow> real list \<Rightarrow> bool" where
  "spec_state_event A previous current =
     list_ex (\<lambda>(p, c). spec_flip A p c) (zip previous current)"

fun spec_recompute :: "'g model \<Rightarrow> real list \<Rightarrow> nat \<Rightarrow> 'g ModelInstance_scheme \<Rightarrow> fault + (real list \<times> 'g ModelInstance_scheme)" where
  "spec_recompute M [] z cmp = Inr ([], cmp)"
| "spec_recompute M (previous # rest) z cmp =
     bnd (getEventIndicator M cmp z) (\<lambda>current.
     bnd (spec_recompute M rest (Suc z)
            (if spec_flip (arithmetic M) previous current
             then FILTERED_LOG cmp fmi3OK LOG_EVENT
                    ''fmi3DoStep: state event at %g, z%d crosses zero -%c-''
             else cmp)) (\<lambda>(currents, cmp).
     Inr (current # currents, cmp)))"

text \<open>
  One sub-step of size \<open>h\<close>, from the previous values of the event indicators and the
  instance: the time advances by \<open>h\<close>; every continuous state advances by \<open>h\<close> times
  its derivative; the event indicators are computed anew; on a state event, or when an
  announced event time is reached, the model's \<open>eventUpdate\<close> runs; and a model that
  asks to terminate ends the step with \<open>fmi3Discard\<close>. The sub-step answers with the
  status it ends the step with, if any, the new values of the indicators and the
  instance.
\<close>

definition spec_substep :: "'g model \<Rightarrow> real \<Rightarrow> real list \<times> 'g ModelInstance_scheme \<Rightarrow> fault + (fmi3Status option \<times> real list \<times> 'g ModelInstance_scheme)" where
  "spec_substep M h s =
     (let (previous, cmp) = s;
          cmp = cmp\<lparr>time := fadd (arithmetic M) (time cmp) h\<rparr>
      in bnd (spec_advance_states M h (take (NUMBER_OF_STATES M) (vrStates M)) cmp) (\<lambda>cmp.
         bnd (spec_recompute M previous 0 cmp) (\<lambda>(current, cmp).
           let state_event = spec_state_event (arithmetic M) previous current;
               time_event = (nextEventTimeDefined (eventInfo cmp)
                   \<and> fsub (arithmetic M) (time cmp) (nextEventTime (eventInfo cmp))
                       > - flit (arithmetic M) DT_EVENT_DETECT);
               cmp = (if time_event
                      then FILTERED_LOG cmp fmi3OK LOG_EVENT
                             ''fmi3DoStep: time event detected at %g''
                      else cmp)
           in bnd (if state_event \<or> time_event
                   then eventUpdate M cmp time_event True else Inr cmp) (\<lambda>cmp.
              if terminateSimulation (eventInfo cmp)
              then Inr (Some fmi3Discard, current,
                        (FILTERED_LOG cmp fmi3Discard LOG_ALL
                           ''fmi3DoStep: model requested termination at t=%g'')
                          \<lparr>state := modelStepFailed\<rparr>)
              else Inr (None, current, cmp)))))"

text \<open>\<open>n\<close> sub-steps in a row; a sub-step that ends the step ends the row.\<close>

fun spec_substeps :: "'g model \<Rightarrow> real \<Rightarrow> nat \<Rightarrow> real list \<times> 'g ModelInstance_scheme \<Rightarrow> fault + (fmi3Status option \<times> real list \<times> 'g ModelInstance_scheme)" where
  "spec_substeps M h 0 s = Inr (None, s)"
| "spec_substeps M h (Suc n) s =
     bnd (spec_substep M h s) (\<lambda>(ret, s).
       case ret of Some st \<Rightarrow> Inr (Some st, s)
       | None \<Rightarrow> spec_substeps M h n s)"

section \<open>Properties\<close>

subsection \<open>Auxiliary facts\<close>

lemmas mask_defs = MASK_fmi3SetDebugLogging_def MASK_fmi3FreeInstance_def MASK_fmi3SetupExperiment_def
  MASK_fmi3EnterInitializationMode_def MASK_fmi3ExitInitializationMode_def MASK_fmi3Terminate_def
  MASK_fmi3Reset_def MASK_fmi3GetReal_def MASK_fmi3GetInteger_def MASK_fmi3GetBoolean_def
  MASK_fmi3GetString_def MASK_fmi3SetReal_def MASK_fmi3SetInteger_def MASK_fmi3SetBoolean_def
  MASK_fmi3SetString_def MASK_fmi3GetFMUstate_def MASK_fmi3SetFMUstate_def MASK_fmi3FreeFMUstate_def
  MASK_fmi3SerializedFMUstateSize_def MASK_fmi3SerializeFMUstate_def MASK_fmi3DeSerializeFMUstate_def
  MASK_fmi3GetDirectionalDerivative_def MASK_fmi3EnterEventMode_def MASK_fmi3NewDiscreteStates_def
  MASK_fmi3EnterContinuousTimeMode_def MASK_fmi3CompletedIntegratorStep_def MASK_fmi3SetTime_def
  MASK_fmi3SetContinuousStates_def MASK_fmi3GetEventIndicators_def MASK_fmi3GetContinuousStates_def
  MASK_fmi3GetDerivatives_def MASK_fmi3GetNominalsOfContinuousStates_def
  MASK_fmi3SetRealInputDerivatives_def MASK_fmi3GetRealOutputDerivatives_def MASK_fmi3DoStep_def
  MASK_fmi3CancelStep_def MASK_fmi3GetStatus_def MASK_fmi3GetRealStatus_def
  MASK_fmi3GetIntegerStatus_def MASK_fmi3GetBooleanStatus_def MASK_fmi3GetStringStatus_def
  mask_of_def

lemmas log_defs = FILTERED_LOG_def logger_def isCategoryLogged_def LOG_ALL_def LOG_ERROR_def
  LOG_FMI_CALL_def LOG_EVENT_def NUMBER_OF_CATEGORIES_def logCategoriesNames_def

lemmas api_defs = fmi3SetupExperiment_def fmi3EnterInitializationMode_def
  fmi3ExitInitializationMode_def fmi3Terminate_def fmi3Reset_def fmi3SetDebugLogging_def
  fmi3GetReal_def fmi3GetInteger_def fmi3GetBoolean_def fmi3GetString_def fmi3SetReal_def
  fmi3SetInteger_def fmi3SetBoolean_def fmi3SetString_def fmi3GetFMUstate_def fmi3SetFMUstate_def
  fmi3FreeFMUstate_def fmi3SerializedFMUstateSize_def fmi3SerializeFMUstate_def
  fmi3DeSerializeFMUstate_def fmi3GetDirectionalDerivative_def unsupportedFunction_def
  fmi3SetRealInputDerivatives_def fmi3GetRealOutputDerivatives_def fmi3CancelStep_def
  fmi3DoStep_def getStatus_def fmi3GetStatus_def fmi3GetRealStatus_def fmi3GetIntegerStatus_def
  fmi3GetBooleanStatus_def fmi3GetStringStatus_def fmi3EnterEventMode_def
  fmi3NewDiscreteStates_def fmi3EnterContinuousTimeMode_def fmi3CompletedIntegratorStep_def
  fmi3SetTime_def fmi3SetContinuousStates_def fmi3GetDerivatives_def fmi3GetEventIndicators_def
  fmi3GetContinuousStates_def fmi3GetNominalsOfContinuousStates_def

lemmas access_defs = R_def I_def B_def S_def load_def store_def elem_def deref_def assign_def
  get_r_def set_r_def get_pos_def set_pos_def

lemma bnd_Inr [simp]: "bnd (Inr x) f = f x"
  by (simp add: bnd_def)

lemma bnd_Inl [simp]: "bnd (Inl e) f = Inl e"
  by (simp add: bnd_def)

lemma state_FILTERED_LOG [simp]: "state (FILTERED_LOG cmp st k m) = state cmp"
  by (simp add: FILTERED_LOG_def logger_def)

lemma variables_FILTERED_LOG [simp]: "variables (FILTERED_LOG cmp st k m) = variables cmp"
  by (simp add: FILTERED_LOG_def logger_def)

lemma isDirtyValues_FILTERED_LOG [simp]:
  "isDirtyValues (FILTERED_LOG cmp st k m) = isDirtyValues cmp"
  by (simp add: FILTERED_LOG_def logger_def)

lemma logCategories_FILTERED_LOG [simp]:
  "logCategories (FILTERED_LOG cmp st k m) = logCategories cmp"
  by (simp add: FILTERED_LOG_def logger_def)

lemma invalidState_illegal:
  "enum_val (state cmp) AND m = 0 \<Longrightarrow>
   invalidState (Some cmp) f m
     = Inl (Some (FILTERED_LOG (cmp\<lparr>state := modelError\<rparr>) fmi3Error LOG_ERROR
                    ''%s: Illegal call sequence.''))"
  by (simp add: invalidState_def)

lemma invalidState_legal:
  "enum_val (state cmp) AND m \<noteq> 0 \<Longrightarrow> invalidState (Some cmp) f m = Inr cmp"
  by (simp add: invalidState_def)

lemma size_t_to_int_small: "n < 2 ^ 31 \<Longrightarrow> size_t_to_int n = int n"
  by (simp add: size_t_to_int_def Let_def)

subsection \<open>Call sequence errors\<close>

lemma call_illegal:
  assumes "enum_val (state cmp) AND legal_states op = 0"
  shows "\<exists>cmp'. call M op (Some cmp) = Inr (fmi3Error, Some cmp') \<and> state cmp' = modelError"
  using assms
  by (cases op) (simp_all add: api_defs invalidState_illegal drop_output_def Let_def
      MASK_fmi3GetRealStatus_def MASK_fmi3GetBooleanStatus_def)

text \<open>\<^verbatim>\<open>fmi3FreeInstance\<close>, which answers with no status: outside its legal states it
  leaves the instance in \<open>modelError\<close>; in \<open>modelError\<close> it releases the instance.\<close>

lemma FreeInstance_illegal:
  "enum_val (state cmp) AND MASK_fmi3FreeInstance = 0 \<Longrightarrow>
   \<exists>cmp'. fmi3FreeInstance (Some cmp) = Some cmp' \<and> state cmp' = modelError"
  by (simp add: fmi3FreeInstance_def invalidState_illegal)

lemma FreeInstance_in_error:
  "state cmp = modelError \<Longrightarrow> fmi3FreeInstance (Some cmp) = None"
  by (simp add: fmi3FreeInstance_def invalidState_def mask_defs Let_def)

lemma error_excluded:
  "\<not> answers_in_error op \<Longrightarrow>
     enum_val modelError AND legal_states op = 0
     \<or> op \<in> {GetFMUstate, SetFMUstate, FreeFMUstate, SerializedFMUstateSize,
              SerializeFMUstate, DeSerializeFMUstate, GetDirectionalDerivative}
     \<or> (\<exists>vr nvr order value n. op = GetRealOutputDerivatives vr nvr order value n)"
  by (cases op) (simp_all add: mask_defs)

lemma unsupported_in_error:
  assumes "state cmp = modelError"
    and "op \<in> {GetFMUstate, SetFMUstate, FreeFMUstate, SerializedFMUstateSize,
               SerializeFMUstate, DeSerializeFMUstate, GetDirectionalDerivative}"
  shows "\<exists>cmp'. call M op (Some cmp) = Inr (fmi3Error, Some cmp') \<and> state cmp' = modelError"
  using assms by (auto simp add: api_defs invalidState_def mask_defs Let_def)

lemma zero_values_fits:
  "i + r \<le> length xs \<Longrightarrow> \<exists>ys. zero_values r i (Some xs) = Inr (Some ys) \<and> length ys = length xs"
proof (induction r arbitrary: i xs)
  case 0
  then show ?case by simp
next
  case (Suc r)
  then have "Suc i + r \<le> length (xs[i := 0])" by simp
  from Suc.IH [OF this] Suc.prems show ?case by (simp add: assign_def)
qed

lemma output_derivatives_in_error:
  assumes "state cmp = modelError" and "nvr \<le> length xs"
  shows "\<exists>cmp'. call M (GetRealOutputDerivatives vr nvr order (Some xs) n) (Some cmp)
                 = Inr (fmi3Error, Some cmp') \<and> state cmp' = modelError"
proof -
  from assms(2) obtain ys where "zero_values nvr 0 (Some xs) = Inr (Some ys)"
    using zero_values_fits [of 0 nvr xs] by auto
  with assms(1) show ?thesis
    by (simp add: api_defs invalidState_def mask_defs Let_def drop_output_def)
qed

text \<open>
  C1 (amended). A call made in a state outside the legal set of its function
  answers \<open>fmi3Error\<close> and leaves the instance in \<open>modelError\<close>. From \<open>modelError\<close> the
  same holds for every call but those that the error state admits and that can do
  their work there (\<open>answers_in_error\<close>: the logging control, the reset and the
  getters). A call handed an output array shorter than its count is outside the
  statement (\<open>output_fits\<close>).
\<close>

theorem illegal_call_gives_error:
  assumes "enum_val (state cmp) AND legal_states op = 0
           \<or> (state cmp = modelError \<and> \<not> answers_in_error op \<and> output_fits op)"
  shows "\<exists>cmp'. call M op (Some cmp) = Inr (fmi3Error, Some cmp') \<and> state cmp' = modelError"
proof (cases "enum_val (state cmp) AND legal_states op = 0")
  case True
  then show ?thesis by (rule call_illegal)
next
  case False
  with assms have e: "state cmp = modelError" "\<not> answers_in_error op" "output_fits op"
    by auto
  from error_excluded [OF e(2)] False e(1) consider
      (unsupported) "op \<in> {GetFMUstate, SetFMUstate, FreeFMUstate, SerializedFMUstateSize,
               SerializeFMUstate, DeSerializeFMUstate, GetDirectionalDerivative}"
    | (derivatives) vr nvr order vals n where
        "op = GetRealOutputDerivatives vr nvr order vals n"
    by auto
  then show ?thesis
  proof cases
    case unsupported
    with e(1) show ?thesis by (rule unsupported_in_error)
  next
    case derivatives
    show ?thesis
    proof (cases vals)
      case None
      with derivatives e(3) have "nvr = 0" by (simp add: output_fits_def)
      with derivatives None e(1) show ?thesis
        by (simp add: api_defs invalidState_def mask_defs Let_def drop_output_def)
    next
      case (Some xs)
      with derivatives e(3) have "nvr \<le> length xs" by (simp add: output_fits_def)
      with derivatives Some e(1) show ?thesis
        using output_derivatives_in_error by blast
    qed
  qed
qed

theorem illegal_call_gives_error_witness:
  "(enum_val (state (dq_example\<lparr>state := modelError\<rparr>)) AND legal_states (DoStep 0 1 False) = 0
    \<or> (state (dq_example\<lparr>state := modelError\<rparr>) = modelError
        \<and> \<not> answers_in_error (DoStep 0 1 False) \<and> output_fits (DoStep 0 1 False)))
   \<and> (\<exists>cmp'. call Dahlquist (DoStep 0 1 False) (Some (dq_example\<lparr>state := modelError\<rparr>))
               = Inr (fmi3Error, Some cmp') \<and> state cmp' = modelError)"
proof -
  have h: "enum_val (state (dq_example\<lparr>state := modelError\<rparr>)) AND legal_states (DoStep 0 1 False) = 0
    \<or> (state (dq_example\<lparr>state := modelError\<rparr>) = modelError
        \<and> \<not> answers_in_error (DoStep 0 1 False) \<and> output_fits (DoStep 0 1 False))"
    by (simp add: MASK_fmi3DoStep_def)
  from illegal_call_gives_error [OF h, of Dahlquist] h show ?thesis by blast
qed

text \<open>
  The claim as stated fails: an instance that a rejected \<^verbatim>\<open>fmi3DoStep\<close> has put into
  \<open>modelError\<close> still answers \<^verbatim>\<open>fmi3GetReal\<close> with \<open>fmi3OK\<close>, and \<^verbatim>\<open>fmi3Reset\<close> takes it
  out of the error state.
\<close>

theorem error_state_admits_calls:
  "call Dahlquist (DoStep 0 0 False) (Some dq_example)
     = Inr (fmi3Error, Some (dq_example\<lparr>logger_calls :=
          [(fmi3Error, ''logError'', ''fmi3DoStep: communication step size must be > 0. Fount %g.'')],
          state := modelError\<rparr>))
   \<and> call Dahlquist (GetReal (Some [0]) 1 (Some [0]) 1)
       (Some (dq_example\<lparr>logger_calls :=
          [(fmi3Error, ''logError'', ''fmi3DoStep: communication step size must be > 0. Fount %g.'')],
          state := modelError\<rparr>))
     = Inr (fmi3OK, Some (dq_example\<lparr>logger_calls :=
          [(fmi3Error, ''logError'', ''fmi3DoStep: communication step size must be > 0. Fount %g.'')],
          state := modelError\<rparr>))
   \<and> call Dahlquist Reset
       (Some (dq_example\<lparr>logger_calls :=
          [(fmi3Error, ''logError'', ''fmi3DoStep: communication step size must be > 0. Fount %g.'')],
          state := modelError\<rparr>))
     = Inr (fmi3OK, Some (dq_example\<lparr>logger_calls :=
          [(fmi3Error, ''logError'', ''fmi3DoStep: communication step size must be > 0. Fount %g.'')],
          state := modelInstantiated, isDirtyValues := True\<rparr>))"
  by (simp add: api_defs invalidState_def nullPointer_def vrOutOfRange_def mask_defs log_defs
      access_defs Let_def drop_output_def dq_example_def Dahlquist_def dq_getReal_def
      dq_x_def dq_der_x_def dq_k_def dq_setStartValues_def dq_calculateValues_def as_real.simps)


subsection \<open>Rejected step sizes\<close>

text \<open>
  C2 (amended). A call of \<^verbatim>\<open>fmi3DoStep\<close> with a communication step size that is not
  positive answers \<open>fmi3Error\<close> and leaves the simulated time, the variables and every
  other field of the instance as they were, except for two: the life cycle state
  becomes \<open>modelError\<close>, and the logger is handed the error message.
\<close>

theorem DoStep_rejects_step_size:
  assumes "communicationStepSize \<le> 0"
  shows "\<exists>cmp'. fmi3DoStep M (Some cmp) currentCommunicationPoint communicationStepSize b
                  = Inr (fmi3Error, Some cmp')
           \<and> cmp'\<lparr>logger_calls := logger_calls cmp\<rparr> = cmp\<lparr>state := modelError\<rparr>"
  using assms
  by (simp add: fmi3DoStep_def invalidState_def FILTERED_LOG_def logger_def Let_def)

theorem DoStep_rejects_step_size_witness:
  "(0::real) \<le> 0
   \<and> (\<exists>cmp'. fmi3DoStep Dahlquist (Some dq_example) 0 0 False = Inr (fmi3Error, Some cmp')
          \<and> cmp'\<lparr>logger_calls := logger_calls dq_example\<rparr> = dq_example\<lparr>state := modelError\<rparr>)"
proof -
  have h: "(0::real) \<le> 0" by simp
  from DoStep_rejects_step_size [OF h, of Dahlquist dq_example 0 False] h
  show ?thesis by blast
qed

text \<open>
  The claim as stated fails: the rejected call changes the state of the instance,
  from \<open>modelStepComplete\<close> to \<open>modelError\<close>.
\<close>

theorem DoStep_rejection_changes_state:
  "state dq_example = modelStepComplete
   \<and> fmi3DoStep Dahlquist (Some dq_example) 0 0 False
     = Inr (fmi3Error, Some (dq_example\<lparr>logger_calls :=
          [(fmi3Error, ''logError'', ''fmi3DoStep: communication step size must be > 0. Fount %g.'')],
          state := modelError\<rparr>))"
  by (simp add: fmi3DoStep_def invalidState_def log_defs Let_def dq_example_def mask_defs)

subsection \<open>Logging control\<close>

lemma reset_categories:
  "length (logCategories cmp) = NUMBER_OF_CATEGORIES \<Longrightarrow>
   logCategories (fold (\<lambda>j cmp. cmp\<lparr>logCategories := (logCategories cmp)[j := b]\<rparr>)
                    [0..<NUMBER_OF_CATEGORIES] cmp)
     = replicate NUMBER_OF_CATEGORIES b"
  by (cases cmp) (auto simp add: NUMBER_OF_CATEGORIES_def upt_rec numeral_eq_Suc
      length_Suc_conv)

lemma find_category_unknown:
  "cat \<notin> set (drop j logCategoriesNames) \<Longrightarrow> j + r = NUMBER_OF_CATEGORIES \<Longrightarrow>
   find_category on cat r j cmp = (cmp, False)"
proof (induction r arbitrary: j)
  case 0
  then show ?case by simp
next
  case (Suc r)
  then have j: "j < length logCategoriesNames"
    by (simp add: NUMBER_OF_CATEGORIES_def logCategoriesNames_def)
  then have d: "drop j logCategoriesNames = logCategoriesNames ! j # drop (Suc j) logCategoriesNames"
    by (simp add: Cons_nth_drop_Suc)
  with Suc.prems have "logCategoriesNames ! j \<noteq> cat" "cat \<notin> set (drop (Suc j) logCategoriesNames)"
    by auto
  with Suc.IH [of "Suc j"] Suc.prems show ?case by simp
qed

text \<open>
  C8 (amended). Configuring debug logging with one category name that the model does
  not know hands a warning to the logger and leaves every logging category disabled,
  whatever was enabled before: the call clears all categories first and then turns on
  the named ones, of which there is none.
\<close>

theorem unknown_category_disables_all:
  assumes "enum_val (state cmp) AND MASK_fmi3SetDebugLogging \<noteq> 0"
    and "length (logCategories cmp) = NUMBER_OF_CATEGORIES"
    and "cat \<notin> set logCategoriesNames"
  shows "\<exists>cmp'. fmi3SetDebugLogging (Some cmp) on 1 (Some [cat]) = Inr (fmi3OK, Some cmp')
           \<and> logCategories cmp' = replicate NUMBER_OF_CATEGORIES False
           \<and> hd (logger_calls cmp')
               = (fmi3Warning, ''logError'',
                  ''logging category '' @ [CHR 0x27] @ ''%s'' @ [CHR 0x27]
                    @ '' is not supported by model'')"
proof -
  let ?c1 = "FILTERED_LOG (cmp\<lparr>loggingOn := on\<rparr>) fmi3OK LOG_FMI_CALL ''fmi3SetDebugLogging''"
  let ?c2 = "fold (\<lambda>j cmp. cmp\<lparr>logCategories := (logCategories cmp)[j := False]\<rparr>)
               [0..<NUMBER_OF_CATEGORIES] ?c1"
  have len: "length (logCategories ?c1) = NUMBER_OF_CATEGORIES"
    using assms(2) by simp
  have cats: "logCategories ?c2 = replicate NUMBER_OF_CATEGORIES False"
    using len by (rule reset_categories)
  have find: "find_category on cat NUMBER_OF_CATEGORIES 0 ?c2 = (?c2, False)"
    using assms(3) by (intro find_category_unknown) simp_all
  show ?thesis
    using assms(1) cats find
    by (simp add: fmi3SetDebugLogging_def invalidState_legal Let_def deref_def elem_def
        logger_def LOG_ERROR_def logCategoriesNames_def)
qed

theorem unknown_category_disables_all_witness:
  "enum_val (state dq_example) AND MASK_fmi3SetDebugLogging \<noteq> 0
   \<and> length (logCategories dq_example) = NUMBER_OF_CATEGORIES
   \<and> ''logNothing'' \<notin> set logCategoriesNames
   \<and> (\<exists>cmp'. fmi3SetDebugLogging (Some dq_example) True 1 (Some [''logNothing''])
                 = Inr (fmi3OK, Some cmp')
           \<and> logCategories cmp' = replicate NUMBER_OF_CATEGORIES False
           \<and> hd (logger_calls cmp')
               = (fmi3Warning, ''logError'',
                  ''logging category '' @ [CHR 0x27] @ ''%s'' @ [CHR 0x27]
                    @ '' is not supported by model''))"
proof -
  have h1: "enum_val (state dq_example) AND MASK_fmi3SetDebugLogging \<noteq> 0"
    by (simp add: dq_example_def mask_defs)
  have h2: "length (logCategories dq_example) = NUMBER_OF_CATEGORIES"
    by (simp add: dq_example_def NUMBER_OF_CATEGORIES_def)
  have h3: "''logNothing'' \<notin> set logCategoriesNames"
    by (simp add: logCategoriesNames_def)
  from unknown_category_disables_all [OF h1 h2 h3, of True] h1 h2 h3
  show ?thesis by blast
qed

text \<open>
  The claim as stated fails: on an instance with all four categories enabled, the
  call with the unknown name \<open>logNothing\<close> leaves all four disabled.
\<close>

theorem unknown_category_changes_flags:
  "logCategories (dq_example\<lparr>loggingOn := True, logCategories := [True, True, True, True]\<rparr>)
     = [True, True, True, True]
   \<and> fmi3SetDebugLogging
       (Some (dq_example\<lparr>loggingOn := True, logCategories := [True, True, True, True]\<rparr>))
       True 1 (Some [''logNothing''])
     = Inr (fmi3OK, Some (dq_example\<lparr>
         logger_calls :=
           [(fmi3Warning, ''logError'',
             ''logging category '' @ [CHR 0x27] @ ''%s'' @ [CHR 0x27]
               @ '' is not supported by model''),
            (fmi3OK, ''logFmiCall'', ''fmi3SetDebugLogging'')],
         loggingOn := True,
         logCategories := [False, False, False, False]\<rparr>))"
  by (simp add: fmi3SetDebugLogging_def invalidState_def Let_def deref_def elem_def
      log_defs mask_defs dq_example_def upt_rec numeral_eq_Suc)

text \<open>
  C9 (amended). Configuring debug logging with zero categories sets every logging
  category to the \<open>loggingOn\<close> argument of the call: all are enabled when it is true,
  all are disabled when it is false.
\<close>

theorem zero_categories_sets_all:
  assumes "enum_val (state cmp) AND MASK_fmi3SetDebugLogging \<noteq> 0"
    and "length (logCategories cmp) = NUMBER_OF_CATEGORIES"
  shows "\<exists>cmp'. fmi3SetDebugLogging (Some cmp) on 0 categories = Inr (fmi3OK, Some cmp')
           \<and> logCategories cmp' = replicate NUMBER_OF_CATEGORIES on"
proof -
  let ?c1 = "FILTERED_LOG (cmp\<lparr>loggingOn := on\<rparr>) fmi3OK LOG_FMI_CALL ''fmi3SetDebugLogging''"
  let ?c2 = "fold (\<lambda>j cmp. cmp\<lparr>logCategories := (logCategories cmp)[j := False]\<rparr>)
               [0..<NUMBER_OF_CATEGORIES] ?c1"
  have "length (logCategories ?c1) = NUMBER_OF_CATEGORIES"
    using assms(2) by simp
  then have "logCategories ?c2 = replicate NUMBER_OF_CATEGORIES False"
    by (rule reset_categories)
  then have "length (logCategories ?c2) = NUMBER_OF_CATEGORIES"
    by simp
  then have "logCategories (fold (\<lambda>j cmp. cmp\<lparr>logCategories := (logCategories cmp)[j := on]\<rparr>)
                              [0..<NUMBER_OF_CATEGORIES] ?c2)
               = replicate NUMBER_OF_CATEGORIES on"
    by (rule reset_categories)
  with assms(1) show ?thesis
    by (simp add: fmi3SetDebugLogging_def invalidState_legal Let_def)
qed

theorem zero_categories_sets_all_witness:
  "enum_val (state dq_example) AND MASK_fmi3SetDebugLogging \<noteq> 0
   \<and> length (logCategories dq_example) = NUMBER_OF_CATEGORIES
   \<and> (\<exists>cmp'. fmi3SetDebugLogging (Some dq_example) True 0 None = Inr (fmi3OK, Some cmp')
           \<and> logCategories cmp' = replicate NUMBER_OF_CATEGORIES True)"
proof -
  have h1: "enum_val (state dq_example) AND MASK_fmi3SetDebugLogging \<noteq> 0"
    by (simp add: dq_example_def mask_defs)
  have h2: "length (logCategories dq_example) = NUMBER_OF_CATEGORIES"
    by (simp add: dq_example_def NUMBER_OF_CATEGORIES_def)
  from zero_categories_sets_all [OF h1 h2, of True None] h1 h2
  show ?thesis by blast
qed

text \<open>
  The claim as stated fails: with \<open>loggingOn\<close> false, the call with zero categories
  disables all four categories of an instance that had them enabled.
\<close>

theorem zero_categories_can_disable_all:
  "fmi3SetDebugLogging
       (Some (dq_example\<lparr>loggingOn := True, logCategories := [True, True, True, True]\<rparr>))
       False 0 None
     = Inr (fmi3OK, Some (dq_example\<lparr>
         logger_calls := [(fmi3OK, ''logFmiCall'', ''fmi3SetDebugLogging'')],
         loggingOn := False,
         logCategories := [False, False, False, False]\<rparr>))"
  by (simp add: fmi3SetDebugLogging_def invalidState_def Let_def
      log_defs mask_defs dq_example_def upt_rec numeral_eq_Suc)

subsection \<open>Setting the continuous states\<close>

text \<open>
  C10. In the state that admits it, with \<open>nx\<close> equal to the number of continuous
  states of the model and an array \<open>x\<close> that is not \<^verbatim>\<open>NULL\<close>, \<^verbatim>\<open>fmi3SetContinuousStates\<close>
  answers \<open>fmi3OK\<close> and hands back the instance as it was: no variable, not the time
  and no other field is written, and nothing is logged. (\<^verbatim>\<open>NUMBER_OF_STATES\<close> is a C
  int constant, hence below \<open>2 ^ 31\<close>.)
\<close>

theorem SetContinuousStates_writes_nothing:
  assumes "enum_val (state cmp) AND MASK_fmi3SetContinuousStates \<noteq> 0"
    and "nx = NUMBER_OF_STATES M" and "NUMBER_OF_STATES M < 2 ^ 31"
    and "x \<noteq> None"
  shows "fmi3SetContinuousStates M (Some cmp) x nx = (fmi3OK, Some cmp)"
  using assms
  by (simp add: fmi3SetContinuousStates_def invalidState_def invalidNumber_def
      nullPointer_def size_t_to_int_small)

theorem SetContinuousStates_writes_nothing_witness:
  "enum_val (state (dq_example\<lparr>state := modelContinuousTimeMode\<rparr>))
      AND MASK_fmi3SetContinuousStates \<noteq> 0
   \<and> (1::nat) = NUMBER_OF_STATES Dahlquist
   \<and> NUMBER_OF_STATES Dahlquist < 2 ^ 31
   \<and> Some [2::real] \<noteq> None
   \<and> fmi3SetContinuousStates Dahlquist (Some (dq_example\<lparr>state := modelContinuousTimeMode\<rparr>))
       (Some [2]) 1
     = (fmi3OK, Some (dq_example\<lparr>state := modelContinuousTimeMode\<rparr>))"
proof -
  have h1: "enum_val (state (dq_example\<lparr>state := modelContinuousTimeMode\<rparr>))
              AND MASK_fmi3SetContinuousStates \<noteq> 0"
    by (simp add: mask_defs)
  have h2: "(1::nat) = NUMBER_OF_STATES Dahlquist"
    by (simp add: Dahlquist_def)
  have h3: "NUMBER_OF_STATES Dahlquist < 2 ^ 31"
    by (simp add: Dahlquist_def)
  have h4: "Some [2::real] \<noteq> None" by simp
  from SetContinuousStates_writes_nothing [OF h1 h2 h3 h4] h1 h2 h3 h4
  show ?thesis by blast
qed


subsection \<open>The kind check of the typed accesses\<close>

lemma vrOutOfRange_iff:
  "fst (vrOutOfRange M cmp f v ty) \<longleftrightarrow> v \<ge> N_VARIABLES M \<or> s_variableTypes M ! v \<noteq> ty"
  by (simp add: vrOutOfRange_def)

lemma vrOutOfRange_variables [simp]:
  "variables (snd (vrOutOfRange M cmp f v ty)) = variables cmp"
  by (simp add: vrOutOfRange_def)

lemma vrOutOfRange_isDirtyValues [simp]:
  "isDirtyValues (snd (vrOutOfRange M cmp f v ty)) = isDirtyValues cmp"
  by (simp add: vrOutOfRange_def)

lemma vrOutOfRange_state:
  "fst (vrOutOfRange M cmp f v ty) \<Longrightarrow> state (snd (vrOutOfRange M cmp f v ty)) = modelError"
  by (simp add: vrOutOfRange_def split: if_splits)

lemma vrOutOfRange_ok:
  "\<not> fst (vrOutOfRange M cmp f v ty) \<Longrightarrow> snd (vrOutOfRange M cmp f v ty) = cmp"
  by (simp add: vrOutOfRange_def split: if_splits)

text \<open>
  C7. The claim does not hold of the code: \<^verbatim>\<open>fmi3SetBoolean\<close> hands the kind \<open>i\<close> to
  \<open>vrOutOfRange\<close>. In the Values model, setting the boolean variable 4 (\<open>bool_in\<close>) is
  rejected with \<open>fmi3Error\<close> and puts the instance into \<open>modelError\<close>, while setting the
  integer variable 2 (\<open>int_in\<close>) as a boolean passes the check and overwrites it.
\<close>

theorem SetBoolean_checks_integer_kind:
  "s_variableTypes Values_schema ! 4 = CHR ''b''
   \<and> fmi3SetBoolean Values_schema (Some values_example) (Some [4]) 1 (Some [False]) 1
     = Inr (fmi3Error, Some (values_example\<lparr>
         logger_calls := [(fmi3Error, ''logError'', ''%s: Variable %u is not a %c.'')],
         state := modelError\<rparr>))
   \<and> s_variableTypes Values_schema ! 2 = CHR ''i''
   \<and> fmi3SetBoolean Values_schema (Some values_example) (Some [2]) 1 (Some [True]) 1
     = Inr (fmi3OK, Some (values_example\<lparr>
         variables := [[RealCell 1], [RealCell 0], [BoolCell True], [IntCell 0],
                       [BoolCell True], [BoolCell False], [StrCell None], [StrCell None]],
         isDirtyValues := True\<rparr>))"
  by (simp add: fmi3SetBoolean_def invalidState_def nullPointer_def vrOutOfRange_def
      mask_defs log_defs access_defs Let_def values_example_def Values_schema_def)

subsection \<open>Batches that abort\<close>

text \<open>
  C5. The claim does not hold of the code: the dirty mark is set after the batch
  loop, which an invalid entry leaves by \<^verbatim>\<open>return fmi3Error\<close>. On a Dahlquist instance
  that is not dirty, the batch of the value references 0 and 3 writes variable 0 and
  aborts at the second entry; the instance is still not dirty.
\<close>

theorem aborted_batch_not_dirty:
  "isDirtyValues dq_example = False
   \<and> fmi3SetReal Dahlquist (Some dq_example) (Some [0, 3]) 2 (Some [5, 6]) 2
     = Inr (fmi3Error, Some (dq_example\<lparr>
         variables := [[RealCell 5], [RealCell 0], [RealCell 1]],
         logger_calls := [(fmi3Error, ''logError'', ''%s: Illegal value reference %u.'')],
         state := modelError,
         isDirtyValues := False\<rparr>))"
  by (simp add: fmi3SetReal_def invalidState_def nullPointer_def vrOutOfRange_def
      mask_defs log_defs access_defs Let_def dq_example_def Dahlquist_def numeral_2_eq_2)


text \<open>
  The setters that validate against their own kind, \<^verbatim>\<open>fmi3SetReal\<close>,
  \<^verbatim>\<open>fmi3SetInteger\<close> and \<^verbatim>\<open>fmi3SetString\<close>: when the entry at position \<open>n\<close> is the first
  that is invalid, the call answers \<open>fmi3Error\<close> with the instance in \<open>modelError\<close>, and
  the variables are the ones that the same call on the first \<open>n\<close> entries alone leaves
  behind.
\<close>

lemma SetReal_loop_abort:
  assumes "SetReal_loop M vr r i k xs cmp = Inr (None, cmp1)"
    and "deref vr (i + r) = Inr v"
    and "fst (vrOutOfRange M cmp1 ''fmi3SetRoolean'' v (CHR ''r''))"
  shows "SetReal_loop M vr (Suc (r + m)) i k xs cmp
           = Inr (Some fmi3Error, snd (vrOutOfRange M cmp1 ''fmi3SetRoolean'' v (CHR ''r'')))"
  using assms
proof (induction r arbitrary: i k cmp)
  case 0
  then show ?case by (simp add: case_prod_beta)
next
  case (Suc r)
  from Suc.prems(1) obtain v0 n k' c' where
      v0: "deref vr i = Inr v0"
    and ok: "\<not> fst (vrOutOfRange M cmp ''fmi3SetRoolean'' v0 (CHR ''r''))"
    and n: "elem (s_variableSizes M) i = Inr n"
    and el: "SetReal_elems v0 n 0 k xs cmp = Inr (k', c')"
    and rest: "SetReal_loop M vr r (Suc i) k' xs
                 (FILTERED_LOG c' fmi3OK LOG_FMI_CALL ''fmi3SetReal: #r%u# = %.16g'') = Inr (None, cmp1)"
    by (auto simp add: bnd_def case_prod_beta Let_def vrOutOfRange_ok
        split: sum.splits if_splits)
  from Suc.prems(2) have "deref vr (Suc i + r) = Inr v" by simp
  note ih = Suc.IH [OF rest this Suc.prems(3)]
  have unfold: "SetReal_loop M vr (Suc (Suc r + m)) i k xs cmp
      = SetReal_loop M vr (Suc (r + m)) (Suc i) k' xs
          (FILTERED_LOG c' fmi3OK LOG_FMI_CALL ''fmi3SetReal: #r%u# = %.16g'')"
    unfolding add_Suc
    by (subst SetReal_loop.simps(2))
      (simp add: v0 ok n el case_prod_beta Let_def vrOutOfRange_ok del: SetReal_loop.simps)
  show ?case unfolding unfold by (rule ih)
qed

lemma SetReal_loop_ret:
  "SetReal_loop M vr r i k xs cmp = Inr (Some st, c) \<Longrightarrow> st = fmi3Error"
  by (induction r arbitrary: i k cmp)
    (auto simp add: bnd_def case_prod_beta Let_def split: sum.splits if_splits)

lemma SetReal_abort:
  assumes legal: "enum_val (state cmp) AND MASK_fmi3SetReal \<noteq> 0"
    and n: "n < nvr"
    and v: "deref vr n = Inr v"
    and xs: "xs \<noteq> None"
    and bad: "v \<ge> N_VARIABLES M \<or> s_variableTypes M ! v \<noteq> CHR ''r''"
    and pre: "fmi3SetReal M (Some cmp) vr n xs nValues = Inr (fmi3OK, Some cmp_n)"
  shows "\<exists>cmp'. fmi3SetReal M (Some cmp) vr nvr xs nValues = Inr (fmi3Error, Some cmp')
           \<and> variables cmp' = variables cmp_n \<and> state cmp' = modelError"
proof -
  let ?c0 = "FILTERED_LOG cmp fmi3OK LOG_FMI_CALL ''fmi3SetReal: nvr = %d''"
  from v have vr: "vr \<noteq> None" by (auto simp add: deref_def split: option.splits)
  from pre legal vr xs obtain c1 where
      loop: "SetReal_loop M vr n 0 0 xs ?c0 = Inr (None, c1)"
    and cn: "variables cmp_n = variables c1"
    by (auto simp add: fmi3SetReal_def invalidState_legal nullPointer_def Let_def bnd_def
        split: sum.splits option.splits if_splits dest: SetReal_loop_ret)
  from n obtain m where m: "nvr = Suc (n + m)"
    by (metis less_iff_Suc_add)
  from bad have b: "fst (vrOutOfRange M c1 ''fmi3SetRoolean'' v (CHR ''r''))"
    by (simp add: vrOutOfRange_iff)
  from v have "deref vr (0 + n) = Inr v" by simp
  from SetReal_loop_abort [OF loop this b, of m] legal vr xs m cn b
  show ?thesis
    by (auto simp add: fmi3SetReal_def invalidState_legal nullPointer_def Let_def
        vrOutOfRange_state simp del: SetReal_loop.simps)
qed

lemma SetInteger_loop_abort:
  assumes "SetInteger_loop M vr r i k xs cmp = Inr (None, cmp1)"
    and "deref vr (i + r) = Inr v"
    and "fst (vrOutOfRange M cmp1 ''fmi3SetInteger'' v (CHR ''i''))"
  shows "SetInteger_loop M vr (Suc (r + m)) i k xs cmp
           = Inr (Some fmi3Error, snd (vrOutOfRange M cmp1 ''fmi3SetInteger'' v (CHR ''i'')))"
  using assms
proof (induction r arbitrary: i k cmp)
  case 0
  then show ?case by (simp add: case_prod_beta)
next
  case (Suc r)
  from Suc.prems(1) obtain v0 n k' c' where
      v0: "deref vr i = Inr v0"
    and ok: "\<not> fst (vrOutOfRange M cmp ''fmi3SetInteger'' v0 (CHR ''i''))"
    and n: "elem (s_variableSizes M) i = Inr n"
    and el: "SetInteger_elems v0 n 0 k xs cmp = Inr (k', c')"
    and rest: "SetInteger_loop M vr r (Suc i) k' xs
                 (FILTERED_LOG c' fmi3OK LOG_FMI_CALL ''fmi3SetInteger: #i%u# = %d'') = Inr (None, cmp1)"
    by (auto simp add: bnd_def case_prod_beta Let_def vrOutOfRange_ok
        split: sum.splits if_splits)
  from Suc.prems(2) have "deref vr (Suc i + r) = Inr v" by simp
  note ih = Suc.IH [OF rest this Suc.prems(3)]
  have unfold: "SetInteger_loop M vr (Suc (Suc r + m)) i k xs cmp
      = SetInteger_loop M vr (Suc (r + m)) (Suc i) k' xs
          (FILTERED_LOG c' fmi3OK LOG_FMI_CALL ''fmi3SetInteger: #i%u# = %d'')"
    unfolding add_Suc
    by (subst SetInteger_loop.simps(2))
      (simp add: v0 ok n el case_prod_beta Let_def vrOutOfRange_ok del: SetInteger_loop.simps)
  show ?case unfolding unfold by (rule ih)
qed

lemma SetInteger_loop_ret:
  "SetInteger_loop M vr r i k xs cmp = Inr (Some st, c) \<Longrightarrow> st = fmi3Error"
  by (induction r arbitrary: i k cmp)
    (auto simp add: bnd_def case_prod_beta Let_def split: sum.splits if_splits)

lemma SetInteger_abort:
  assumes legal: "enum_val (state cmp) AND MASK_fmi3SetInteger \<noteq> 0"
    and n: "n < nvr"
    and v: "deref vr n = Inr v"
    and xs: "xs \<noteq> None"
    and bad: "v \<ge> N_VARIABLES M \<or> s_variableTypes M ! v \<noteq> CHR ''i''"
    and pre: "fmi3SetInteger M (Some cmp) vr n xs nValues = Inr (fmi3OK, Some cmp_n)"
  shows "\<exists>cmp'. fmi3SetInteger M (Some cmp) vr nvr xs nValues = Inr (fmi3Error, Some cmp')
           \<and> variables cmp' = variables cmp_n \<and> state cmp' = modelError"
proof -
  let ?c0 = "FILTERED_LOG cmp fmi3OK LOG_FMI_CALL ''fmi3SetInteger: nvr = %d''"
  from v have vr: "vr \<noteq> None" by (auto simp add: deref_def split: option.splits)
  from pre legal vr xs obtain c1 where
      loop: "SetInteger_loop M vr n 0 0 xs ?c0 = Inr (None, c1)"
    and cn: "variables cmp_n = variables c1"
    by (auto simp add: fmi3SetInteger_def invalidState_legal nullPointer_def Let_def bnd_def
        split: sum.splits option.splits if_splits dest: SetInteger_loop_ret)
  from n obtain m where m: "nvr = Suc (n + m)"
    by (metis less_iff_Suc_add)
  from bad have b: "fst (vrOutOfRange M c1 ''fmi3SetInteger'' v (CHR ''i''))"
    by (simp add: vrOutOfRange_iff)
  from v have "deref vr (0 + n) = Inr v" by simp
  from SetInteger_loop_abort [OF loop this b, of m] legal vr xs m cn b
  show ?thesis
    by (auto simp add: fmi3SetInteger_def invalidState_legal nullPointer_def Let_def
        vrOutOfRange_state simp del: SetInteger_loop.simps)
qed

lemma SetString_loop_abort:
  assumes "SetString_loop M vr r i k xs cmp = Inr (None, cmp1)"
    and "deref vr (i + r) = Inr v"
    and "fst (vrOutOfRange M cmp1 ''fmi3SetString'' v (CHR ''s''))"
  shows "SetString_loop M vr (Suc (r + m)) i k xs cmp
           = Inr (Some fmi3Error, snd (vrOutOfRange M cmp1 ''fmi3SetString'' v (CHR ''s'')))"
  using assms
proof (induction r arbitrary: i k cmp)
  case 0
  then show ?case by (simp add: case_prod_beta)
next
  case (Suc r)
  from Suc.prems(1) obtain v0 n k' c' where
      v0: "deref vr i = Inr v0"
    and ok: "\<not> fst (vrOutOfRange M cmp ''fmi3SetString'' v0 (CHR ''s''))"
    and n: "elem (s_variableSizes M) i = Inr n"
    and el: "SetString_elems v0 n 0 k xs cmp = Inr (k', c')"
    and rest: "SetString_loop M vr r (Suc i) k' xs
                 (FILTERED_LOG c' fmi3OK LOG_FMI_CALL ''fmi3SetBoolean: #b%u# = %s'') = Inr (None, cmp1)"
    by (auto simp add: bnd_def case_prod_beta Let_def vrOutOfRange_ok
        split: sum.splits if_splits)
  from Suc.prems(2) have "deref vr (Suc i + r) = Inr v" by simp
  note ih = Suc.IH [OF rest this Suc.prems(3)]
  have unfold: "SetString_loop M vr (Suc (Suc r + m)) i k xs cmp
      = SetString_loop M vr (Suc (r + m)) (Suc i) k' xs
          (FILTERED_LOG c' fmi3OK LOG_FMI_CALL ''fmi3SetBoolean: #b%u# = %s'')"
    unfolding add_Suc
    by (subst SetString_loop.simps(2))
      (simp add: v0 ok n el case_prod_beta Let_def vrOutOfRange_ok del: SetString_loop.simps)
  show ?case unfolding unfold by (rule ih)
qed

lemma SetString_loop_ret:
  "SetString_loop M vr r i k xs cmp = Inr (Some st, c) \<Longrightarrow> st = fmi3Error"
  by (induction r arbitrary: i k cmp)
    (auto simp add: bnd_def case_prod_beta Let_def split: sum.splits if_splits)

lemma SetString_abort:
  assumes legal: "enum_val (state cmp) AND MASK_fmi3SetString \<noteq> 0"
    and n: "n < nvr"
    and v: "deref vr n = Inr v"
    and xs: "xs \<noteq> None"
    and bad: "v \<ge> N_VARIABLES M \<or> s_variableTypes M ! v \<noteq> CHR ''s''"
    and pre: "fmi3SetString M (Some cmp) vr n xs nValues = Inr (fmi3OK, Some cmp_n)"
  shows "\<exists>cmp'. fmi3SetString M (Some cmp) vr nvr xs nValues = Inr (fmi3Error, Some cmp')
           \<and> variables cmp' = variables cmp_n \<and> state cmp' = modelError"
proof -
  let ?c0 = "FILTERED_LOG cmp fmi3OK LOG_FMI_CALL ''fmi3SetString: nvr = %d''"
  from v have vr: "vr \<noteq> None" by (auto simp add: deref_def split: option.splits)
  from pre legal vr xs obtain c1 where
      loop: "SetString_loop M vr n 0 0 xs ?c0 = Inr (None, c1)"
    and cn: "variables cmp_n = variables c1"
    by (auto simp add: fmi3SetString_def invalidState_legal nullPointer_def Let_def bnd_def
        split: sum.splits option.splits if_splits dest: SetString_loop_ret)
  from n obtain m where m: "nvr = Suc (n + m)"
    by (metis less_iff_Suc_add)
  from bad have b: "fst (vrOutOfRange M c1 ''fmi3SetString'' v (CHR ''s''))"
    by (simp add: vrOutOfRange_iff)
  from v have "deref vr (0 + n) = Inr v" by simp
  from SetString_loop_abort [OF loop this b, of m] legal vr xs m cn b
  show ?thesis
    by (auto simp add: fmi3SetString_def invalidState_legal nullPointer_def Let_def
        vrOutOfRange_state simp del: SetString_loop.simps)
qed

text \<open>
  C4. The claim does not hold of the code: \<^verbatim>\<open>fmi3SetBoolean\<close> validates its entries
  against the kind \<open>i\<close>. In the Values model, the batch of the value references 2
  (\<open>int_in\<close>, an integer) and 4 (\<open>bool_in\<close>, a boolean) has its first invalid entry at
  position 0. \<^verbatim>\<open>fmi3SetBoolean\<close> lets this entry pass and overwrites the integer with
  the boolean, and it aborts at position 1, the entry that is valid. On the same
  batch \<^verbatim>\<open>fmi3SetInteger\<close> does what the claim says: it writes entry 0 and aborts at
  entry 1, the first that is invalid for it, and the value written stays.
\<close>

theorem SetBoolean_batch_aborts_at_valid_entry:
  "s_variableTypes Values_schema ! 2 = CHR ''i''
   \<and> s_variableTypes Values_schema ! 4 = CHR ''b''
   \<and> fmi3SetBoolean Values_schema (Some values_example) (Some [2, 4]) 2 (Some [True, False]) 2
     = Inr (fmi3Error, Some (values_example\<lparr>
         variables := [[RealCell 1], [RealCell 0], [BoolCell True], [IntCell 0],
                       [BoolCell True], [BoolCell False], [StrCell None], [StrCell None]],
         logger_calls := [(fmi3Error, ''logError'', ''%s: Variable %u is not a %c.'')],
         state := modelError\<rparr>))
   \<and> fmi3SetInteger Values_schema (Some values_example) (Some [2, 4]) 2 (Some [7, 8]) 2
     = Inr (fmi3Error, Some (values_example\<lparr>
         variables := [[RealCell 1], [RealCell 0], [IntCell 7], [IntCell 0],
                       [BoolCell True], [BoolCell False], [StrCell None], [StrCell None]],
         logger_calls := [(fmi3Error, ''logError'', ''%s: Variable %u is not a %c.'')],
         state := modelError\<rparr>))"
  by (simp add: fmi3SetBoolean_def fmi3SetInteger_def invalidState_def nullPointer_def
      vrOutOfRange_def mask_defs log_defs access_defs Let_def values_example_def
      Values_schema_def numeral_2_eq_2)

subsection \<open>Setting and getting a real variable\<close>

lemma SetReal_elems_fill:
  assumes "v < length (variables cmp)"
    and "j + n \<le> length (variables cmp ! v)"
    and "k + n \<le> length xs"
  shows "\<exists>slot'. SetReal_elems v n j k (Some xs) cmp
                   = Inr (k + n, cmp\<lparr>variables := (variables cmp)[v := slot']\<rparr>)
           \<and> length slot' = length (variables cmp ! v)
           \<and> (\<forall>t < length slot'. slot' ! t
                 = (if j \<le> t \<and> t < j + n then RealCell (xs ! (k + (t - j)))
                    else variables cmp ! v ! t))"
  using assms
proof (induction n arbitrary: j k cmp)
  case 0
  have "cmp\<lparr>variables := (variables cmp)[v := variables cmp ! v]\<rparr> = cmp"
    by simp
  then show ?case
    by (intro exI [of _ "variables cmp ! v"]) auto
next
  case (Suc n)
  let ?slot = "variables cmp ! v"
  let ?c1 = "cmp\<lparr>variables := (variables cmp)[v := ?slot[j := RealCell (xs ! k)]]\<rparr>"
  from Suc.prems have step: "SetReal_elems v (Suc n) j k (Some xs) cmp
      = SetReal_elems v n (Suc j) (Suc k) (Some xs) ?c1"
    by (simp add: access_defs)
  from Suc.prems have p1: "v < length (variables ?c1)"
    and p2: "Suc j + n \<le> length (variables ?c1 ! v)"
    and p3: "Suc k + n \<le> length xs"
    by simp_all
  from Suc.IH [OF p1 p2 p3] obtain slot' where
      run: "SetReal_elems v n (Suc j) (Suc k) (Some xs) ?c1
              = Inr (Suc k + n, ?c1\<lparr>variables := (variables ?c1)[v := slot']\<rparr>)"
    and len: "length slot' = length (variables ?c1 ! v)"
    and nth: "\<forall>t < length slot'. slot' ! t
                 = (if Suc j \<le> t \<and> t < Suc j + n then RealCell (xs ! (Suc k + (t - Suc j)))
                    else variables ?c1 ! v ! t)"
    by blast
  have rec: "?c1\<lparr>variables := (variables ?c1)[v := slot']\<rparr>
               = cmp\<lparr>variables := (variables cmp)[v := slot']\<rparr>"
    by simp
  have "\<forall>t < length slot'. slot' ! t
          = (if j \<le> t \<and> t < j + Suc n then RealCell (xs ! (k + (t - j))) else ?slot ! t)"
  proof (intro allI impI)
    fix t assume t: "t < length slot'"
    show "slot' ! t = (if j \<le> t \<and> t < j + Suc n then RealCell (xs ! (k + (t - j))) else ?slot ! t)"
    proof (cases "t = j")
      case True
      with nth t len Suc.prems show ?thesis by simp
    next
      case False
      then have "Suc k + (t - Suc j) = k + (t - j)" if "Suc j \<le> t"
        using that by simp
      with False nth t len Suc.prems show ?thesis by auto
    qed
  qed
  with run len rec step Suc.prems show ?case
    by (intro exI [of _ slot']) simp
qed

lemma GetReal_elems_read:
  assumes "getReal M cmp v = Inr (cmp, Some v)"
    and "v < length (variables cmp)"
    and "j + n \<le> length (variables cmp ! v)"
    and "k + n \<le> length ys"
    and "\<forall>t. j \<le> t \<and> t < j + n \<longrightarrow> variables cmp ! v ! t = RealCell (f t)"
  shows "\<exists>ys'. GetReal_elems M v n j k (Some ys) cmp = Inr (k + n, Some ys', cmp)
           \<and> length ys' = length ys
           \<and> (\<forall>t < length ys. ys' ! t
                 = (if k \<le> t \<and> t < k + n then f (j + (t - k)) else ys ! t))"
  using assms(3-)
proof (induction n arbitrary: j k ys)
  case 0
  then show ?case by simp
next
  case (Suc n)
  let ?ys1 = "ys[k := f j]"
  from Suc.prems assms(1,2) have step: "GetReal_elems M v (Suc n) j k (Some ys) cmp
      = GetReal_elems M v n (Suc j) (Suc k) (Some ?ys1) cmp"
    by (simp add: access_defs)
  from Suc.prems have p1: "Suc j + n \<le> length (variables cmp ! v)"
    and p2: "Suc k + n \<le> length ?ys1"
    and p3: "\<forall>t. Suc j \<le> t \<and> t < Suc j + n \<longrightarrow> variables cmp ! v ! t = RealCell (f t)"
    by simp_all
  from Suc.IH [OF p1 p2 p3] obtain ys' where
      run: "GetReal_elems M v n (Suc j) (Suc k) (Some ?ys1) cmp = Inr (Suc k + n, Some ys', cmp)"
    and len: "length ys' = length ?ys1"
    and nth: "\<forall>t < length ?ys1. ys' ! t
                 = (if Suc k \<le> t \<and> t < Suc k + n then f (Suc j + (t - Suc k)) else ?ys1 ! t)"
    by blast
  have "\<forall>t < length ys. ys' ! t
          = (if k \<le> t \<and> t < k + Suc n then f (j + (t - k)) else ys ! t)"
  proof (intro allI impI)
    fix t assume t: "t < length ys"
    show "ys' ! t = (if k \<le> t \<and> t < k + Suc n then f (j + (t - k)) else ys ! t)"
    proof (cases "t = k")
      case True
      with nth t show ?thesis by simp
    next
      case False
      then have "Suc j + (t - Suc k) = j + (t - k)" if "Suc k \<le> t"
        using that by simp
      with False nth t show ?thesis by auto
    qed
  qed
  with run len step show ?case
    by (intro exI [of _ ys']) simp
qed

text \<open>
  The number of elements that a batch entry moves is looked up with the position of
  the entry in the batch, not with its value reference. In the LinearTransform model
  the matrix \<open>T\<close> (variable 1) has nine elements; set alone, it receives the three
  that the table holds for variable 0.
\<close>

lemma sizes_indexed_by_batch_position:
  "s_variableSizes LinearTransform_schema ! 1 = 9
   \<and> fmi3SetReal LinearTransform_schema (Some lt_example) (Some [1]) 1
       (Some [1, 2, 3, 4, 5, 6, 7, 8, 9]) 9
     = Inr (fmi3OK, Some (lt_example\<lparr>
         variables := (variables lt_example)
           [1 := [RealCell 1, RealCell 2, RealCell 3,
                  RealCell 0, RealCell (- 1), RealCell 0,
                  RealCell (- 1), RealCell 0, RealCell 0]],
         isDirtyValues := True\<rparr>))"
  by (simp add: fmi3SetReal_def invalidState_def nullPointer_def vrOutOfRange_def
      mask_defs log_defs access_defs Let_def lt_example_def LinearTransform_schema_def
      eval_nat_numeral)





subsection \<open>The steps of co-simulation\<close>

lemma euler_states_spec:
  "i + r \<le> length (vrStates M) \<Longrightarrow>
   euler_states M h r i cmp = spec_advance_states M h (take r (drop i (vrStates M))) cmp"
proof (induction r arbitrary: i cmp)
  case 0
  then show ?case by simp
next
  case (Suc r)
  then have i: "i < length (vrStates M)" by simp
  then have t: "take (Suc r) (drop i (vrStates M))
                  = vrStates M ! i # take r (drop (Suc i) (vrStates M))"
    by (simp add: take_Suc_conv_app_nth Cons_nth_drop_Suc [symmetric])
  from Suc.prems have "Suc i + r \<le> length (vrStates M)" by simp
  note ih = Suc.IH [OF this]
  show ?case
    unfolding t
    by (simp add: i elem_def ih spec_advance_state_def get_r_def set_r_def R_def bnd_def
        split: sum.splits prod.splits)
qed

lemma take_Suc_update:
  assumes "take (Suc i) ys = take (Suc i) (xs[i := x])" and "length ys = length xs"
    and "i < length xs"
  shows "ys ! i = x \<and> take i ys = take i xs"
proof -
  from assms have "take i ys @ [ys ! i] = take i xs @ [x]"
    by (simp add: take_Suc_conv_app_nth)
  then show ?thesis by simp
qed

lemma sample_indicators_spec:
  assumes "sample_indicators M cmp r i prev = Inr prev'"
    and "i + r \<le> length prev"
  shows "length prev' = length prev \<and> take i prev' = take i prev
         \<and> spec_indicators M cmp [i..<i + r] = Inr (take r (drop i prev'))"
  using assms
proof (induction r arbitrary: i prev)
  case 0
  then show ?case by simp
next
  case (Suc r)
  from Suc.prems have i: "i < length prev" by simp
  from Suc.prems(1) i obtain ei where
      ei: "getEventIndicator M cmp i = Inr ei"
    and rest: "sample_indicators M cmp r (Suc i) (prev[i := ei]) = Inr prev'"
    by (auto simp add: bnd_def split: sum.splits)
  from Suc.prems(2) have "Suc i + r \<le> length (prev[i := ei])" by simp
  from Suc.IH [OF rest this] have
      len: "length prev' = length prev"
    and same: "take (Suc i) prev' = take (Suc i) (prev[i := ei])"
    and ind: "spec_indicators M cmp [Suc i..<Suc i + r] = Inr (take r (drop (Suc i) prev'))"
    by simp_all
  from take_Suc_update [OF same len i] have at_i: "prev' ! i = ei"
    and before: "take i prev' = take i prev"
    by simp_all
  have upt: "[i..<i + Suc r] = i # [Suc i..<Suc i + r]"
    by (simp add: upt_conv_Cons)
  from i len have "take (Suc r) (drop i prev') = prev' ! i # take r (drop (Suc i) prev')"
    by (simp add: Cons_nth_drop_Suc [symmetric])
  with at_i ei ind len before show ?case
    unfolding upt by simp
qed

lemma spec_state_event_Cons:
  "spec_state_event A (p # ps) (c # cs) \<longleftrightarrow> spec_flip A p c \<or> spec_state_event A ps cs"
  by (simp add: spec_state_event_def)

lemma check_indicators_spec:
  assumes "check_indicators M r i prev se cmp = Inr (prev', se', cmp')"
    and "i + r \<le> length prev"
  shows "length prev' = length prev \<and> take i prev' = take i prev \<and> se \<le> se'
         \<and> spec_recompute M (take r (drop i prev)) i cmp = Inr (take r (drop i prev'), cmp')
         \<and> (se < se' \<longleftrightarrow> spec_state_event (arithmetic M) (take r (drop i prev))
                             (take r (drop i prev')))"
  using assms
proof (induction r arbitrary: i prev se cmp)
  case 0
  then show ?case by (simp add: spec_state_event_def)
next
  case (Suc r)
  let ?flip = "spec_flip (arithmetic M) (prev ! i)"
  let ?log = "\<lambda>c. FILTERED_LOG c fmi3OK LOG_EVENT
                     ''fmi3DoStep: state event at %g, z%d crosses zero -%c-''"
  from Suc.prems have i: "i < length prev" by simp
  from Suc.prems(1) i obtain ei where
      ei: "getEventIndicator M cmp i = Inr ei"
    and rest: "check_indicators M r (Suc i) (prev[i := ei])
                 (if ?flip ei then se + 1 else se)
                 (if ?flip ei then ?log cmp else cmp)
               = Inr (prev', se', cmp')"
    by (auto simp add: bnd_def elem_def spec_flip_def split: sum.splits if_splits)
  from Suc.prems(2) have "Suc i + r \<le> length (prev[i := ei])" by simp
  from Suc.IH [OF rest this] have
      len: "length prev' = length prev"
    and same: "take (Suc i) prev' = take (Suc i) (prev[i := ei])"
    and mono: "(if ?flip ei then se + 1 else se) \<le> se'"
    and rec: "spec_recompute M (take r (drop (Suc i) prev)) (Suc i)
                (if ?flip ei then ?log cmp else cmp)
              = Inr (take r (drop (Suc i) prev'), cmp')"
    and flag: "(if ?flip ei then se + 1 else se) < se'
                 \<longleftrightarrow> spec_state_event (arithmetic M) (take r (drop (Suc i) prev))
                       (take r (drop (Suc i) prev'))"
    by simp_all
  from take_Suc_update [OF same len i] have at_i: "prev' ! i = ei"
    and before: "take i prev' = take i prev"
    by simp_all
  from i have old: "take (Suc r) (drop i prev) = prev ! i # take r (drop (Suc i) prev)"
    by (simp add: Cons_nth_drop_Suc [symmetric])
  from i len at_i
  have new: "take (Suc r) (drop i prev') = ei # take r (drop (Suc i) prev')"
    by (simp add: Cons_nth_drop_Suc [symmetric])
  have "spec_recompute M (take (Suc r) (drop i prev)) i cmp
          = Inr (take (Suc r) (drop i prev'), cmp')"
    unfolding old new by (simp add: ei rec)
  moreover have "se \<le> se'" using mono by (simp split: if_splits)
  moreover have "se < se' \<longleftrightarrow> spec_state_event (arithmetic M) (take (Suc r) (drop i prev))
                                  (take (Suc r) (drop i prev'))"
    unfolding old new spec_state_event_Cons using flag mono by (auto split: if_splits)
  ultimately show ?case using len before by simp
qed

lemma DoStep_body_spec:
  assumes body: "DoStep_body M h (prev, 0, 0, cmp) = Inr (ret, prev', se', te', cmp')"
    and states: "NUMBER_OF_STATES M \<le> length (vrStates M)"
    and indicators: "NUMBER_OF_EVENT_INDICATORS M \<le> length prev"
  shows "spec_substep M h (take (NUMBER_OF_EVENT_INDICATORS M) prev, cmp)
           = Inr (ret, take (NUMBER_OF_EVENT_INDICATORS M) prev', cmp')
         \<and> length prev' = length prev \<and> (ret = None \<longrightarrow> se' = 0 \<and> te' = 0)"
proof -
  let ?c1 = "cmp\<lparr>time := fadd (arithmetic M) (time cmp) h\<rparr>"
  let ?n = "NUMBER_OF_EVENT_INDICATORS M"
  let ?sv = "save_states M ?c1 (NUMBER_OF_STATES M) 0 (replicate (max (NUMBER_OF_STATES M) 1) 0)"
  let ?eu = "euler_states M h (NUMBER_OF_STATES M) 0 ?c1"
  have start: "DoStep_body M h (prev, 0, 0, cmp)
      = bnd ?sv (\<lambda>prevState. bnd ?eu (\<lambda>c.
          bnd (check_indicators M ?n 0 prev 0 c) (\<lambda>(p, se, c).
            let (c, te) =
                 (if nextEventTimeDefined (eventInfo c)
                     \<and> fsub (arithmetic M) (time c) (nextEventTime (eventInfo c))
                         > - flit (arithmetic M) DT_EVENT_DETECT
                  then (FILTERED_LOG c fmi3OK LOG_EVENT
                          ''fmi3DoStep: time event detected at %g'', 1)
                  else (c, 0))
            in bnd (if se \<noteq> 0 \<or> te \<noteq> 0
                    then bnd (eventUpdate M c (te \<noteq> 0) True) (\<lambda>c. Inr (c, 0, 0))
                    else Inr (c, se, te)) (\<lambda>(c, se, te).
               if terminateSimulation (eventInfo c)
               then Inr (Some fmi3Discard, p, se, te,
                         (FILTERED_LOG c fmi3Discard LOG_ALL
                            ''fmi3DoStep: model requested termination at t=%g'')
                           \<lparr>state := modelStepFailed\<rparr>)
               else Inr (None, p, se, te, c)))))"
    by (simp add: DoStep_body_def Let_def)
  from body obtain ps where sv: "?sv = Inr ps"
    unfolding start by (cases ?sv) simp_all
  from body obtain c2 where eu: "?eu = Inr c2"
    unfolding start sv by (cases ?eu) simp_all
  from body obtain p1 se1 c3 where
      chk: "check_indicators M ?n 0 prev 0 c2 = Inr (p1, se1, c3)"
    unfolding start sv eu by (cases "check_indicators M ?n 0 prev 0 c2") auto
  let ?tc = "nextEventTimeDefined (eventInfo c3)
             \<and> fsub (arithmetic M) (time c3) (nextEventTime (eventInfo c3))
                 > - flit (arithmetic M) DT_EVENT_DETECT"
  let ?c4 = "if ?tc then FILTERED_LOG c3 fmi3OK LOG_EVENT
                           ''fmi3DoStep: time event detected at %g'' else c3"
  let ?out = "\<lambda>p se te c. if terminateSimulation (eventInfo c)
               then Inr (Some fmi3Discard, p, se, te,
                         (FILTERED_LOG c fmi3Discard LOG_ALL
                            ''fmi3DoStep: model requested termination at t=%g'')
                           \<lparr>state := modelStepFailed\<rparr>)
               else Inr (None, p, se, te, c)"
  from states eu have adv: "spec_advance_states M h (take (NUMBER_OF_STATES M) (vrStates M)) ?c1
                              = Inr c2"
    using euler_states_spec [of 0 "NUMBER_OF_STATES M" M h ?c1] by simp
  from indicators have "0 + ?n \<le> length prev" by simp
  from check_indicators_spec [OF chk this] have
      len: "length p1 = length prev"
    and rec: "spec_recompute M (take ?n prev) 0 c2 = Inr (take ?n p1, c3)"
    and flag: "spec_state_event (arithmetic M) (take ?n prev) (take ?n p1) \<longleftrightarrow> se1 \<noteq> 0"
    by simp_all
  have spec: "spec_substep M h (take ?n prev, cmp)
      = bnd (if se1 \<noteq> 0 \<or> ?tc then eventUpdate M ?c4 ?tc True else Inr ?c4) (\<lambda>c.
          if terminateSimulation (eventInfo c)
          then Inr (Some fmi3Discard, take ?n p1,
                    (FILTERED_LOG c fmi3Discard LOG_ALL
                       ''fmi3DoStep: model requested termination at t=%g'')
                      \<lparr>state := modelStepFailed\<rparr>)
          else Inr (None, take ?n p1, c))"
    by (simp add: spec_substep_def Let_def adv rec flag)
  show ?thesis
  proof (cases "se1 \<noteq> 0 \<or> ?tc")
    case True
    then have code: "DoStep_body M h (prev, 0, 0, cmp)
        = bnd (eventUpdate M ?c4 ?tc True) (\<lambda>c. ?out p1 0 0 c)"
      unfolding start sv eu by (auto simp add: chk bnd_def split: sum.splits)
    from body obtain c5 where ev: "eventUpdate M ?c4 ?tc True = Inr c5"
      unfolding code by (cases "eventUpdate M ?c4 ?tc True") simp_all
    from True have spec': "spec_substep M h (take ?n prev, cmp)
        = (if terminateSimulation (eventInfo c5)
           then Inr (Some fmi3Discard, take ?n p1,
                     (FILTERED_LOG c5 fmi3Discard LOG_ALL
                        ''fmi3DoStep: model requested termination at t=%g'')
                       \<lparr>state := modelStepFailed\<rparr>)
           else Inr (None, take ?n p1, c5))"
      unfolding spec by (simp only: if_True ev bnd_Inr)
    from body [unfolded code ev bnd_Inr] show ?thesis
      unfolding spec' using len by (simp split: if_splits)
  next
    case False
    then have code: "DoStep_body M h (prev, 0, 0, cmp) = ?out p1 0 0 c3"
      unfolding start sv eu by (auto simp add: chk)
    from False have spec': "spec_substep M h (take ?n prev, cmp)
        = (if terminateSimulation (eventInfo c3)
           then Inr (Some fmi3Discard, take ?n p1,
                     (FILTERED_LOG c3 fmi3Discard LOG_ALL
                        ''fmi3DoStep: model requested termination at t=%g'')
                       \<lparr>state := modelStepFailed\<rparr>)
           else Inr (None, take ?n p1, c3))"
      unfolding spec by auto
    from body [unfolded code] show ?thesis
      unfolding spec' using len by (simp split: if_splits)
  qed
qed

lemma DoStep_body_ret:
  "DoStep_body M h locals = Inr (Some st, locals') \<Longrightarrow> st = fmi3Discard"
  by (cases locals)
    (auto simp add: DoStep_body_def Let_def bnd_def split: sum.splits prod.splits if_splits)

lemma DoStep_loop_ret:
  "DoStep_loop M h r locals = Inr (Some st, locals') \<Longrightarrow> st = fmi3Discard"
  by (induction r arbitrary: locals)
    (auto simp add: bnd_def split: sum.splits option.splits dest: DoStep_body_ret)

lemma DoStep_loop_spec:
  assumes "DoStep_loop M h r (prev, 0, 0, cmp) = Inr (None, prev', se', te', cmp')"
    and "NUMBER_OF_STATES M \<le> length (vrStates M)"
    and "NUMBER_OF_EVENT_INDICATORS M \<le> length prev"
  shows "spec_substeps M h r (take (NUMBER_OF_EVENT_INDICATORS M) prev, cmp)
           = Inr (None, take (NUMBER_OF_EVENT_INDICATORS M) prev', cmp')"
  using assms
proof (induction r arbitrary: prev cmp)
  case 0
  then show ?case by simp
next
  case (Suc r)
  from Suc.prems(1) obtain p1 s1 t1 c1 where
      body: "DoStep_body M h (prev, 0, 0, cmp) = Inr (None, p1, s1, t1, c1)"
    and rest: "DoStep_loop M h r (p1, s1, t1, c1) = Inr (None, prev', se', te', cmp')"
    by (auto simp add: bnd_def split: sum.splits option.splits)
  from DoStep_body_spec [OF body Suc.prems(2) Suc.prems(3)] have
      sub: "spec_substep M h (take (NUMBER_OF_EVENT_INDICATORS M) prev, cmp)
              = Inr (None, take (NUMBER_OF_EVENT_INDICATORS M) p1, c1)"
    and len: "length p1 = length prev"
    and zero: "s1 = 0" "t1 = 0"
    by simp_all
  from Suc.prems(3) len have "NUMBER_OF_EVENT_INDICATORS M \<le> length p1" by simp
  from Suc.IH [OF rest [unfolded zero] Suc.prems(2) this] sub
  show ?case by simp
qed

lemma euler_states_in_range:
  "euler_states M h r i cmp = Inr cmp' \<Longrightarrow> r = 0 \<or> i + r \<le> length (vrStates M)"
proof (induction r arbitrary: i cmp)
  case 0
  then show ?case by simp
next
  case (Suc r)
  from Suc.prems obtain c1 where
      i: "i < length (vrStates M)"
    and rest: "euler_states M h r (Suc i) c1 = Inr cmp'"
    by (auto simp add: bnd_def elem_def split: sum.splits if_splits prod.splits)
  from Suc.IH [OF rest] i show ?case by auto
qed

lemma DoStep_body_states:
  assumes "DoStep_body M h (prev, se, te, cmp) = Inr r"
  shows "NUMBER_OF_STATES M \<le> length (vrStates M)"
proof -
  from assms obtain c2 where
      "euler_states M h (NUMBER_OF_STATES M) 0 (cmp\<lparr>time := fadd (arithmetic M) (time cmp) h\<rparr>)
         = Inr c2"
    by (auto simp add: DoStep_body_def Let_def bnd_def split: sum.splits)
  from euler_states_in_range [OF this] show ?thesis by auto
qed


lemmas bb_defs = BouncingBall_def bb_getReal_def bb_calculateValues_def bb_getEventIndicator_def
  bb_eventUpdate_def bb_h_def bb_der_h_def bb_v_def bb_der_v_def bb_g_def bb_e_def
  bb_example_def bb_moving_at_def no_event_def exact_def

lemma bb_moving_body:
  "DoStep_body BouncingBall 1 ([x + EPS_INDICATORS], 0, 0, bb_moving_at s x)
     = Inr (None, [x + 1 + EPS_INDICATORS], 0, 0, bb_moving_at (s + 1) (x + 1))"
  if "x > 0"
proof -
  have "\<not> (x + 1 + 1 / 10 ^ 14) * (x + 1 / 10 ^ 14) < 0"
    using that by (simp add: mult_less_0_iff)
  with that show ?thesis
    by (simp add: DoStep_body_def Let_def access_defs bb_defs log_defs EPS_INDICATORS_def
        DT_EVENT_DETECT_def numeral_2_eq_2)
qed

lemma bb_moving_loop:
  "DoStep_loop BouncingBall 1 10 ([1 + EPS_INDICATORS], 0, 0, bb_moving_at 0 1)
     = Inr (None, [11 + EPS_INDICATORS], 0, 0, bb_moving_at 10 11)"
  by (simp add: eval_nat_numeral bb_moving_body)

lemma bb_moving_DoStep:
  "fmi3DoStep BouncingBall (Some (bb_moving_at 0 1)) 0 10 False
     = Inr (fmi3OK, Some (bb_moving_at 10 11))"
proof -
  have log: "FILTERED_LOG (bb_moving_at 0 1) fmi3OK LOG_FMI_CALL m = bb_moving_at 0 1" for m
    by (simp add: log_defs bb_moving_at_def bb_example_def)
  have t0: "(bb_moving_at 0 1)\<lparr>time := 0\<rparr> = bb_moving_at 0 1"
    by (simp add: bb_moving_at_def)
  have legal: "enum_val (state (bb_moving_at 0 1)) AND MASK_fmi3DoStep \<noteq> 0"
    by (simp add: bb_moving_at_def bb_example_def mask_defs)
  have sample: "sample_indicators BouncingBall (bb_moving_at 0 1)
                  (NUMBER_OF_EVENT_INDICATORS BouncingBall) 0
                  (replicate (max (NUMBER_OF_EVENT_INDICATORS BouncingBall) (Suc 0)) 0)
                = Inr [1 + EPS_INDICATORS]"
    by (simp add: access_defs bb_defs)
  have h: "fdiv (arithmetic BouncingBall) 10 10 = 1"
    by (simp add: BouncingBall_def exact_def)
  show ?thesis
    by (simp add: fmi3DoStep_def invalidState_legal [OF legal] Let_def log t0 sample h
        bb_moving_loop del: DoStep_loop.simps)
qed




end
